(* ===== verification/Prelude.thy ===== *)
theory Prelude
  imports Main "HOL-Library.Multiset"
begin

text \<open>
  Shared vocabulary of the development: the types that name identities and times of the
  task-management backend, the lemma collections the component theories fill, and the
  generic facts on lists and association lists that the component proofs share.
\<close>

section \<open>Identities, times, query strings\<close>

text \<open>
  MongoDB object ids (\<open>_id\<close>, \<open>createdBy\<close>, \<open>assignedTo\<close>) are modelled by natural
  numbers: the code only creates them, stores them and compares them.  Timestamps
  (\<open>createdAt\<close>, \<open>dueDate\<close>, the bounds of a date range) are JavaScript \<open>Date\<close>
  values, that is integers counting milliseconds since the epoch.
\<close>

type_synonym oid = nat
type_synonym time = int

text \<open>
  Express parses a query string into an object of strings; a parameter is read as
  \<open>req.query.k\<close>, which is \<open>undefined\<close> when the key is absent.  The association
  list keeps the first binding of a key, as the parsed object has one value per key.
\<close>

type_synonym query = "(string \<times> string) list"

definition qparam :: "query \<Rightarrow> string \<Rightarrow> string option" where
  "qparam q k = map_of q k"

text \<open>JavaScript truthiness of a string parameter: \<open>undefined\<close> and \<open>''\<close> are falsy.\<close>

fun truthy :: "string option \<Rightarrow> bool" where
  "truthy None = False"
| "truthy (Some s) = (s \<noteq> [])"

text \<open>\<open>if (v) { body }\<close> on a string parameter: the body runs on the string when it is truthy.\<close>

definition if_truthy :: "string option \<Rightarrow> (string \<Rightarrow> 'a \<Rightarrow> 'a) \<Rightarrow> 'a \<Rightarrow> 'a" where
  "if_truthy v k x = (case v of Some s \<Rightarrow> if s \<noteq> [] then k s x else x | None \<Rightarrow> x)"

section \<open>Decimal numerals\<close>

text \<open>\<open>String(n)\<close> of a non-negative integer: its decimal digits, most significant first.\<close>

fun nat_str :: "nat \<Rightarrow> string" where
  "nat_str n = (if n < 10 then [char_of (48 + n)] else nat_str (n div 10) @ [char_of (48 + n mod 10)])"

declare nat_str.simps [simp del]

section \<open>ASCII case folding\<close>

text \<open>
  \<open>String.prototype.toLowerCase\<close> restricted to ASCII, which is also what a regular
  expression with the \<open>i\<close> flag identifies: an upper-case letter is matched by its
  lower-case letter.  Express matches route paths with such expressions, and the
  \<open>cors\<close> middleware compares header names after lower-casing them.
\<close>

definition lower_char :: "char \<Rightarrow> char" where
  "lower_char c = (let n = (of_char c :: nat) in if 65 \<le> n \<and> n \<le> 90 then char_of (n + 32) else c)"

definition lower_str :: "string \<Rightarrow> string" where
  "lower_str s = map lower_char s"

section \<open>Lemma collections\<close>

named_theorems handler_simps "characteristic equations of the request handlers"
named_theorems store_simps "equations of the document store operations"

section \<open>Generic list facts\<close>

lemma truthy_Some_iff [simp]: "truthy v \<longleftrightarrow> (\<exists>s. v = Some s \<and> s \<noteq> [])"
  by (cases v) auto

lemma if_truthy_simps [simp]:
  "if_truthy None k x = x"
  "if_truthy (Some []) k x = x"
  "s \<noteq> [] \<Longrightarrow> if_truthy (Some s) k x = k s x"
  by (simp_all add: if_truthy_def)

lemma if_truthy_cases:
  "P (if_truthy v k x) \<longleftrightarrow> ((\<exists>s. v = Some s \<and> s \<noteq> [] \<and> P (k s x)) \<or> (\<not> truthy v \<and> P x))"
  by (cases v) (auto simp: if_truthy_def)

lemma find_Some_mem:
  "find P xs = Some x \<Longrightarrow> P x \<and> x \<in> set xs"
  by (induction xs) (auto split: if_splits)

lemma find_None_iff': "find P xs = None \<longleftrightarrow> (\<forall>x \<in> set xs. \<not> P x)"
  by (induction xs) auto

lemma find_map: "find P (map f xs) = map_option f (find (P \<circ> f) xs)"
  by (induction xs) simp_all

lemma find_distinct_key:
  "distinct (map f xs) \<Longrightarrow> x \<in> set xs \<Longrightarrow> find (\<lambda>y. f y = f x) xs = Some x"
  by (induction xs) (auto simp: image_iff)

lemma concat_map_singleton_distinct:
  "distinct ks \<Longrightarrow>
   concat (map (\<lambda>k. if a = k then [x] else []) ks) = (if a \<in> set ks then [x] else [])"
  by (induction ks) auto

lemma sum_list_indicator_distinct:
  "distinct ks \<Longrightarrow> (\<Sum>k \<leftarrow> ks. if a = k then 1 else 0) = (if a \<in> set ks then 1 else (0::nat))"
  by (induction ks) auto

lemma sum_list_filter_length:
  "distinct ks \<Longrightarrow> set (map f xs) \<subseteq> set ks \<Longrightarrow>
   (\<Sum>k \<leftarrow> ks. length (filter (\<lambda>x. f x = k) xs)) = length xs"
proof (induction xs)
  case Nil
  then show ?case by simp
next
  case (Cons x xs)
  have "(\<Sum>k \<leftarrow> ks. length (filter (\<lambda>y. f y = k) (x # xs)))
      = (\<Sum>k \<leftarrow> ks. if f x = k then 1 else 0) + (\<Sum>k \<leftarrow> ks. length (filter (\<lambda>y. f y = k) xs))"
    by (induction ks) auto
  with Cons show ?case
    by (simp add: sum_list_indicator_distinct)
qed

lemma mset_concat_filter_partition:
  "distinct ks \<Longrightarrow> set (map f xs) \<subseteq> set ks \<Longrightarrow>
   mset (concat (map (\<lambda>k. filter (\<lambda>x. f x = k) xs) ks)) = mset xs"
proof (induction xs)
  case Nil
  then show ?case by (induction ks) auto
next
  case (Cons x xs)
  have split: "mset (concat (map (\<lambda>k. filter (\<lambda>y. f y = k) (x # xs)) ks))
      = mset (concat (map (\<lambda>k. if f x = k then [x] else []) ks))
        + mset (concat (map (\<lambda>k. filter (\<lambda>y. f y = k) xs) ks))"
    by (induction ks) auto
  with Cons show ?case
    by (simp add: concat_map_singleton_distinct)
qed

lemma nat_str_digits: "c \<in> set (nat_str n) \<Longrightarrow> 48 \<le> (of_char c :: nat) \<and> (of_char c :: nat) < 58"
proof (induction n rule: nat_str.induct)
  case (1 n)
  show ?case
  proof (cases "n < 10")
    case True
    with "1.prems" show ?thesis by (auto simp: nat_str.simps of_char_of)
  next
    case False
    with "1.prems" have "c = char_of (48 + n mod 10) \<or> c \<in> set (nat_str (n div 10))"
      by (simp add: nat_str.simps [of n])
    with "1.IH" False show ?thesis by (auto simp: of_char_of)
  qed
qed

text \<open>Case folding evaluates on string literals by these equations.\<close>

lemma lower_str_simps [simp]:
  "lower_str [] = []"
  "lower_str (c # s) = lower_char c # lower_str s"
  by (simp_all add: lower_str_def)

lemmas lower_eval = lower_char_def char_of_def bit_0

lemma length_lower_str [simp]: "length (lower_str s) = length s"
  by (simp add: lower_str_def)

lemma lower_str_Nil_iff [simp]: "lower_str s = [] \<longleftrightarrow> s = []"
  by (simp add: lower_str_def)

lemma nat_str_not_Nil [simp]: "nat_str n \<noteq> []"
  by (simp add: nat_str.simps [of n])

end
