(* ===== verification/TaskModel.thy ===== *)
theory TaskModel
  imports Prelude
begin

text \<open>
  The persistent data of the backend: the Mongoose \<open>Task\<close> schema of
  \<open>src/backend/models/Task.js\<close> (a record with its enumerations and defaults), the
  \<open>User\<close> document (its model file is not part of the sources; its fields are taken from
  the spec and from how the controller reads them), and the document store as a record
  of two collections with an id allocator.  The store operations are the Mongoose calls
  the controller makes: \<open>findById\<close>, \<open>findOne({username})\<close>, \<open>populate\<close>,
  \<open>save\<close> and \<open>remove\<close>.
\<close>

section \<open>Enumerations\<close>

datatype status = ToDo | InProgress | Completed

datatype priority = Low | Medium | High

text \<open>The strings the schema's \<open>enum\<close> lists, in its order.\<close>

fun status_str :: "status \<Rightarrow> string" where
  "status_str ToDo = ''To Do''"
| "status_str InProgress = ''In Progress''"
| "status_str Completed = ''Completed''"

fun priority_str :: "priority \<Rightarrow> string" where
  "priority_str Low = ''Low''"
| "priority_str Medium = ''Medium''"
| "priority_str High = ''High''"

definition status_values :: "status list" where
  "status_values = [ToDo, InProgress, Completed]"

definition priority_values :: "priority list" where
  "priority_values = [Low, Medium, High]"

text \<open>Mongoose's enum check: a string is stored only if it is one of the values.\<close>

definition parse_status :: "string \<Rightarrow> status option" where
  "parse_status s = find (\<lambda>v. status_str v = s) status_values"

definition parse_priority :: "string \<Rightarrow> priority option" where
  "parse_priority s = find (\<lambda>v. priority_str v = s) priority_values"

definition default_status :: status where
  "default_status = ToDo"

definition default_priority :: priority where
  "default_priority = Medium"

section \<open>Documents\<close>

text \<open>
  A stored task.  \<open>assignedTo\<close> is optional (absent in the document when no one is
  assigned), \<open>createdBy\<close> is required; \<open>createdAt\<close> and \<open>updatedAt\<close> are the
  fields that \<open>timestamps: true\<close> maintains.
\<close>

record task =
  task_id :: oid
  title :: string
  description :: string
  dueDate :: time
  status :: status
  assignedTo :: "oid option"
  createdBy :: oid
  priority :: priority
  createdAt :: time
  updatedAt :: time

text \<open>
  A user document and the authenticated principal \<open>req.user\<close>, which the auth
  middleware loads from the same collection.  \<open>password\<close> is the credential secret of
  the spec (stored hashed; the hash is not modelled).
\<close>

record user =
  user_id :: oid
  username :: string
  email :: string
  password :: string
  isAdmin :: bool

record db =
  tasks :: "task list"
  users :: "user list"
  next_oid :: oid

section \<open>Store operations\<close>

text \<open>\<open>Task.findById(id)\<close>.\<close>

definition find_task :: "db \<Rightarrow> oid \<Rightarrow> task option" where
  "find_task d i = find (\<lambda>t. task_id t = i) (tasks d)"

text \<open>\<open>User.findOne({ username })\<close>: the first user in natural order with that name.\<close>

definition find_user_by_name :: "db \<Rightarrow> string \<Rightarrow> user option" where
  "find_user_by_name d n = find (\<lambda>u. username u = n) (users d)"

text \<open>
  \<open>populate(path, 'username')\<close> replaces a reference by \<open>{_id, username}\<close> of the
  user it names, or by \<open>null\<close> when the user does not exist; a path the document does
  not have stays \<open>undefined\<close>.  Both are \<open>None\<close> here: code whose behaviour
  depends on the difference (the error message of \<open>getTask\<close>, the JSON of a view)
  reads the stored reference of the task beside its populated value.
\<close>

record user_ref =
  ref_id :: oid
  ref_username :: string

definition populate :: "db \<Rightarrow> oid option \<Rightarrow> user_ref option" where
  "populate d r = (case r of
      None \<Rightarrow> None
    | Some i \<Rightarrow> map_option (\<lambda>u. \<lparr>ref_id = user_id u, ref_username = username u\<rparr>)
                 (find (\<lambda>u. user_id u = i) (users d)))"

record task_view =
  tv_task :: task
  tv_assignedTo :: "user_ref option"
  tv_createdBy :: "user_ref option"

definition view_task :: "db \<Rightarrow> task \<Rightarrow> task_view" where
  "view_task d t = \<lparr>tv_task = t, tv_assignedTo = populate d (assignedTo t),
                    tv_createdBy = populate d (Some (createdBy t))\<rparr>"

text \<open>A new document receives a fresh object id.\<close>

definition fresh_oid :: "db \<Rightarrow> oid \<times> db" where
  "fresh_oid d = (next_oid d, d\<lparr>next_oid := Suc (next_oid d)\<rparr>)"

text \<open>\<open>save()\<close> of a new document appends it to the collection; of a loaded one
  replaces the stored version; \<open>remove()\<close> deletes it.\<close>

definition insert_task :: "task \<Rightarrow> db \<Rightarrow> db" where
  "insert_task t d = d\<lparr>tasks := tasks d @ [t]\<rparr>"

definition replace_task :: "task \<Rightarrow> db \<Rightarrow> db" where
  "replace_task t d = d\<lparr>tasks := map (\<lambda>t'. if task_id t' = task_id t then t else t') (tasks d)\<rparr>"

definition remove_task :: "oid \<Rightarrow> db \<Rightarrow> db" where
  "remove_task i d = d\<lparr>tasks := filter (\<lambda>t. task_id t \<noteq> i) (tasks d)\<rparr>"

text \<open>
  The collection seen as the finite map from id to document that \<open>findById\<close> reads:
  the abstraction under which the list operations above are map updates.
\<close>

definition abs_tasks :: "db \<Rightarrow> oid \<rightharpoonup> task" where
  "abs_tasks d = map_of (map (\<lambda>t. (task_id t, t)) (tasks d))"

section \<open>Well-formed stores\<close>

text \<open>
  The store invariant: ids are unique and below the allocator, usernames are unique
  (the User model's unique index), and every reference of a task names an existing
  user.
\<close>

definition user_ids :: "db \<Rightarrow> oid set" where
  "user_ids d = user_id ` set (users d)"

definition wf_db :: "db \<Rightarrow> bool" where
  "wf_db d \<longleftrightarrow>
     distinct (map task_id (tasks d)) \<and> distinct (map user_id (users d)) \<and>
     distinct (map username (users d)) \<and>
     (\<forall>t \<in> set (tasks d). task_id t < next_oid d \<and> createdBy t \<in> user_ids d \<and>
        set_option (assignedTo t) \<subseteq> user_ids d) \<and>
     (\<forall>u \<in> set (users d). user_id u < next_oid d)"

section \<open>Lemmas\<close>

lemma status_str_inj [simp]: "status_str a = status_str b \<longleftrightarrow> a = b"
  by (cases a; cases b) simp_all

lemma priority_str_inj [simp]: "priority_str a = priority_str b \<longleftrightarrow> a = b"
  by (cases a; cases b) simp_all

lemma set_status_values [simp]: "set status_values = UNIV"
  by (auto simp: status_values_def intro: status.exhaust)

lemma set_priority_values [simp]: "set priority_values = UNIV"
  by (auto simp: priority_values_def intro: priority.exhaust)

lemma parse_status_str [simp]: "parse_status (status_str v) = Some v"
  by (cases v) (simp_all add: parse_status_def status_values_def)

lemma parse_priority_str [simp]: "parse_priority (priority_str v) = Some v"
  by (cases v) (simp_all add: parse_priority_def priority_values_def)

lemma parse_status_Some: "parse_status s = Some v \<Longrightarrow> status_str v = s"
  unfolding parse_status_def by (drule find_Some_mem) simp

lemma parse_priority_Some: "parse_priority s = Some v \<Longrightarrow> priority_str v = s"
  unfolding parse_priority_def by (drule find_Some_mem) simp

lemma find_task_Some [store_simps]:
  "find_task d i = Some t \<Longrightarrow> t \<in> set (tasks d) \<and> task_id t = i"
  unfolding find_task_def by (drule find_Some_mem) simp

lemma find_task_None [store_simps]:
  "find_task d i = None \<longleftrightarrow> i \<notin> task_id ` set (tasks d)"
  unfolding find_task_def by (auto simp: find_None_iff')

lemma find_user_by_name_Some [store_simps]:
  "find_user_by_name d n = Some u \<Longrightarrow> u \<in> set (users d) \<and> username u = n"
  unfolding find_user_by_name_def by (drule find_Some_mem) simp

lemma find_user_by_name_None [store_simps]:
  "find_user_by_name d n = None \<longleftrightarrow> n \<notin> username ` set (users d)"
  unfolding find_user_by_name_def by (auto simp: find_None_iff')

lemma populate_Some_iff:
  "populate d (Some i) \<noteq> None \<longleftrightarrow> i \<in> user_ids d"
  by (auto simp: populate_def user_ids_def find_None_iff')

lemma populate_ref_id:
  "populate d r = Some v \<Longrightarrow> r = Some (ref_id v)"
  by (auto simp: populate_def split: option.splits dest!: find_Some_mem)

lemma wf_db_find_task_unique:
  "wf_db d \<Longrightarrow> t \<in> set (tasks d) \<Longrightarrow> find_task d (task_id t) = Some t"
  unfolding wf_db_def find_task_def by (simp add: find_distinct_key)

lemma find_key_map_of: "find (\<lambda>t. k t = i) xs = map_of (map (\<lambda>t. (k t, t)) xs) i"
  by (induction xs) auto

lemma map_of_replace:
  "map_of (map (\<lambda>x. (k x, x)) (map (\<lambda>x. if k x = k t then t else x) xs)) =
   (if k t \<in> dom (map_of (map (\<lambda>x. (k x, x)) xs)) then (map_of (map (\<lambda>x. (k x, x)) xs))(k t \<mapsto> t)
    else map_of (map (\<lambda>x. (k x, x)) xs))"
  by (induction xs) (auto simp: fun_eq_iff dom_def)

lemma map_of_remove:
  "map_of (map (\<lambda>x. (k x, x)) (filter (\<lambda>x. k x \<noteq> i) xs)) = (map_of (map (\<lambda>x. (k x, x)) xs))(i := None)"
  by (induction xs) (auto simp: fun_eq_iff)

lemma find_task_abs: "find_task d i = abs_tasks d i"
  by (simp add: find_task_def abs_tasks_def find_key_map_of)

lemma abs_tasks_insert:
  "task_id t \<notin> dom (abs_tasks d) \<Longrightarrow> abs_tasks (insert_task t d) = (abs_tasks d)(task_id t \<mapsto> t)"
  by (auto simp: abs_tasks_def insert_task_def map_add_def fun_eq_iff dom_def split: option.split)

lemma abs_tasks_replace:
  "abs_tasks (replace_task t d) =
     (if task_id t \<in> dom (abs_tasks d) then (abs_tasks d)(task_id t \<mapsto> t) else abs_tasks d)"
proof -
  have "tasks (replace_task t d) = map (\<lambda>x. if task_id x = task_id t then t else x) (tasks d)"
    by (simp add: replace_task_def)
  then show ?thesis unfolding abs_tasks_def by (simp only: map_of_replace)
qed

lemma abs_tasks_remove: "abs_tasks (remove_task i d) = (abs_tasks d)(i := None)"
  unfolding abs_tasks_def remove_task_def by (simp add: map_of_remove)

lemma wf_db_fresh_id: "wf_db d \<Longrightarrow> next_oid d \<notin> dom (abs_tasks d)"
  by (auto simp: wf_db_def abs_tasks_def dom_map_of_conv_image_fst)

end
