(* ===== verification/Dates.thy ===== *)
theory Dates
  imports Prelude
begin

text \<open>
  The controller turns strings into dates in two places: \<open>new Date(startDate)\<close> and
  \<open>new Date(endDate)\<close> for the summary's date range, and the \<open>Joi.date()\<close> and
  Mongoose casts of a task's \<open>dueDate\<close>.  This theory models the JavaScript date parser
  on the ISO 8601 forms of the ECMAScript date-time string format that the application
  produces and sends, and their reduced forms: the date-only forms \<open>YYYY\<close>,
  \<open>YYYY-MM\<close> and \<open>YYYY-MM-DD\<close> (the last is the value of an HTML date input) and the
  form \<open>YYYY-MM-DDTHH:MM:SS.sssZ\<close> of \<open>Date.prototype.toISOString\<close>, all read as UTC.  A parsed date is the number
  of milliseconds since 1970-01-01T00:00:00Z.  Like V8, the parser accepts any day from 1
  to 31 and lets it overflow into the next month.  Strings of any other form are
  treated as invalid dates here (the engine's fallback parser is not modelled).
\<close>

section \<open>Digits\<close>

definition digit_of :: "char \<Rightarrow> nat option" where
  "digit_of c = (let n = of_char c :: nat in if 48 \<le> n \<and> n \<le> 57 then Some (n - 48) else None)"

fun digits_acc :: "nat \<Rightarrow> string \<Rightarrow> nat option" where
  "digits_acc acc [] = Some acc"
| "digits_acc acc (c # cs) =
     (case digit_of c of None \<Rightarrow> None | Some v \<Rightarrow> digits_acc (10 * acc + v) cs)"

definition digits_val :: "string \<Rightarrow> nat option" where
  "digits_val s = (if s = [] then None else digits_acc 0 s)"

definition slice :: "nat \<Rightarrow> nat \<Rightarrow> string \<Rightarrow> string" where
  "slice i j s = take (j - i) (drop i s)"

section \<open>Calendar arithmetic\<close>

text \<open>Days from 1970-01-01 to a proleptic Gregorian date (civil-from-days inverse).\<close>

definition days_from_civil :: "int \<Rightarrow> int \<Rightarrow> int \<Rightarrow> int" where
  "days_from_civil y m d =
     (let y' = (if m \<le> 2 then y - 1 else y);
          era = y' div 400;
          yoe = y' - era * 400;
          mp = (if 2 < m then m - 3 else m + 9);
          doy = (153 * mp + 2) div 5 + d - 1;
          doe = yoe * 365 + yoe div 4 - yoe div 100 + doy
      in era * 146097 + doe - 719468)"

definition ms_per_day :: int where
  "ms_per_day = 86400000"

section \<open>The parser\<close>

definition parse_ymd :: "string \<Rightarrow> (int \<times> int \<times> int) option" where
  "parse_ymd s =
     (if length s = 10 \<and> s ! 4 = CHR ''-'' \<and> s ! 7 = CHR ''-'' then
        (case (digits_val (slice 0 4 s), digits_val (slice 5 7 s), digits_val (slice 8 10 s)) of
           (Some y, Some m, Some d) \<Rightarrow>
             if 1 \<le> m \<and> m \<le> 12 \<and> 1 \<le> d \<and> d \<le> 31 then Some (int y, int m, int d) else None
         | _ \<Rightarrow> None)
      else None)"

definition parse_hms :: "string \<Rightarrow> int option" where
  "parse_hms s =
     (if length s = 14 \<and> s ! 0 = CHR ''T'' \<and> s ! 3 = CHR '':'' \<and> s ! 6 = CHR '':'' \<and>
         s ! 9 = CHR ''.'' \<and> s ! 13 = CHR ''Z'' then
        (case (digits_val (slice 1 3 s), digits_val (slice 4 6 s), digits_val (slice 7 9 s),
               digits_val (slice 10 13 s)) of
           (Some h, Some mi, Some sec, Some ms) \<Rightarrow>
             if h < 24 \<and> mi < 60 \<and> sec < 60
             then Some (int (((h * 60 + mi) * 60 + sec) * 1000 + ms)) else None
         | _ \<Rightarrow> None)
      else None)"

text \<open>
  The reduced forms \<open>YYYY\<close> and \<open>YYYY-MM\<close> of the date-only format name the first day
  of the year or month.
\<close>

definition parse_ym :: "string \<Rightarrow> (int \<times> int) option" where
  "parse_ym s =
     (if length s = 4 then map_option (\<lambda>y. (int y, 1)) (digits_val s)
      else if length s = 7 \<and> s ! 4 = CHR ''-'' then
        (case (digits_val (slice 0 4 s), digits_val (slice 5 7 s)) of
           (Some y, Some m) \<Rightarrow> if 1 \<le> m \<and> m \<le> 12 then Some (int y, int m) else None
         | _ \<Rightarrow> None)
      else None)"

text \<open>\<open>new Date(s)\<close>: \<open>None\<close> is the Invalid Date.\<close>

definition parse_date :: "string \<Rightarrow> time option" where
  "parse_date s =
     (case parse_ym s of
        Some (y, m) \<Rightarrow> Some (days_from_civil y m 1 * ms_per_day)
      | None \<Rightarrow>
          (case parse_ymd (take 10 s) of
             None \<Rightarrow> None
           | Some (y, m, d) \<Rightarrow>
               let day = days_from_civil y m d * ms_per_day in
               if length s = 10 then Some day
               else map_option (\<lambda>t. day + t) (parse_hms (drop 10 s))))"

text \<open>
  A valid date string of HTML, the value of an \<open>input type="date"\<close>: \<open>yyyy-mm-dd\<close>
  naming a day of the proleptic Gregorian calendar from year 1 (four-digit years, the
  ones the date picker produces).
\<close>

definition days_in_month :: "int \<Rightarrow> int \<Rightarrow> int" where
  "days_in_month y m =
     (if m = 2 then (if y mod 4 = 0 \<and> (y mod 100 \<noteq> 0 \<or> y mod 400 = 0) then 29 else 28)
      else if m \<in> {4, 6, 9, 11} then 30 else 31)"

definition valid_date_string :: "string \<Rightarrow> bool" where
  "valid_date_string s =
     (case parse_ymd s of None \<Rightarrow> False | Some (y, m, d) \<Rightarrow> 1 \<le> y \<and> d \<le> days_in_month y m)"

section \<open>Printing, for the round trip\<close>

fun pad_digits :: "nat \<Rightarrow> nat \<Rightarrow> string" where
  "pad_digits 0 n = []"
| "pad_digits (Suc k) n = pad_digits k (n div 10) @ [char_of (48 + n mod 10)]"

definition ymd_str :: "nat \<Rightarrow> nat \<Rightarrow> nat \<Rightarrow> string" where
  "ymd_str y m d = pad_digits 4 y @ ''-'' @ pad_digits 2 m @ ''-'' @ pad_digits 2 d"

text \<open>
  \<open>Date.prototype.toISOString\<close>, which \<open>res.json\<close> applies to the dates of a
  document: the day count split into a civil date (the inverse of
  \<open>days_from_civil\<close>), the remaining milliseconds into the time of day.  Years outside
  0--9999 are written with a sign and six digits.
\<close>

definition civil_from_days :: "int \<Rightarrow> int \<times> int \<times> int" where
  "civil_from_days z0 =
     (let z = z0 + 719468;
          era = z div 146097;
          doe = z - era * 146097;
          yoe = (doe - doe div 1460 + doe div 36524 - doe div 146096) div 365;
          y = yoe + era * 400;
          doy = doe - (365 * yoe + yoe div 4 - yoe div 100);
          mp = (5 * doy + 2) div 153;
          d = doy - (153 * mp + 2) div 5 + 1;
          m = (if mp < 10 then mp + 3 else mp - 9)
      in (if m \<le> 2 then y + 1 else y, m, d))"

definition year_str :: "int \<Rightarrow> string" where
  "year_str y =
     (if 0 \<le> y \<and> y \<le> 9999 then pad_digits 4 (nat y)
      else if y < 0 then ''-'' @ pad_digits 6 (nat (- y))
      else ''+'' @ pad_digits 6 (nat y))"

definition iso_string :: "time \<Rightarrow> string" where
  "iso_string t =
     (case civil_from_days (t div ms_per_day) of
        (y, m, d) \<Rightarrow>
          let r = nat (t mod ms_per_day) in
          year_str y @ ''-'' @ pad_digits 2 (nat m) @ ''-'' @ pad_digits 2 (nat d) @ ''T'' @
          pad_digits 2 (r div 3600000) @ '':'' @ pad_digits 2 (r div 60000 mod 60) @ '':'' @
          pad_digits 2 (r div 1000 mod 60) @ ''.'' @ pad_digits 3 (r mod 1000) @ ''Z'')"

section \<open>Lemmas\<close>

lemma digit_of_char [simp]: "v < 10 \<Longrightarrow> digit_of (char_of (48 + v)) = Some v"
  by (simp add: digit_of_def of_char_of)

lemma length_pad_digits [simp]: "length (pad_digits k n) = k"
  by (induction k arbitrary: n) auto

lemma digits_acc_append:
  "digits_acc acc (xs @ ys) = (case digits_acc acc xs of None \<Rightarrow> None | Some a \<Rightarrow> digits_acc a ys)"
  by (induction acc xs rule: digits_acc.induct) (auto split: option.splits)

lemma digits_acc_pad:
  "n < 10 ^ k \<Longrightarrow> digits_acc acc (pad_digits k n) = Some (acc * 10 ^ k + n)"
proof (induction k arbitrary: n)
  case 0
  then show ?case by simp
next
  case (Suc k)
  then have "n div 10 < 10 ^ k" by (simp add: less_mult_imp_div_less mult.commute)
  with Suc.IH have "digits_acc acc (pad_digits k (n div 10)) = Some (acc * 10 ^ k + n div 10)" .
  then show ?case
    by (simp add: digits_acc_append algebra_simps)
qed

lemma digits_val_pad:
  "0 < k \<Longrightarrow> n < 10 ^ k \<Longrightarrow> digits_val (pad_digits k n) = Some n"
proof -
  assume "0 < k" and "n < 10 ^ k"
  moreover from \<open>0 < k\<close> have "pad_digits k n \<noteq> []"
    by (metis length_pad_digits list.size(3) neq0_conv)
  ultimately show ?thesis by (simp add: digits_val_def digits_acc_pad)
qed

end
