(* ===== verification/QueryFilter.thy ===== *)
theory QueryFilter
  imports TaskModel Dates
begin

text \<open>
  The access-scoped query builder.  \<open>getTasks\<close>, \<open>getTaskSummary\<close> and
  \<open>getTaskSummaryJson\<close> of \<open>src/backend/controllers/taskController.js\<close> each build a
  MongoDB filter document from the query string and the principal, field by field, and
  hand it to the store.  The document is a record with one optional field per key the
  code may set; \<open>matches\<close> is MongoDB's reading of it (equality per field, an inclusive
  range for \<open>createdAt\<close>, and the \<open>$or\<close> of the ownership clause), and
  \<open>find_tasks\<close> is \<open>Task.find(filter)\<close> over the collection in natural order.
  The contract the builder must meet is stated separately from the code, as the read
  permission of the access-control gate and the per-parameter conditions; the lemmas
  prove that the built filter selects exactly that.
\<close>

section \<open>Filter documents and their meaning\<close>

record task_filter =
  fl_status :: "string option"
  fl_priority :: "string option"
  fl_assignedTo :: "oid option"
  fl_createdAt :: "(time \<times> time) option"
  fl_or :: "oid option"

definition empty_filter :: task_filter where
  "empty_filter = \<lparr>fl_status = None, fl_priority = None, fl_assignedTo = None,
                   fl_createdAt = None, fl_or = None\<rparr>"

definition matches :: "task_filter \<Rightarrow> task \<Rightarrow> bool" where
  "matches f t \<longleftrightarrow>
     (case fl_status f of None \<Rightarrow> True | Some s \<Rightarrow> status_str (status t) = s) \<and>
     (case fl_priority f of None \<Rightarrow> True | Some s \<Rightarrow> priority_str (priority t) = s) \<and>
     (case fl_assignedTo f of None \<Rightarrow> True | Some u \<Rightarrow> assignedTo t = Some u) \<and>
     (case fl_createdAt f of None \<Rightarrow> True | Some (lo, hi) \<Rightarrow> lo \<le> createdAt t \<and> createdAt t \<le> hi) \<and>
     (case fl_or f of None \<Rightarrow> True | Some u \<Rightarrow> createdBy t = u \<or> assignedTo t = Some u)"

text \<open>\<open>Task.find(filter)\<close> and the \<open>$match\<close> stage of the aggregation.\<close>

definition find_tasks :: "db \<Rightarrow> task_filter \<Rightarrow> task list" where
  "find_tasks d f = filter (matches f) (tasks d)"

section \<open>The builders\<close>

text \<open>
  One definition per statement of the builders.  \<open>if (status) filter.status = status\<close>
  (lines 82, 172 and 43):
\<close>

definition add_status :: "query \<Rightarrow> task_filter \<Rightarrow> task_filter" where
  "add_status q = if_truthy (qparam q ''status'') (\<lambda>s f. f\<lparr>fl_status := Some s\<rparr>)"

text \<open>\<open>if (priority) filter.priority = priority\<close> (line 83):\<close>

definition add_priority :: "query \<Rightarrow> task_filter \<Rightarrow> task_filter" where
  "add_priority q = if_truthy (qparam q ''priority'') (\<lambda>s f. f\<lparr>fl_priority := Some s\<rparr>)"

text \<open>
  Lines 85--88: the assignee's username is resolved with \<open>User.findOne\<close>; when no
  user has that name the filter is left as it is.
\<close>

definition add_assignee :: "db \<Rightarrow> query \<Rightarrow> task_filter \<Rightarrow> task_filter" where
  "add_assignee d q = if_truthy (qparam q ''assignedTo'')
     (\<lambda>n f. case find_user_by_name d n of
              Some u \<Rightarrow> f\<lparr>fl_assignedTo := Some (user_id u)\<rparr>
            | None \<Rightarrow> f)"

text \<open>
  Lines 174--179 (and 45--50): when both bounds are given, \<open>createdAt\<close> must lie between
  \<open>new Date(startDate)\<close> and \<open>new Date(endDate)\<close>, inclusive.  The filter goes to
  \<open>Task.aggregate\<close>, whose pipeline Mongoose does not cast, so nothing rejects an
  Invalid Date: the BSON serialiser writes its \<open>NaN\<close> time as the integer 0, and the
  bound becomes the epoch (\<open>bson_date\<close>).
\<close>

definition bson_date :: "string \<Rightarrow> time" where
  "bson_date s = (case parse_date s of Some t \<Rightarrow> t | None \<Rightarrow> 0)"

definition add_created_range :: "query \<Rightarrow> task_filter \<Rightarrow> task_filter" where
  "add_created_range q f =
     (case (qparam q ''startDate'', qparam q ''endDate'') of
        (Some sd, Some ed) \<Rightarrow>
          if sd \<noteq> [] \<and> ed \<noteq> [] then f\<lparr>fl_createdAt := Some (bson_date sd, bson_date ed)\<rparr>
          else f
      | _ \<Rightarrow> f)"

text \<open>
  The ownership clause every builder ends with (lines 90--92, 181--183, 52--54):
  \<open>if (!req.user.isAdmin) filter.$or = [{createdBy: id}, {assignedTo: id}]\<close>.
\<close>

definition scope_filter :: "user \<Rightarrow> task_filter \<Rightarrow> task_filter" where
  "scope_filter p f = (if \<not> isAdmin p then f\<lparr>fl_or := Some (user_id p)\<rparr> else f)"

text \<open>\<open>getTasks\<close>, lines 79--92, starting from \<open>const filter = {}\<close>.\<close>

definition list_filter :: "db \<Rightarrow> user \<Rightarrow> query \<Rightarrow> task_filter" where
  "list_filter d p q = scope_filter p (add_assignee d q (add_priority q (add_status q empty_filter)))"

text \<open>\<open>getTaskSummary\<close>, lines 169--183, and \<open>getTaskSummaryJson\<close>, lines 40--54.\<close>

definition summary_filter :: "user \<Rightarrow> query \<Rightarrow> task_filter" where
  "summary_filter p q = scope_filter p (add_created_range q (add_status q empty_filter))"

section \<open>The contract\<close>

text \<open>
  The read permission of the access-control gate (spec, section 4.3): administrators,
  the creator and the assignee may read a task.
\<close>

definition can_read :: "user \<Rightarrow> task \<Rightarrow> bool" where
  "can_read p t \<longleftrightarrow> isAdmin p \<or> createdBy t = user_id p \<or> assignedTo t = Some (user_id p)"

text \<open>A parameter constrains a field when it is given (truthy).\<close>

definition param_ok :: "string option \<Rightarrow> (string \<Rightarrow> bool) \<Rightarrow> bool" where
  "param_ok v P = (case v of Some s \<Rightarrow> s = [] \<or> P s | None \<Rightarrow> True)"

definition list_spec :: "db \<Rightarrow> user \<Rightarrow> query \<Rightarrow> task \<Rightarrow> bool" where
  "list_spec d p q t \<longleftrightarrow> can_read p t \<and>
     param_ok (qparam q ''status'') (\<lambda>s. status_str (status t) = s) \<and>
     param_ok (qparam q ''priority'') (\<lambda>s. priority_str (priority t) = s) \<and>
     param_ok (qparam q ''assignedTo'')
       (\<lambda>n. case find_user_by_name d n of None \<Rightarrow> True | Some u \<Rightarrow> assignedTo t = Some (user_id u))"

text \<open>The summary's contract: the read permission, the status and the creation-date range.\<close>

definition range_ok :: "query \<Rightarrow> task \<Rightarrow> bool" where
  "range_ok q t \<longleftrightarrow>
     (case (qparam q ''startDate'', qparam q ''endDate'') of
        (Some sd, Some ed) \<Rightarrow> sd = [] \<or> ed = [] \<or>
          (case (parse_date sd, parse_date ed) of
             (Some lo, Some hi) \<Rightarrow> lo \<le> createdAt t \<and> createdAt t \<le> hi
           | _ \<Rightarrow> True)
      | _ \<Rightarrow> True)"

text \<open>
  Spec, section 4.1: a date that does not parse is a validation error, so the contract
  speaks only of queries whose given bounds are dates.
\<close>

definition dates_ok :: "query \<Rightarrow> bool" where
  "dates_ok q \<longleftrightarrow>
     (case (qparam q ''startDate'', qparam q ''endDate'') of
        (Some sd, Some ed) \<Rightarrow> sd \<noteq> [] \<and> ed \<noteq> [] \<longrightarrow> parse_date sd \<noteq> None \<and> parse_date ed \<noteq> None
      | _ \<Rightarrow> True)"

definition summary_spec :: "user \<Rightarrow> query \<Rightarrow> task \<Rightarrow> bool" where
  "summary_spec p q t \<longleftrightarrow> can_read p t \<and>
     param_ok (qparam q ''status'') (\<lambda>s. status_str (status t) = s) \<and> range_ok q t"

section \<open>Lemmas\<close>

text \<open>Each builder step adds its own conjunct to the meaning of the filter.\<close>

lemma if_truthy_sel:
  "(\<And>s f. g (k s f) = g f) \<Longrightarrow> g (if_truthy v k f) = g f"
  by (cases v) (simp_all add: if_truthy_def)

lemma matches_if_truthy:
  "(\<And>s. s \<noteq> [] \<Longrightarrow> matches (k s f) t \<longleftrightarrow> matches f t \<and> P s) \<Longrightarrow>
   matches (if_truthy v k f) t \<longleftrightarrow> matches f t \<and> param_ok v P"
  by (cases v) (auto simp: if_truthy_def param_ok_def)

lemma matches_empty [simp]: "matches empty_filter t"
  by (simp add: matches_def empty_filter_def)

lemma add_status_sel [simp]:
  "fl_priority (add_status q f) = fl_priority f" "fl_assignedTo (add_status q f) = fl_assignedTo f"
  "fl_createdAt (add_status q f) = fl_createdAt f" "fl_or (add_status q f) = fl_or f"
  by (simp_all add: add_status_def if_truthy_sel)

lemma add_priority_sel [simp]:
  "fl_assignedTo (add_priority q f) = fl_assignedTo f" "fl_or (add_priority q f) = fl_or f"
  by (simp_all add: add_priority_def if_truthy_sel)

lemma add_assignee_sel [simp]: "fl_or (add_assignee d q f) = fl_or f"
  by (simp add: add_assignee_def if_truthy_sel split: option.splits)

lemma matches_add_status:
  "fl_status f = None \<Longrightarrow>
   matches (add_status q f) t \<longleftrightarrow> matches f t \<and> param_ok (qparam q ''status'') (\<lambda>s. status_str (status t) = s)"
  unfolding add_status_def by (rule matches_if_truthy) (simp add: matches_def conj_ac)

lemma matches_add_priority:
  "fl_priority f = None \<Longrightarrow>
   matches (add_priority q f) t \<longleftrightarrow> matches f t \<and> param_ok (qparam q ''priority'') (\<lambda>s. priority_str (priority t) = s)"
  unfolding add_priority_def by (rule matches_if_truthy) (simp add: matches_def conj_ac)

lemma matches_add_assignee:
  "fl_assignedTo f = None \<Longrightarrow>
   matches (add_assignee d q f) t \<longleftrightarrow> matches f t \<and> param_ok (qparam q ''assignedTo'')
     (\<lambda>n. case find_user_by_name d n of None \<Rightarrow> True | Some u \<Rightarrow> assignedTo t = Some (user_id u))"
  unfolding add_assignee_def by (rule matches_if_truthy) (simp add: matches_def conj_ac split: option.splits)

lemma matches_add_created_range:
  "fl_createdAt f = None \<Longrightarrow> dates_ok q \<Longrightarrow> matches (add_created_range q f) t \<longleftrightarrow> matches f t \<and> range_ok q t"
  by (auto simp: add_created_range_def dates_ok_def range_ok_def bson_date_def matches_def
      split: option.splits if_splits)

lemma matches_scope:
  "fl_or f = None \<Longrightarrow> matches (scope_filter p f) t \<longleftrightarrow> matches f t \<and> can_read p t"
  by (auto simp: scope_filter_def matches_def can_read_def)

lemma add_created_range_sel [simp]:
  "fl_or (add_created_range q f) = fl_or f"
  by (simp add: add_created_range_def split: option.splits)

lemma empty_filter_sel [simp]:
  "fl_status empty_filter = None" "fl_priority empty_filter = None"
  "fl_assignedTo empty_filter = None" "fl_createdAt empty_filter = None" "fl_or empty_filter = None"
  by (simp_all add: empty_filter_def)

lemma matches_list_filter:
  "matches (list_filter d p q) t \<longleftrightarrow> list_spec d p q t"
  unfolding list_filter_def list_spec_def
  by (simp add: matches_scope matches_add_assignee matches_add_priority matches_add_status conj_ac)

lemma matches_summary_filter:
  assumes "dates_ok q"
  shows "matches (summary_filter p q) t \<longleftrightarrow> summary_spec p q t"
  using assms
  by (simp add: summary_filter_def matches_scope matches_add_created_range matches_add_status
      summary_spec_def conj_ac)

text \<open>
  Off the contract: an end date that is an Invalid Date becomes the epoch, so no task
  created after 1970 is summarised, and the request succeeds with an empty summary instead
  of a validation error.
\<close>

lemma summary_invalid_end_date:
  assumes "qparam q ''startDate'' = Some sd" "qparam q ''endDate'' = Some ed" "sd \<noteq> []" "ed \<noteq> []"
    and "parse_date ed = None" and "matches (summary_filter p q) t"
  shows "createdAt t \<le> 0"
  using assms
  by (auto simp: summary_filter_def scope_filter_def add_created_range_def bson_date_def matches_def
      split: if_splits)

section \<open>Properties of the list query\<close>

text \<open>
  C1.  The list endpoint selects exactly the tasks of the contract: \<open>Task.find\<close> on the
  filter that \<open>getTasks\<close> builds returns, in store order, the tasks the principal may
  read that satisfy every given status, priority and (resolvable) assignee parameter.
\<close>

theorem list_tasks_exact:
  "find_tasks d (list_filter d p q) = filter (list_spec d p q) (tasks d)"
  by (simp add: find_tasks_def matches_list_filter [abs_def])

text \<open>
  C2.  A principal who is not an administrator is never shown a third party's task: every
  task the list endpoint returns was created by the principal or is assigned to it.
\<close>

theorem list_scoped_to_principal:
  assumes "\<not> isAdmin p" and "t \<in> set (find_tasks d (list_filter d p q))"
  shows "createdBy t = user_id p \<or> assignedTo t = Some (user_id p)"
  using assms by (simp add: find_tasks_def matches_list_filter list_spec_def can_read_def)

text \<open>
  C3.  Administrators get no ownership restriction: for the same query parameters, an
  administrator's list contains every task that any principal's list contains.
\<close>

theorem admin_list_unscoped:
  assumes "isAdmin a"
  shows "set (find_tasks d (list_filter d p q)) \<subseteq> set (find_tasks d (list_filter d a q))"
  using assms by (auto simp: find_tasks_def matches_list_filter list_spec_def can_read_def)

text \<open>
  C4.  An \<open>assignedTo\<close> parameter naming no user is silently ignored by the list
  endpoint: the result is the one of the same query without that parameter (whereas
  \<open>createTask\<close> and \<open>updateTask\<close> reject such a name with 400).
\<close>

theorem unresolved_assignee_ignored:
  assumes "find_user_by_name d n = None"
  shows "find_tasks d (list_filter d p ((''assignedTo'', n) # q)) =
         find_tasks d (list_filter d p (filter (\<lambda>kv. fst kv \<noteq> ''assignedTo'') q))"
proof -
  have "qparam (filter (\<lambda>kv. fst kv \<noteq> ''assignedTo'') q) k = qparam q k" if "k \<noteq> ''assignedTo''" for k
    using that by (induction q) (auto simp: qparam_def)
  moreover have "qparam (filter (\<lambda>kv. fst kv \<noteq> ''assignedTo'') q) ''assignedTo'' = None"
    by (induction q) (auto simp: qparam_def)
  ultimately show ?thesis
    using assms unfolding find_tasks_def
    by (intro filter_cong) (simp_all add: matches_list_filter list_spec_def param_ok_def qparam_def)
qed

end
