(* ===== verification/Summary.thy ===== *)
theory Summary
  imports QueryFilter
begin

text \<open>
  The grouped summary aggregator of \<open>getTaskSummary\<close> and \<open>getTaskSummaryJson\<close>
  (\<open>src/backend/controllers/taskController.js\<close>, lines 185--197 and 56--68): the
  pipeline \<open>[{$match: filter}, {$group: {_id: {status, assignedTo}, count: {$sum: 1},
  tasks: {$push: '$$ROOT'}}}]\<close>.  The \<open>$group\<close> stage is modelled operationally, as
  MongoDB's accumulators run: documents arrive in the order of the \<open>$match\<close> output,
  each one is added to the group of its key (created on first sight) by incrementing
  \<open>count\<close> and appending to \<open>tasks\<close>.  MongoDB does not specify the order of the
  output groups; the model emits them in order of first appearance, and every property
  below except the equivalence lemma is independent of that order.
  The reference definition \<open>group_spec\<close> states what the stage computes: one group per
  distinct key, holding the matching tasks of that key and their number.
\<close>

section \<open>Groups\<close>

type_synonym group_key = "status \<times> oid option"

record summary_group =
  g_status :: status
  g_assignedTo :: "oid option"
  g_count :: nat
  g_tasks :: "task list"

definition group_key :: "task \<Rightarrow> group_key" where
  "group_key t = (status t, assignedTo t)"

definition key_of :: "summary_group \<Rightarrow> group_key" where
  "key_of g = (g_status g, g_assignedTo g)"

section \<open>The \<open>$group\<close> stage\<close>

text \<open>One document reaching the stage: \<open>$sum: 1\<close> and \<open>$push: '$$ROOT'\<close> on its group.\<close>

fun group_push :: "task \<Rightarrow> summary_group list \<Rightarrow> summary_group list" where
  "group_push t [] =
     [\<lparr>g_status = status t, g_assignedTo = assignedTo t, g_count = 1, g_tasks = [t]\<rparr>]"
| "group_push t (g # gs) =
     (if key_of g = group_key t
      then g\<lparr>g_count := g_count g + 1, g_tasks := g_tasks g @ [t]\<rparr> # gs
      else g # group_push t gs)"

definition group_stage :: "task list \<Rightarrow> summary_group list" where
  "group_stage ts = foldl (\<lambda>gs t. group_push t gs) [] ts"

text \<open>\<open>Task.aggregate([{$match: filter}, {$group: ...}])\<close>.\<close>

definition aggregate_summary :: "db \<Rightarrow> task_filter \<Rightarrow> summary_group list" where
  "aggregate_summary d f = group_stage (find_tasks d f)"

section \<open>Reference definition\<close>

text \<open>Keys in order of first appearance.\<close>

definition first_keys :: "'k list \<Rightarrow> 'k list" where
  "first_keys ks = rev (remdups (rev ks))"

definition group_of :: "task list \<Rightarrow> group_key \<Rightarrow> summary_group" where
  "group_of ts k =
     \<lparr>g_status = fst k, g_assignedTo = snd k,
      g_count = length (filter (\<lambda>t. group_key t = k) ts),
      g_tasks = filter (\<lambda>t. group_key t = k) ts\<rparr>"

definition group_spec :: "task list \<Rightarrow> summary_group list" where
  "group_spec ts = map (group_of ts) (first_keys (map group_key ts))"

section \<open>Lemmas\<close>

lemma first_keys_snoc:
  "first_keys (ks @ [k]) = (if k \<in> set ks then first_keys ks else first_keys ks @ [k])"
  by (simp add: first_keys_def)

lemma set_first_keys [simp]: "set (first_keys ks) = set ks"
  by (simp add: first_keys_def)

lemma distinct_first_keys [simp]: "distinct (first_keys ks)"
  by (simp add: first_keys_def)

lemma key_of_group_of [simp]: "key_of (group_of ts k) = k"
  by (simp add: key_of_def group_of_def)

lemma group_stage_snoc:
  "group_stage (ts @ [t]) = group_push t (group_stage ts)"
  by (simp add: group_stage_def)

text \<open>Pushing a task into the reference groups of a prefix gives those of the extension.\<close>

lemma group_push_spec_map:
  "distinct ks \<Longrightarrow> (\<forall>t' \<in> set ts. group_key t' = group_key t \<longrightarrow> group_key t \<in> set ks) \<Longrightarrow>
   group_push t (map (group_of ts) ks) =
     (if group_key t \<in> set ks then map (group_of (ts @ [t])) ks
      else map (group_of (ts @ [t])) (ks @ [group_key t]))"
proof (induction ks)
  case Nil
  then have "filter (\<lambda>t'. group_key t' = group_key t) ts = []"
    by (simp add: filter_empty_conv)
  then show ?case by (simp add: group_of_def group_key_def)
next
  case (Cons k ks)
  show ?case
  proof (cases "k = group_key t")
    case True
    with Cons.prems have "group_of ts k\<lparr>g_count := g_count (group_of ts k) + 1,
        g_tasks := g_tasks (group_of ts k) @ [t]\<rparr> = group_of (ts @ [t]) k"
      by (simp add: group_of_def)
    moreover from True Cons.prems have "map (group_of ts) ks = map (group_of (ts @ [t])) ks"
      by (auto simp: group_of_def)
    ultimately show ?thesis using True by simp
  next
    case False
    then have "group_of ts k = group_of (ts @ [t]) k"
      by (auto simp: group_of_def)
    with False Cons show ?thesis by fastforce
  qed
qed

lemma group_stage_eq_spec_lemma: "group_stage ts = group_spec ts"
proof (induction ts rule: rev_induct)
  case Nil
  then show ?case by (simp add: group_stage_def group_spec_def first_keys_def)
next
  case (snoc t ts)
  have "group_stage (ts @ [t]) = group_push t (map (group_of ts) (first_keys (map group_key ts)))"
    using snoc by (simp add: group_stage_snoc group_spec_def)
  also have "\<dots> = group_spec (ts @ [t])"
  proof -
    have "\<forall>t' \<in> set ts. group_key t' = group_key t \<longrightarrow> group_key t \<in> set (first_keys (map group_key ts))"
      by (metis image_eqI list.set_map set_first_keys)
    then show ?thesis
      by (simp add: group_push_spec_map group_spec_def first_keys_snoc)
  qed
  finally show ?case .
qed

lemma group_spec_partition:
  "mset (concat (map g_tasks (group_spec ts))) = mset ts"
proof -
  have "concat (map g_tasks (group_spec ts)) =
        concat (map (\<lambda>k. filter (\<lambda>t. group_key t = k) ts) (first_keys (map group_key ts)))"
    by (simp add: group_spec_def group_of_def comp_def)
  then show ?thesis
    by (simp add: mset_concat_filter_partition)
qed

lemma group_spec_count_sum:
  "(\<Sum>g \<leftarrow> group_spec ts. g_count g) = length ts"
proof -
  have "(\<Sum>g \<leftarrow> group_spec ts. g_count g) =
        (\<Sum>k \<leftarrow> first_keys (map group_key ts). length (filter (\<lambda>t. group_key t = k) ts))"
    by (simp add: group_spec_def group_of_def comp_def)
  then show ?thesis
    by (simp add: sum_list_filter_length)
qed

lemma group_spec_wellformed:
  "distinct (map key_of (group_spec ts)) \<and>
   (\<forall>g \<in> set (group_spec ts). g_count g = length (g_tasks g) \<and> 0 < g_count g \<and>
      (\<forall>t \<in> set (g_tasks g). group_key t = key_of g))"
proof -
  have "distinct (map key_of (group_spec ts))"
    by (simp add: group_spec_def comp_def)
  moreover have "0 < length (filter (\<lambda>t. group_key t = k) ts)" if "k \<in> set (map group_key ts)" for k
  proof -
    from that have "filter (\<lambda>t. group_key t = k) ts \<noteq> []"
      by (auto simp: filter_empty_conv)
    then show ?thesis by simp
  qed
  ultimately show ?thesis
    by (auto simp: group_spec_def group_of_def key_of_def)
qed

section \<open>Properties of the aggregation\<close>

text \<open>
  C5.  The \<open>$group\<close> stage, run document by document with its accumulators, computes the
  reference grouping: one group per distinct \<open>(status, assignedTo)\<close> key of the matched
  tasks, holding exactly the matched tasks with that key, in match order, and their number.
\<close>

theorem aggregate_refines_group_spec:
  "aggregate_summary d f = group_spec (find_tasks d f)"
  by (simp add: aggregate_summary_def group_stage_eq_spec_lemma)

text \<open>
  C6.  The groups partition the matched tasks: the concatenated member lists are a
  permutation of the \<open>$match\<close> output, so every matching task is in exactly one group.
\<close>

theorem summary_partitions_matches:
  "mset (concat (map g_tasks (aggregate_summary d f))) = mset (find_tasks d f)"
  by (simp add: aggregate_summary_def group_stage_eq_spec_lemma group_spec_partition)

text \<open>The group counts add up to the number of matching tasks.\<close>

theorem summary_counts_total:
  "(\<Sum>g \<leftarrow> aggregate_summary d f. g_count g) = length (find_tasks d f)"
  by (simp add: aggregate_summary_def group_stage_eq_spec_lemma group_spec_count_sum)

text \<open>
  C8.  Each group is well formed: group keys are pairwise distinct, a group's \<open>count\<close>
  is the length of its member list and is positive, and every member has the group's key.
\<close>

theorem summary_groups_wellformed:
  "distinct (map key_of (aggregate_summary d f)) \<and>
   (\<forall>g \<in> set (aggregate_summary d f). g_count g = length (g_tasks g) \<and> 0 < g_count g \<and>
      (\<forall>t \<in> set (g_tasks g). group_key t = key_of g))"
  unfolding aggregate_summary_def group_stage_eq_spec_lemma by (rule group_spec_wellformed)

end
