(* ===== verification/Validation.thy ===== *)
theory Validation
  imports TaskModel Dates
begin

text \<open>
  Request bodies and their validation.  \<open>createTask\<close> and \<open>updateTask\<close> check
  \<open>req.body\<close> against the Joi schema \<open>taskSchema\<close> of
  \<open>src/backend/controllers/taskController.js\<close> (lines 7--14) with Joi's default options:
  \<open>abortEarly\<close> (the first error is reported), \<open>allowUnknown: false\<close> (a key the
  schema does not list is an error) and \<open>convert\<close>.  A body is the parsed JSON object,
  an association list with one entry per key.  Joi checks the schema's keys in the order
  they are declared and only then looks for unknown keys.  Per key:
  \<^item> \<open>Joi.string()\<close>: the value must be a string, and not the empty string;
  \<^item> \<open>Joi.string().valid(...)\<close>: the value must be one of the listed strings (the
    allowed-values check comes before the type check and reports \<open>any.only\<close>);
  \<^item> \<open>Joi.date()\<close>: a number (a millisecond timestamp), a string of digits (read as a
    timestamp), or a string \<open>new Date\<close> accepts;
  \<^item> \<open>.required()\<close>: the key must be present.
  The decoded fields are what Mongoose then casts into the document.
\<close>

section \<open>Bodies\<close>

datatype json = JStr string | JNum int | JBool bool | JNull | JArr "json list"
  | JObj "(string \<times> json) list"

type_synonym body = "(string \<times> json) list"

section \<open>The schema\<close>

datatype rule = RString | RValid "string list" | RDate

record key_rule =
  kr_key :: string
  kr_rule :: rule
  kr_required :: bool

definition task_schema :: "key_rule list" where
  "task_schema =
     [\<lparr>kr_key = ''title'', kr_rule = RString, kr_required = True\<rparr>,
      \<lparr>kr_key = ''description'', kr_rule = RString, kr_required = True\<rparr>,
      \<lparr>kr_key = ''dueDate'', kr_rule = RDate, kr_required = True\<rparr>,
      \<lparr>kr_key = ''status'', kr_rule = RValid (map status_str status_values), kr_required = False\<rparr>,
      \<lparr>kr_key = ''assignedTo'', kr_rule = RString, kr_required = False\<rparr>,
      \<lparr>kr_key = ''priority'', kr_rule = RValid (map priority_str priority_values), kr_required = False\<rparr>]"

section \<open>Joi's checks\<close>

datatype joi_error =
    Required string
  | NotString string
  | EmptyString string
  | NotOneOf string "string list"
  | NotDate string
  | NotAllowed string

text \<open>\<open>error.details[0].message\<close>, which the handlers send back with status 400.\<close>

fun joi_message :: "joi_error \<Rightarrow> string" where
  "joi_message (Required k) = ''\"'' @ k @ ''\" is required''"
| "joi_message (NotString k) = ''\"'' @ k @ ''\" must be a string''"
| "joi_message (EmptyString k) = ''\"'' @ k @ ''\" is not allowed to be empty''"
| "joi_message (NotOneOf k vs) =
     ''\"'' @ k @ ''\" must be one of ['' @ concat (map (\<lambda>v. v @ '', '') (butlast vs)) @
     (if vs = [] then [] else last vs) @ '']''"
| "joi_message (NotDate k) = ''\"'' @ k @ ''\" must be a valid date''"
| "joi_message (NotAllowed k) = ''\"'' @ k @ ''\" is not allowed''"

text \<open>
  What \<open>Joi.date()\<close> reads as a date: a number is a timestamp, a string of digits is
  converted to a number first and so is a timestamp too, any other string is handed to
  \<open>new Date\<close>.
\<close>

fun joi_date :: "json \<Rightarrow> time option" where
  "joi_date (JNum n) = Some n"
| "joi_date (JStr s) = (case digits_val s of Some n \<Rightarrow> Some (int n) | None \<Rightarrow> parse_date s)"
| "joi_date _ = None"

text \<open>
  What Mongoose's \<open>Date\<close> cast (\<open>mongoose/lib/cast/date.js\<close>) makes of the same value
  when the document is built: a number is a timestamp, but a string of digits is read as a
  timestamp only from 275761 on; a smaller one goes to \<open>new Date(string)\<close>, where
  \<open>''2024''\<close> is the year 2024.  \<open>None\<close> is the cast error.
\<close>

fun cast_date :: "json \<Rightarrow> time option" where
  "cast_date (JNum n) = Some n"
| "cast_date (JStr s) =
     (case digits_val s of
        Some n \<Rightarrow> if 275761 \<le> n then Some (int n) else parse_date s
      | None \<Rightarrow> parse_date s)"
| "cast_date _ = None"

fun check_rule :: "string \<Rightarrow> rule \<Rightarrow> json \<Rightarrow> joi_error option" where
  "check_rule k RString v =
     (case v of JStr s \<Rightarrow> if s = [] then Some (EmptyString k) else None | _ \<Rightarrow> Some (NotString k))"
| "check_rule k (RValid vs) v =
     (case v of JStr s \<Rightarrow> if s \<in> set vs then None else Some (NotOneOf k vs) | _ \<Rightarrow> Some (NotOneOf k vs))"
| "check_rule k RDate v = (case joi_date v of Some _ \<Rightarrow> None | None \<Rightarrow> Some (NotDate k))"

fun check_keys :: "key_rule list \<Rightarrow> body \<Rightarrow> joi_error option" where
  "check_keys [] b = None"
| "check_keys (r # rs) b =
     (case map_of b (kr_key r) of
        None \<Rightarrow> if kr_required r then Some (Required (kr_key r)) else check_keys rs b
      | Some v \<Rightarrow> (case check_rule (kr_key r) (kr_rule r) v of
                    Some e \<Rightarrow> Some e
                  | None \<Rightarrow> check_keys rs b))"

definition unknown_key :: "key_rule list \<Rightarrow> body \<Rightarrow> joi_error option" where
  "unknown_key rs b =
     map_option (\<lambda>kv. NotAllowed (fst kv)) (find (\<lambda>kv. fst kv \<notin> set (map kr_key rs)) b)"

text \<open>\<open>taskSchema.validate(req.body)\<close>: \<open>None\<close> when there is no error.\<close>

definition validate_body :: "body \<Rightarrow> joi_error option" where
  "validate_body b = (case check_keys task_schema b of Some e \<Rightarrow> Some e | None \<Rightarrow> unknown_key task_schema b)"

section \<open>Decoding a valid body\<close>

text \<open>
  The typed fields a body carries, as Mongoose casts them when it builds or updates the
  document (\<open>new Task({...req.body})\<close>, \<open>Object.assign(task, req.body)\<close>): absent
  optional keys are \<open>None\<close>; \<open>assignedTo\<close> is still the username.
\<close>

record task_input =
  in_title :: string
  in_description :: string
  in_dueDate :: time
  in_status :: "status option"
  in_assignedTo :: "string option"
  in_priority :: "priority option"

definition json_string :: "json \<Rightarrow> string option" where
  "json_string v = (case v of JStr s \<Rightarrow> Some s | _ \<Rightarrow> None)"

definition decode_body :: "body \<Rightarrow> task_input option" where
  "decode_body b =
     (case (Option.bind (map_of b ''title'') json_string,
            Option.bind (map_of b ''description'') json_string,
            Option.bind (map_of b ''dueDate'') cast_date) of
        (Some ti, Some de, Some du) \<Rightarrow>
          Some \<lparr>in_title = ti, in_description = de, in_dueDate = du,
                in_status = Option.bind (Option.bind (map_of b ''status'') json_string) parse_status,
                in_assignedTo = Option.bind (map_of b ''assignedTo'') json_string,
                in_priority = Option.bind (Option.bind (map_of b ''priority'') json_string) parse_priority\<rparr>
      | _ \<Rightarrow> None)"

text \<open>
  A body as a client sends it for given fields: the three required keys, then each
  optional key that has a value, the date as a timestamp.
\<close>

definition encode_input :: "task_input \<Rightarrow> body" where
  "encode_input i =
     [(''title'', JStr (in_title i)), (''description'', JStr (in_description i)),
      (''dueDate'', JNum (in_dueDate i))] @
     (case in_status i of None \<Rightarrow> [] | Some s \<Rightarrow> [(''status'', JStr (status_str s))]) @
     (case in_assignedTo i of None \<Rightarrow> [] | Some n \<Rightarrow> [(''assignedTo'', JStr n)]) @
     (case in_priority i of None \<Rightarrow> [] | Some p \<Rightarrow> [(''priority'', JStr (priority_str p))])"

section \<open>Lemmas\<close>

lemma check_keys_None_iff:
  "check_keys rs b = None \<longleftrightarrow>
   (\<forall>r \<in> set rs. case map_of b (kr_key r) of
                   None \<Rightarrow> \<not> kr_required r
                 | Some v \<Rightarrow> check_rule (kr_key r) (kr_rule r) v = None)"
  by (induction rs) (auto split: option.splits)

lemma unknown_key_None_iff:
  "unknown_key rs b = None \<longleftrightarrow> (\<forall>kv \<in> set b. fst kv \<in> set (map kr_key rs))"
  by (auto simp: unknown_key_def find_None_iff')

lemma validate_body_None_iff:
  "validate_body b = None \<longleftrightarrow> check_keys task_schema b = None \<and> unknown_key task_schema b = None"
  by (simp add: validate_body_def split: option.splits)

lemma check_rule_RString: "check_rule k RString v = None \<longleftrightarrow> (\<exists>s. v = JStr s \<and> s \<noteq> [])"
  by (cases v) auto

lemma check_rule_RValid: "check_rule k (RValid vs) v = None \<longleftrightarrow> (\<exists>s. v = JStr s \<and> s \<in> set vs)"
  by (cases v) auto

lemma check_rule_RDate: "check_rule k RDate v = None \<longleftrightarrow> joi_date v \<noteq> None"
  by (auto split: option.splits)

lemma valid_body_fields:
  assumes "validate_body b = None"
  shows "(\<exists>s. map_of b ''title'' = Some (JStr s) \<and> s \<noteq> []) \<and>
         (\<exists>s. map_of b ''description'' = Some (JStr s) \<and> s \<noteq> []) \<and>
         (\<exists>v. map_of b ''dueDate'' = Some v \<and> joi_date v \<noteq> None) \<and>
         (\<forall>v. map_of b ''status'' = Some v \<longrightarrow> (\<exists>x. v = JStr (status_str x))) \<and>
         (\<forall>v. map_of b ''assignedTo'' = Some v \<longrightarrow> (\<exists>s. v = JStr s \<and> s \<noteq> [])) \<and>
         (\<forall>v. map_of b ''priority'' = Some v \<longrightarrow> (\<exists>x. v = JStr (priority_str x)))"
proof -
  from assms have "check_keys task_schema b = None"
    by (simp add: validate_body_None_iff)
  then have all: "\<forall>r \<in> set task_schema. case map_of b (kr_key r) of
                   None \<Rightarrow> \<not> kr_required r
                 | Some v \<Rightarrow> check_rule (kr_key r) (kr_rule r) v = None"
    by (simp only: check_keys_None_iff)
  then show ?thesis
    by (auto simp del: check_rule.simps simp add: task_schema_def check_rule_RString check_rule_RValid check_rule_RDate
        split: option.splits)
qed

lemma valid_body_decodes:
  assumes "validate_body b = None" and "decode_body b = Some i"
  shows "in_title i \<noteq> [] \<and> in_description i \<noteq> [] \<and>
         (in_status i = None \<longleftrightarrow> map_of b ''status'' = None) \<and>
         (in_assignedTo i = None \<longleftrightarrow> map_of b ''assignedTo'' = None) \<and>
         (\<forall>n. in_assignedTo i = Some n \<longrightarrow> n \<noteq> []) \<and>
         (in_priority i = None \<longleftrightarrow> map_of b ''priority'' = None)"
  using valid_body_fields [OF assms(1)] assms(2)
  by (cases "map_of b ''status''"; cases "map_of b ''assignedTo''"; cases "map_of b ''priority''")
     (auto simp: decode_body_def json_string_def split: option.splits)

text \<open>
  The two readings of a due date agree on numbers and on long digit strings, and disagree
  below: \<open>''2024''\<close> passes the validation as 2024 ms after the epoch and is stored as
  2024-01-01, and \<open>''12''\<close> passes the validation but fails the cast.
\<close>

lemma joi_cast_date_agree:
  "joi_date (JNum n) = cast_date (JNum n)"
  "digits_val s = Some m \<Longrightarrow> 275761 \<le> m \<Longrightarrow> joi_date (JStr s) = cast_date (JStr s)"
  by simp_all

lemma joi_cast_date_differ:
  "joi_date (JStr ''2024'') = Some 2024"
  "cast_date (JStr ''2024'') = Some (days_from_civil 2024 1 1 * ms_per_day)"
  "joi_date (JStr ''12'') = Some 12 \<and> cast_date (JStr ''12'') = None"
  by (simp_all add: digits_val_def digit_of_def parse_date_def parse_ym_def parse_ymd_def slice_def)

section \<open>Properties of the validation\<close>

text \<open>
  C9.  A body that passes \<open>taskSchema\<close> has no key outside the schema: in particular
  no \<open>createdBy\<close>, \<open>_id\<close>, \<open>createdAt\<close> or \<open>updatedAt\<close> can reach the document
  through \<open>...req.body\<close> or \<open>Object.assign(task, req.body)\<close>.
\<close>

theorem valid_body_schema_keys_only:
  assumes "validate_body b = None" and "(k, v) \<in> set b"
  shows "k \<in> {''title'', ''description'', ''dueDate'', ''status'', ''assignedTo'', ''priority''}"
proof -
  from assms(1) have "unknown_key task_schema b = None"
    by (simp add: validate_body_None_iff)
  with assms(2) have "k \<in> set (map kr_key task_schema)"
    by (auto simp: unknown_key_None_iff)
  then show ?thesis by (simp add: task_schema_def)
qed

text \<open>
  C10.  Round trip of the request body: every input with a non-empty title, description
  and (if given) assignee name, encoded as the client sends it, passes the validation
  and decodes to the same fields.
\<close>

theorem body_roundtrip:
  assumes "in_title i \<noteq> []" "in_description i \<noteq> []" "\<forall>n. in_assignedTo i = Some n \<longrightarrow> n \<noteq> []"
  shows "validate_body (encode_input i) = None \<and> decode_body (encode_input i) = Some i"
  using assms
  by (cases "in_status i"; cases "in_assignedTo i"; cases "in_priority i")
     (simp_all add: encode_input_def validate_body_def task_schema_def unknown_key_def
      decode_body_def json_string_def)

end
