(* ===== verification/ObjectId.thy ===== *)
theory ObjectId
  imports Prelude
begin

text \<open>
  Object ids as the handlers receive and compare them.  \<open>Task.findById(req.params.id)\<close>
  casts the path parameter with \<open>new ObjectId(value)\<close>, which accepts a string of 24
  hexadecimal digits or a string of 12 single-byte characters (taken as the 12 bytes), and
  throws a cast error otherwise; the handlers' \<open>catch\<close> turns that into a 400.
  \<open>ObjectId.toString()\<close>, which \<open>getTask\<close>, \<open>updateTask\<close> and \<open>deleteTask\<close> use to
  compare ids, prints the 12 bytes as 24 lower-case hexadecimal digits.  An id is the
  natural number of its 96 bits.
\<close>

section \<open>Hexadecimal digits\<close>

definition hex_val :: "char \<Rightarrow> nat option" where
  "hex_val c =
     (let n = of_char c :: nat in
      if 48 \<le> n \<and> n \<le> 57 then Some (n - 48)
      else if 97 \<le> n \<and> n \<le> 102 then Some (n - 87)
      else if 65 \<le> n \<and> n \<le> 70 then Some (n - 55)
      else None)"

fun hex_acc :: "nat \<Rightarrow> string \<Rightarrow> nat option" where
  "hex_acc acc [] = Some acc"
| "hex_acc acc (c # cs) = (case hex_val c of None \<Rightarrow> None | Some v \<Rightarrow> hex_acc (16 * acc + v) cs)"

definition hex_char :: "nat \<Rightarrow> char" where
  "hex_char v = (if v < 10 then char_of (48 + v) else char_of (87 + v))"

fun hex_digits :: "nat \<Rightarrow> nat \<Rightarrow> string" where
  "hex_digits 0 n = []"
| "hex_digits (Suc k) n = hex_digits k (n div 16) @ [hex_char (n mod 16)]"

section \<open>Parsing and printing\<close>

definition bytes_val :: "string \<Rightarrow> nat" where
  "bytes_val s = foldl (\<lambda>a c. 256 * a + of_char c) 0 s"

text \<open>\<open>new ObjectId(s)\<close> on a string; \<open>None\<close> is the cast error.\<close>

definition parse_oid :: "string \<Rightarrow> oid option" where
  "parse_oid s =
     (if length s = 24 then hex_acc 0 s
      else if length s = 12 \<and> (\<forall>c \<in> set s. of_char c < (128::nat)) then Some (bytes_val s)
      else None)"

text \<open>\<open>ObjectId.prototype.toString()\<close>.\<close>

definition oid_hex :: "oid \<Rightarrow> string" where
  "oid_hex n = hex_digits 24 n"

section \<open>Lemmas\<close>

lemma length_hex_digits [simp]: "length (hex_digits k n) = k"
  by (induction k arbitrary: n) auto

lemma length_oid_hex [simp]: "length (oid_hex n) = 24"
  by (simp add: oid_hex_def)

text \<open>An id never spells a literal route segment, in any letter case.\<close>

lemma lower_oid_hex_neq [simp]: "length s \<noteq> 24 \<Longrightarrow> lower_str (oid_hex n) \<noteq> s"
  by (metis length_lower_str length_oid_hex)

lemma hex_val_hex_char [simp]: "v < 16 \<Longrightarrow> hex_val (hex_char v) = Some v"
  by (auto simp: hex_val_def hex_char_def of_char_of Let_def)

lemma hex_acc_append:
  "hex_acc acc (xs @ ys) = (case hex_acc acc xs of None \<Rightarrow> None | Some a \<Rightarrow> hex_acc a ys)"
  by (induction acc xs rule: hex_acc.induct) (auto split: option.splits)

lemma hex_acc_digits:
  "n < 16 ^ k \<Longrightarrow> hex_acc acc (hex_digits k n) = Some (acc * 16 ^ k + n)"
proof (induction k arbitrary: n)
  case 0
  then show ?case by simp
next
  case (Suc k)
  then have "n div 16 < 16 ^ k" by (simp add: less_mult_imp_div_less mult.commute)
  with Suc.IH have "hex_acc acc (hex_digits k (n div 16)) = Some (acc * 16 ^ k + n div 16)" .
  then show ?case
    by (simp add: hex_acc_append algebra_simps)
qed

lemma hex_digits_mod: "hex_digits k (n mod 16 ^ k) = hex_digits k n"
proof (induction k arbitrary: n)
  case 0
  then show ?case by simp
next
  case (Suc k)
  have "n mod 16 ^ Suc k div 16 = (n div 16) mod 16 ^ k"
    by (simp add: mod_mult2_eq div_mult2_eq mult.commute)
  moreover have "n mod 16 ^ Suc k mod 16 = n mod 16"
    by (simp add: mod_mod_cancel)
  ultimately show ?case using Suc.IH by simp
qed

lemma hex_acc_bound:
  "hex_acc acc s = Some n \<Longrightarrow> n < (acc + 1) * 16 ^ length s"
proof (induction acc s arbitrary: n rule: hex_acc.induct)
  case (1 acc)
  then show ?case by simp
next
  case (2 acc c cs)
  then obtain v where v: "hex_val c = Some v" and rest: "hex_acc (16 * acc + v) cs = Some n"
    by (auto split: option.splits)
  from v have "v < 16" by (auto simp: hex_val_def Let_def split: if_splits)
  from "2.IH" [OF v rest] have "n < (16 * acc + v + 1) * 16 ^ length cs" .
  also have "\<dots> \<le> (acc + 1) * 16 ^ length (c # cs)"
    using \<open>v < 16\<close> by (simp add: algebra_simps)
  finally show ?case .
qed

lemma bytes_val_bound:
  "bytes_val s < 256 ^ length s"
proof -
  have "foldl (\<lambda>a c. 256 * a + of_char c) acc s < (acc + 1) * 256 ^ length s" for acc :: nat
  proof (induction s arbitrary: acc)
    case Nil
    then show ?case by simp
  next
    case (Cons c cs)
    have "(acc + 1) * 256 = 256 * acc + 256" by simp
    then have h: "256 * acc + of_char c + 1 \<le> (acc + 1) * 256"
      using nat_of_char_less_256 [of c] by linarith
    have eq: "(acc + 1) * 256 ^ length (c # cs) = (acc + 1) * 256 * 256 ^ length cs"
      by (simp add: algebra_simps)
    have "(256 * acc + of_char c + 1) * 256 ^ length cs \<le> (acc + 1) * 256 ^ length (c # cs)"
      unfolding eq by (rule mult_le_mono1 [OF h])
    with Cons.IH [of "256 * acc + of_char c"]
    have "foldl (\<lambda>a c. 256 * a + of_char c) (256 * acc + of_char c) cs < (acc + 1) * 256 ^ length (c # cs)"
      by (rule less_le_trans)
    then show ?case by simp
  qed
  from this [of 0] show ?thesis by (simp add: bytes_val_def)
qed

lemma parse_oid_hex_lemma:
  "n < 2 ^ 96 \<Longrightarrow> parse_oid (oid_hex n) = Some n"
proof -
  assume "n < 2 ^ 96"
  then have "n < 16 ^ 24" by simp
  then show ?thesis by (simp add: parse_oid_def oid_hex_def hex_acc_digits)
qed

section \<open>Properties of object ids\<close>

text \<open>
  C11.  Round trip of object ids: casting the printed form of any 96-bit id back with
  \<open>new ObjectId\<close> gives the same id.
\<close>

theorem oid_roundtrip:
  assumes "n < 2 ^ 96"
  shows "parse_oid (oid_hex n) = Some n"
  using assms by (rule parse_oid_hex_lemma)

text \<open>
  C12.  The ids the cast accepts are 96-bit values: whichever of the two accepted forms a
  path parameter has, the id it denotes is below \<open>2^96\<close>.
\<close>

theorem parse_oid_bound:
  assumes "parse_oid s = Some n"
  shows "n < 2 ^ 96"
proof (cases "length s = 24")
  case True
  with assms have "hex_acc 0 s = Some n" by (simp add: parse_oid_def)
  from hex_acc_bound [OF this] True show ?thesis by simp
next
  case False
  with assms have "n = bytes_val s" and "length s = 12"
    by (auto simp: parse_oid_def split: if_splits)
  with bytes_val_bound [of s] show ?thesis by simp
qed

text \<open>
  Comparing ids through \<open>toString()\<close>, as the access checks of \<open>getTask\<close>,
  \<open>updateTask\<close> and \<open>deleteTask\<close> do, is comparing the ids themselves.
\<close>

theorem oid_hex_eq_iff:
  assumes "n < 2 ^ 96" and "m < 2 ^ 96"
  shows "oid_hex n = oid_hex m \<longleftrightarrow> n = m"
proof
  assume "oid_hex n = oid_hex m"
  then have "parse_oid (oid_hex n) = parse_oid (oid_hex m)" by (rule arg_cong)
  then have "Some n = Some m"
    by (simp only: parse_oid_hex_lemma [OF assms(1)] parse_oid_hex_lemma [OF assms(2)])
  then show "n = m" by (rule option.inject [THEN iffD1])
next
  assume "n = m"
  then show "oid_hex n = oid_hex m" by (rule arg_cong)
qed

end
