(* ===== verification/Csv.thy ===== *)
theory Csv
  imports Summary Validation ObjectId
begin

text \<open>
  The CSV export of \<open>getTaskSummary\<close> (\<open>taskController.js\<close>, lines 199--205):
  \<open>new Parser().parse(summary)\<close> of the \<open>json2csv\<close> library on the groups of
  \<open>Task.aggregate\<close>.  The library is not part of the sources; its default behaviour is
  modelled: the columns are the keys of the group documents (\<open>_id\<close>, \<open>count\<close>,
  \<open>tasks\<close>), the header quotes them, a number is written as is, an object or array is
  written as its \<open>JSON.stringify\<close> text, every string is enclosed in double quotes with
  inner quotes doubled, fields are separated by commas and records by a line feed, and an
  empty input throws.  A group document carries its key \<open>{status, assignedTo}\<close> (without
  \<open>assignedTo\<close> when the tasks have none), its count and its raw task documents, whose
  ids print as hexadecimal strings and whose dates as ISO strings.
  A reader for RFC 4180 text is defined beside the writer, and the export is shown lossless:
  reading it back gives the header and, for each group, the three cell texts.
\<close>

section \<open>JSON.stringify\<close>

text \<open>\<open>Array.prototype.join\<close>.\<close>

fun js_join :: "string \<Rightarrow> string list \<Rightarrow> string" where
  "js_join sep [] = []"
| "js_join sep [x] = x"
| "js_join sep (x # y # ys) = x @ sep @ js_join sep (y # ys)"

text \<open>\<open>QuoteJSONString\<close>: the short escapes, \<open>\u00XX\<close> for the other control characters.\<close>

definition json_escape :: "char \<Rightarrow> string" where
  "json_escape c =
     (let n = (of_char c :: nat); bs = CHR 0x5C in
      if n = 34 then [bs, c] else if n = 92 then [bs, c]
      else if n = 8 then [bs, CHR ''b''] else if n = 12 then [bs, CHR ''f'']
      else if n = 10 then [bs, CHR ''n''] else if n = 13 then [bs, CHR ''r'']
      else if n = 9 then [bs, CHR ''t'']
      else if n < 32 then [bs, CHR ''u''] @ hex_digits 4 n
      else [c])"

definition json_quote :: "string \<Rightarrow> string" where
  "json_quote s = [CHR 0x22] @ concat (map json_escape s) @ [CHR 0x22]"

definition int_str :: "int \<Rightarrow> string" where
  "int_str n = (if n < 0 then ''-'' @ nat_str (nat (- n)) else nat_str (nat n))"

fun json_str :: "json \<Rightarrow> string" where
  "json_str (JStr s) = json_quote s"
| "json_str (JNum n) = int_str n"
| "json_str (JBool b) = (if b then ''true'' else ''false'')"
| "json_str JNull = ''null''"
| "json_str (JArr xs) = ''['' @ js_join '','' (map json_str xs) @ '']''"
| "json_str (JObj kvs) =
     ''{'' @ js_join '','' (map (\<lambda>kv. json_quote (fst kv) @ '':'' @ json_str (snd kv)) kvs) @ ''}''"

section \<open>The group documents\<close>

text \<open>A stored task as \<open>$$ROOT\<close> pushes it: references as ids, no population.\<close>

definition doc_json :: "task \<Rightarrow> json" where
  "doc_json t =
     JObj ([(''_id'', JStr (oid_hex (task_id t))), (''title'', JStr (title t)),
            (''description'', JStr (description t)), (''dueDate'', JStr (iso_string (dueDate t))),
            (''status'', JStr (status_str (status t)))] @
           (case assignedTo t of None \<Rightarrow> [] | Some a \<Rightarrow> [(''assignedTo'', JStr (oid_hex a))]) @
           [(''createdBy'', JStr (oid_hex (createdBy t))), (''priority'', JStr (priority_str (priority t))),
            (''createdAt'', JStr (iso_string (createdAt t))), (''updatedAt'', JStr (iso_string (updatedAt t))),
            (''__v'', JNum 0)])"

text \<open>The group key \<open>{status: '$status', assignedTo: '$assignedTo'}\<close>.\<close>

definition group_id_json :: "summary_group \<Rightarrow> json" where
  "group_id_json g =
     JObj ([(''status'', JStr (status_str (g_status g)))] @
           (case g_assignedTo g of None \<Rightarrow> [] | Some a \<Rightarrow> [(''assignedTo'', JStr (oid_hex a))]))"

section \<open>The CSV writer\<close>

definition csv_quote :: "string \<Rightarrow> string" where
  "csv_quote s = [CHR 0x22] @ concat (map (\<lambda>c. if c = CHR 0x22 then [c, c] else [c]) s) @ [CHR 0x22]"

datatype cell = Quoted string | Raw string

fun cell_text :: "cell \<Rightarrow> string" where
  "cell_text (Quoted s) = s"
| "cell_text (Raw s) = s"

fun render_cell :: "cell \<Rightarrow> string" where
  "render_cell (Quoted s) = csv_quote s"
| "render_cell (Raw s) = s"

definition render_row :: "cell list \<Rightarrow> string" where
  "render_row cs = js_join '','' (map render_cell cs)"

definition csv_doc :: "cell list list \<Rightarrow> string" where
  "csv_doc rows = js_join [CHR 0x0A] (map render_row rows)"

definition csv_header :: "cell list" where
  "csv_header = [Quoted ''_id'', Quoted ''count'', Quoted ''tasks'']"

definition group_cells :: "summary_group \<Rightarrow> cell list" where
  "group_cells g =
     [Quoted (json_str (group_id_json g)), Raw (nat_str (g_count g)),
      Quoted (json_str (JArr (map doc_json (g_tasks g))))]"

text \<open>\<open>csvParser.parse(summary)\<close>: \<open>None\<close> is the exception on an empty summary.\<close>

definition summary_csv :: "summary_group list \<Rightarrow> string option" where
  "summary_csv gs = (if gs = [] then None else Some (csv_doc (csv_header # map group_cells gs)))"

definition csv_empty_error :: string where
  "csv_empty_error = ''Data should not be empty or the \"fields\" option should be included''"

text \<open>What a reader of the export should find: the header, then per group the texts of
  its three cells.\<close>

definition summary_table :: "summary_group list \<Rightarrow> string list list" where
  "summary_table gs =
     [''_id'', ''count'', ''tasks''] #
     map (\<lambda>g. [json_str (group_id_json g), nat_str (g_count g),
                 json_str (JArr (map doc_json (g_tasks g)))]) gs"

section \<open>An RFC 4180 reader\<close>

text \<open>The rest of a quoted field after its opening quote: its text and what follows the
  closing quote.\<close>

fun q_body :: "string \<Rightarrow> (string \<times> string) option" where
  "q_body [] = None"
| "q_body (c # cs) =
     (if c = CHR 0x22 then
        (case cs of
           d # ds \<Rightarrow> if d = CHR 0x22 then map_option (\<lambda>(s, r). (c # s, r)) (q_body ds) else Some ([], cs)
         | [] \<Rightarrow> Some ([], []))
      else map_option (\<lambda>(s, r). (c # s, r)) (q_body cs))"

definition raw_stop :: "char \<Rightarrow> bool" where
  "raw_stop c \<longleftrightarrow> c = CHR '','' \<or> c = CHR 0x0A"

fun csv_field :: "string \<Rightarrow> (string \<times> string) option" where
  "csv_field [] = Some ([], [])"
| "csv_field (c # cs) =
     (if c = CHR 0x22 then q_body cs
      else Some (takeWhile (\<lambda>x. \<not> raw_stop x) (c # cs), dropWhile (\<lambda>x. \<not> raw_stop x) (c # cs)))"

lemma q_body_length: "q_body s = Some (f, r) \<Longrightarrow> length r < length s"
  by (induction s arbitrary: f rule: q_body.induct)
     (fastforce split: if_splits list.splits)+

lemma csv_field_length:
  assumes "csv_field s = Some (f, r)"
  shows "length r \<le> length s"
proof (cases s)
  case Nil
  with assms show ?thesis by simp
next
  case (Cons c cs)
  show ?thesis
  proof (cases "c = CHR 0x22")
    case True
    with Cons assms show ?thesis by (auto dest: q_body_length)
  next
    case False
    with Cons assms have "r = dropWhile (\<lambda>x. \<not> raw_stop x) s"
      by (simp del: dropWhile.simps takeWhile.simps)
    then show ?thesis by (simp only: length_dropWhile_le)
  qed
qed

text \<open>The fields of one record, what follows it, and whether a line feed ended it.\<close>

function csv_fields :: "string \<Rightarrow> (string list \<times> string \<times> bool) option" where
  "csv_fields s =
     (case csv_field s of
        None \<Rightarrow> None
      | Some (f, r) \<Rightarrow>
          (case r of
             [] \<Rightarrow> Some ([f], [], False)
           | c # r' \<Rightarrow>
               if c = CHR '','' then map_option (\<lambda>(fs, t, m). (f # fs, t, m)) (csv_fields r')
               else if c = CHR 0x0A then Some ([f], r', True) else None))"
  by pat_completeness auto
termination
  by (relation "measure length") (auto dest!: csv_field_length)

declare csv_fields.simps [simp del]

lemma csv_fields_length: "csv_fields s = Some (fs, r, True) \<Longrightarrow> length r < length s"
proof (induction s arbitrary: fs rule: csv_fields.induct)
  case (1 s)
  then show ?case
    by (subst (asm) csv_fields.simps)
       (fastforce dest: csv_field_length split: option.splits list.splits if_splits)
qed

function csv_records :: "string \<Rightarrow> string list list option" where
  "csv_records s =
     (case csv_fields s of
        None \<Rightarrow> None
      | Some (fs, r, nl) \<Rightarrow> if nl then map_option (Cons fs) (csv_records r) else Some [fs])"
  by pat_completeness auto
termination
  by (relation "measure length") (auto dest: csv_fields_length)

declare csv_records.simps [simp del]

text \<open>A cell the writer leaves unquoted must not contain a separator or a quote.\<close>

definition raw_ok :: "string \<Rightarrow> bool" where
  "raw_ok x \<longleftrightarrow> (\<forall>c \<in> set x. \<not> raw_stop c \<and> c \<noteq> CHR 0x22)"

fun cell_ok :: "cell \<Rightarrow> bool" where
  "cell_ok (Quoted s) = True"
| "cell_ok (Raw x) = raw_ok x"

section \<open>The reader inverts the writer\<close>

lemma js_join_Cons: "xs \<noteq> [] \<Longrightarrow> js_join sep (x # xs) = x @ sep @ js_join sep xs"
  by (cases xs) simp_all

lemma q_body_quoted:
  assumes "r = [] \<or> hd r \<noteq> CHR 0x22"
  shows "q_body (concat (map (\<lambda>c. if c = CHR 0x22 then [c, c] else [c]) s) @ CHR 0x22 # r) = Some (s, r)"
  using assms by (induction s) (auto split: list.split)

lemma csv_field_cell:
  assumes "cell_ok c" and "r = [] \<or> raw_stop (hd r)"
  shows "csv_field (render_cell c @ r) = Some (cell_text c, r)"
proof (cases c)
  case (Quoted s)
  from assms(2) have "r = [] \<or> hd r \<noteq> CHR 0x22" by (auto simp: raw_stop_def)
  with Quoted show ?thesis by (simp add: csv_quote_def q_body_quoted)
next
  case (Raw x)
  with assms(1) have ok: "\<forall>c \<in> set x. \<not> raw_stop c \<and> c \<noteq> CHR 0x22" by (simp add: raw_ok_def)
  have stop: "takeWhile (\<lambda>x. \<not> raw_stop x) r = [] \<and> dropWhile (\<lambda>x. \<not> raw_stop x) r = r"
    using assms(2) by (cases r) simp_all
  show ?thesis
  proof (cases x)
    case Nil
    with Raw assms(2) stop show ?thesis by (cases r) (auto simp: raw_stop_def)
  next
    case (Cons a x')
    with Raw ok stop show ?thesis
      by (simp add: takeWhile_append2 dropWhile_append2)
  qed
qed

lemma csv_fields_row:
  assumes "cs \<noteq> []" and "\<forall>c \<in> set cs. cell_ok c" and "r = [] \<or> hd r = CHR 0x0A"
  shows "csv_fields (render_row cs @ r) = Some (map cell_text cs, tl r, r \<noteq> [])"
  using assms
proof (induction cs)
  case Nil
  then show ?case by simp
next
  case (Cons x xs)
  show ?case
  proof (cases "xs = []")
    case True
    from Cons.prems have "csv_field (render_cell x @ r) = Some (cell_text x, r)"
      by (intro csv_field_cell) (auto simp: raw_stop_def)
    with True Cons.prems(3) show ?thesis
      by (subst csv_fields.simps) (auto simp: render_row_def split: list.split)
  next
    case False
    have "csv_field (render_cell x @ CHR '','' # render_row xs @ r) = Some (cell_text x, CHR '','' # render_row xs @ r)"
      using Cons.prems(2) by (intro csv_field_cell) (simp_all add: raw_stop_def)
    moreover have "render_row (x # xs) = render_cell x @ '','' @ render_row xs"
      using False by (simp add: render_row_def js_join_Cons)
    ultimately show ?thesis
      using Cons.IH [OF False] Cons.prems by (subst csv_fields.simps) simp
  qed
qed

lemma csv_records_doc:
  assumes "rows \<noteq> []" and "\<forall>cs \<in> set rows. cs \<noteq> [] \<and> (\<forall>c \<in> set cs. cell_ok c)"
  shows "csv_records (csv_doc rows) = Some (map (map cell_text) rows)"
  using assms
proof (induction rows)
  case Nil
  then show ?case by simp
next
  case (Cons cs rows)
  show ?case
  proof (cases "rows = []")
    case True
    with Cons.prems csv_fields_row [of cs "[]"] show ?thesis
      by (subst csv_records.simps) (simp add: csv_doc_def)
  next
    case False
    have "csv_doc (cs # rows) = render_row cs @ CHR 0x0A # csv_doc rows"
      using False by (simp add: csv_doc_def js_join_Cons)
    with Cons.prems csv_fields_row [of cs "CHR 0x0A # csv_doc rows"] Cons.IH [OF False] show ?thesis
      by (subst csv_records.simps) simp
  qed
qed

lemma raw_ok_nat_str: "raw_ok (nat_str n)"
proof -
  have "\<not> raw_stop c \<and> c \<noteq> CHR 0x22" if "c \<in> set (nat_str n)" for c
  proof -
    from nat_str_digits [OF that] have "48 \<le> (of_char c :: nat)" by simp
    then show ?thesis by (auto simp: raw_stop_def)
  qed
  then show ?thesis by (simp add: raw_ok_def)
qed

lemma group_cells_ok: "group_cells g \<noteq> [] \<and> (\<forall>c \<in> set (group_cells g). cell_ok c)"
  by (simp add: group_cells_def raw_ok_nat_str)

lemma summary_csv_None_iff: "summary_csv gs = None \<longleftrightarrow> gs = []"
  by (simp add: summary_csv_def)

lemma summary_csv_records:
  assumes "summary_csv gs = Some txt"
  shows "csv_records txt = Some (summary_table gs)"
proof -
  from assms have gs: "gs \<noteq> []" and doc: "txt = csv_doc (csv_header # map group_cells gs)"
    by (simp_all add: summary_csv_def split: if_splits)
  have "csv_records (csv_doc (csv_header # map group_cells gs)) =
        Some (map (map cell_text) (csv_header # map group_cells gs))"
    using group_cells_ok by (intro csv_records_doc) (auto simp: csv_header_def)
  then show ?thesis
    by (simp add: doc summary_table_def csv_header_def group_cells_def comp_def)
qed

section \<open>Properties of the export\<close>

text \<open>
  C17.  The CSV export is lossless: for an empty summary \<open>json2csv\<close> throws, and
  otherwise reading the text back with an RFC 4180 reader gives the header
  \<open>"_id","count","tasks"\<close> and, for each group in order, the \<open>JSON.stringify\<close> text of
  its key, its count in decimal and the \<open>JSON.stringify\<close> text of its task documents.
\<close>

theorem summary_csv_roundtrip:
  "map_option csv_records (summary_csv gs) =
     (if gs = [] then None else Some (Some (summary_table gs)))"
proof (cases "summary_csv gs")
  case None
  then show ?thesis by (simp add: summary_csv_None_iff)
next
  case (Some t)
  with summary_csv_records [OF Some] show ?thesis by (auto simp: summary_csv_None_iff [symmetric])
qed

end
