(* ===== verification/Handlers.thy ===== *)
theory Handlers
  imports Csv
begin

text \<open>
  The request handlers of \<open>src/backend/controllers/taskController.js\<close>.  Each handler is
  a function of the store and the request that returns the HTTP response and the new
  store, with one branch per early return of the code and the \<open>catch\<close> block's 400 for
  every exception the code can raise: a cast error of a malformed id, and the
  \<open>TypeError\<close> of a property read on \<open>null\<close> or \<open>undefined\<close>.  \<open>req.user\<close> is
  \<open>None\<close> when the route has no authentication middleware in front of the handler.
  Ids are compared as values: the code compares them through \<open>toString()\<close>, which is
  the same for 96-bit ids (\<open>ObjectId.oid_hex_eq_iff\<close>).
\<close>

section \<open>Requests and responses\<close>

record request =
  req_user :: "user option"
  req_id :: string
  req_query :: query
  req_body :: body
  req_now :: time

datatype resp_body =
    RTask task
  | RView task_view
  | RViews "task_view list"
  | RGroups "summary_group list"
  | RCsv string
  | RUsers "(oid \<times> string \<times> string) list"
  | RMessage string
  | RError string

record response =
  code :: nat
  resp :: resp_body

definition ok_resp :: "nat \<Rightarrow> resp_body \<Rightarrow> response" where
  "ok_resp c b = \<lparr>code = c, resp = b\<rparr>"

definition error_resp :: "nat \<Rightarrow> string \<Rightarrow> response" where
  "error_resp c m = \<lparr>code = c, resp = RError m\<rparr>"

text \<open>The messages of the exceptions the \<open>catch\<close> blocks report.\<close>

definition quote_str :: "string \<Rightarrow> string" where
  "quote_str s = [CHR 0x27] @ s @ [CHR 0x27]"

definition null_read :: "string \<Rightarrow> string" where
  "null_read p = ''Cannot read properties of null (reading '' @ quote_str p @ '')''"

definition undefined_read :: "string \<Rightarrow> string" where
  "undefined_read p = ''Cannot read properties of undefined (reading '' @ quote_str p @ '')''"

definition cast_error :: "string \<Rightarrow> string" where
  "cast_error v = ''Cast to ObjectId failed for value \"'' @ v @ ''\" (type string) at path \"_id\" for model \"Task\"''"

text \<open>
  A due date the Mongoose cast rejects surfaces at \<open>save()\<close> as a validation error,
  after the assignee has been looked up; only a string can fail the cast.
\<close>

definition due_cast_error :: "body \<Rightarrow> string" where
  "due_cast_error b =
     ''Task validation failed: dueDate: Cast to date failed for value \"'' @
     (case Option.bind (map_of b ''dueDate'') json_string of Some s \<Rightarrow> s | None \<Rightarrow> []) @
     ''\" (type string) at path \"dueDate\"''"

text \<open>\<open>if (req.body.assignedTo)\<close> and \<open>User.findOne\<close> found no user of that name.\<close>

definition assignee_missing :: "db \<Rightarrow> body \<Rightarrow> bool" where
  "assignee_missing d b =
     (case Option.bind (map_of b ''assignedTo'') json_string of
        Some n \<Rightarrow> n \<noteq> [] \<and> find_user_by_name d n = None
      | None \<Rightarrow> False)"

section \<open>createTask\<close>

text \<open>
  \<open>new Task({...req.body, createdBy: req.user._id})\<close>: the schema's defaults for absent
  \<open>status\<close> and \<open>priority\<close>, both timestamps set to the time of the save.  The
  body's \<open>assignedTo\<close> (a username) does not survive: it is replaced by the resolved id
  or the request ends before the save.
\<close>

definition new_task :: "oid \<Rightarrow> task_input \<Rightarrow> oid \<Rightarrow> time \<Rightarrow> task" where
  "new_task i inp c now =
     \<lparr>task_id = i, title = in_title inp, description = in_description inp,
      dueDate = in_dueDate inp,
      status = (case in_status inp of None \<Rightarrow> default_status | Some s \<Rightarrow> s),
      assignedTo = None, createdBy = c,
      priority = (case in_priority inp of None \<Rightarrow> default_priority | Some p \<Rightarrow> p),
      createdAt = now, updatedAt = now\<rparr>"

text \<open>Lines 16--37.\<close>

definition createTask :: "db \<Rightarrow> request \<Rightarrow> response \<times> db" where
  "createTask d r =
     (case validate_body (req_body r) of
        Some e \<Rightarrow> (error_resp 400 (joi_message e), d)
      | None \<Rightarrow>
          (case req_user r of
             None \<Rightarrow> (error_resp 400 (undefined_read ''_id''), d)
           | Some p \<Rightarrow>
               (case decode_body (req_body r) of
                  None \<Rightarrow>
                    (error_resp 400 (if assignee_missing d (req_body r) then ''Assigned user not found''
                                     else due_cast_error (req_body r)), d)
                | Some inp \<Rightarrow>
                    (let (i, d1) = fresh_oid d;
                         t = new_task i inp (user_id p) (req_now r)
                     in case in_assignedTo inp of
                          Some n \<Rightarrow>
                            if n \<noteq> [] then
                              (case find_user_by_name d1 n of
                                 None \<Rightarrow> (error_resp 400 ''Assigned user not found'', d1)
                               | Some u \<Rightarrow>
                                   let t' = t\<lparr>assignedTo := Some (user_id u)\<rparr>
                                   in (ok_resp 201 (RTask t'), insert_task t' d1))
                            else (ok_resp 201 (RTask t), insert_task t d1)
                        | None \<Rightarrow> (ok_resp 201 (RTask t), insert_task t d1)))))"

section \<open>getTasks and getTask\<close>

text \<open>Lines 77--102: the scoped query, each result populated.\<close>

definition getTasks :: "db \<Rightarrow> request \<Rightarrow> response \<times> db" where
  "getTasks d r =
     (case req_user r of
        None \<Rightarrow> (error_resp 400 (undefined_read ''isAdmin''), d)
      | Some p \<Rightarrow>
          (ok_resp 200 (RViews (map (view_task d) (find_tasks d (list_filter d p (req_query r))))), d))"

text \<open>
  Lines 104--122.  The access test is
  \<open>!isAdmin && createdBy._id != user._id && assignedTo._id != user._id\<close> on the populated
  task, evaluated left to right: a populated reference that is \<open>null\<close> (a dangling
  reference) or \<open>undefined\<close> (an unassigned task) throws when its \<open>_id\<close> is read,
  and the \<open>catch\<close> answers 400 with the \<open>TypeError\<close>'s message.
\<close>

definition getTask :: "db \<Rightarrow> request \<Rightarrow> response \<times> db" where
  "getTask d r =
     (case parse_oid (req_id r) of
        None \<Rightarrow> (error_resp 400 (cast_error (req_id r)), d)
      | Some i \<Rightarrow>
          (case find_task d i of
             None \<Rightarrow> (error_resp 404 ''Task not found'', d)
           | Some t \<Rightarrow>
               (let v = view_task d t in
                case req_user r of
                  None \<Rightarrow> (error_resp 400 (undefined_read ''isAdmin''), d)
                | Some p \<Rightarrow>
                    if isAdmin p then (ok_resp 200 (RView v), d)
                    else (case tv_createdBy v of
                            None \<Rightarrow> (error_resp 400 (null_read ''_id''), d)
                          | Some c \<Rightarrow>
                              if ref_id c \<noteq> user_id p then
                                (case tv_assignedTo v of
                                   None \<Rightarrow>
                                     (error_resp 400 (if assignedTo t = None then undefined_read ''_id''
                                                      else null_read ''_id''), d)
                                 | Some a \<Rightarrow>
                                     if ref_id a \<noteq> user_id p
                                     then (error_resp 403 ''Access denied'', d)
                                     else (ok_resp 200 (RView v), d))
                              else (ok_resp 200 (RView v), d)))))"

section \<open>updateTask and deleteTask\<close>

text \<open>
  \<open>Object.assign(task, req.body)\<close> followed by \<open>save()\<close>: the keys present in the
  body overwrite the document's fields (\<open>assignedTo\<close> with the resolved id), the others
  are kept.  Mongoose marks a path modified only when the assigned value differs from the
  stored one, and the \<open>timestamps\<close> option refreshes \<open>updatedAt\<close> on a save only
  when some path is modified.
\<close>

definition apply_input :: "task_input \<Rightarrow> oid option \<Rightarrow> time \<Rightarrow> task \<Rightarrow> task" where
  "apply_input inp a now t =
     (let t' = t\<lparr>title := in_title inp, description := in_description inp, dueDate := in_dueDate inp,
                 status := (case in_status inp of None \<Rightarrow> status t | Some s \<Rightarrow> s),
                 assignedTo := (case a of None \<Rightarrow> assignedTo t | Some u \<Rightarrow> Some u),
                 priority := (case in_priority inp of None \<Rightarrow> priority t | Some p \<Rightarrow> p)\<rparr>
      in if t' = t then t else t'\<lparr>updatedAt := now\<rparr>)"

text \<open>Lines 124--148.\<close>

definition updateTask :: "db \<Rightarrow> request \<Rightarrow> response \<times> db" where
  "updateTask d r =
     (case validate_body (req_body r) of
        Some e \<Rightarrow> (error_resp 400 (joi_message e), d)
      | None \<Rightarrow>
          (case parse_oid (req_id r) of
             None \<Rightarrow> (error_resp 400 (cast_error (req_id r)), d)
           | Some i \<Rightarrow>
               (case find_task d i of
                  None \<Rightarrow> (error_resp 404 ''Task not found'', d)
                | Some t \<Rightarrow>
                    (case req_user r of
                       None \<Rightarrow> (error_resp 400 (undefined_read ''isAdmin''), d)
                     | Some p \<Rightarrow>
                         if \<not> isAdmin p \<and> createdBy t \<noteq> user_id p
                         then (error_resp 403 ''Access denied'', d)
                         else
                           (case decode_body (req_body r) of
                              None \<Rightarrow>
                                (error_resp 400 (if assignee_missing d (req_body r)
                                                 then ''Assigned user not found''
                                                 else due_cast_error (req_body r)), d)
                            | Some inp \<Rightarrow>
                                (case in_assignedTo inp of
                                   Some n \<Rightarrow>
                                     if n \<noteq> [] then
                                       (case find_user_by_name d n of
                                          None \<Rightarrow> (error_resp 400 ''Assigned user not found'', d)
                                        | Some u \<Rightarrow>
                                            let t' = apply_input inp (Some (user_id u)) (req_now r) t
                                            in (ok_resp 200 (RTask t'), replace_task t' d))
                                     else
                                       let t' = apply_input inp None (req_now r) t
                                       in (ok_resp 200 (RTask t'), replace_task t' d)
                                 | None \<Rightarrow>
                                     let t' = apply_input inp None (req_now r) t
                                     in (ok_resp 200 (RTask t'), replace_task t' d)))))))"

text \<open>Lines 151--165.\<close>

definition deleteTask :: "db \<Rightarrow> request \<Rightarrow> response \<times> db" where
  "deleteTask d r =
     (case parse_oid (req_id r) of
        None \<Rightarrow> (error_resp 400 (cast_error (req_id r)), d)
      | Some i \<Rightarrow>
          (case find_task d i of
             None \<Rightarrow> (error_resp 404 ''Task not found'', d)
           | Some t \<Rightarrow>
               (case req_user r of
                  None \<Rightarrow> (error_resp 400 (undefined_read ''isAdmin''), d)
                | Some p \<Rightarrow>
                    if \<not> isAdmin p \<and> createdBy t \<noteq> user_id p
                    then (error_resp 403 ''Access denied'', d)
                    else (ok_resp 200 (RMessage ''Task deleted successfully''), remove_task i d))))"

text \<open>
  \<open>Document.prototype.remove\<close> exists up to Mongoose 6 and was removed in Mongoose 7;
  the sources do not fix the version.  \<open>deleteTask\<close> above is the handler under
  Mongoose 6.  Under Mongoose 7 or later the call \<open>task.remove()\<close> throws a
  \<open>TypeError\<close> once the permission check has passed, and the \<open>catch\<close> answers 400.
\<close>

definition deleteTask_m7 :: "db \<Rightarrow> request \<Rightarrow> response \<times> db" where
  "deleteTask_m7 d r =
     (case parse_oid (req_id r) of
        None \<Rightarrow> (error_resp 400 (cast_error (req_id r)), d)
      | Some i \<Rightarrow>
          (case find_task d i of
             None \<Rightarrow> (error_resp 404 ''Task not found'', d)
           | Some t \<Rightarrow>
               (case req_user r of
                  None \<Rightarrow> (error_resp 400 (undefined_read ''isAdmin''), d)
                | Some p \<Rightarrow>
                    if \<not> isAdmin p \<and> createdBy t \<noteq> user_id p
                    then (error_resp 403 ''Access denied'', d)
                    else (error_resp 400 ''task.remove is not a function'', d))))"

section \<open>The summaries and the user list\<close>

text \<open>
  Lines 167--213.  The filter is built first; reading \<open>req.user.isAdmin\<close> at its end
  throws when there is no principal.  \<open>format=csv\<close> sends the groups through the CSV
  encoder of \<open>Csv\<close> as an attachment; the encoder throws on an empty summary and the
  \<open>catch\<close> answers 400 with its message.  Any other value sends the groups as JSON.
\<close>

definition getTaskSummary :: "db \<Rightarrow> request \<Rightarrow> response \<times> db" where
  "getTaskSummary d r =
     (case req_user r of
        None \<Rightarrow> (error_resp 400 (undefined_read ''isAdmin''), d)
      | Some p \<Rightarrow>
          (let s = aggregate_summary d (summary_filter p (req_query r)) in
           if qparam (req_query r) ''format'' = Some ''csv''
           then (case summary_csv s of
                   None \<Rightarrow> (error_resp 400 csv_empty_error, d)
                 | Some txt \<Rightarrow> (ok_resp 200 (RCsv txt), d))
           else (ok_resp 200 (RGroups s), d)))"

text \<open>Lines 38--74: the same pipeline, always answered as JSON.\<close>

definition getTaskSummaryJson :: "db \<Rightarrow> request \<Rightarrow> response \<times> db" where
  "getTaskSummaryJson d r =
     (case req_user r of
        None \<Rightarrow> (error_resp 400 (undefined_read ''isAdmin''), d)
      | Some p \<Rightarrow>
          (ok_resp 200 (RGroups (aggregate_summary d (summary_filter p (req_query r)))), d))"

text \<open>
  Lines 216--228: \<open>User.find({}, 'username email')\<close> for administrators only; the
  projection keeps \<open>_id\<close>, so each user is sent as \<open>{_id, username, email}\<close>.
\<close>

definition getUsers :: "db \<Rightarrow> request \<Rightarrow> response \<times> db" where
  "getUsers d r =
     (case req_user r of
        None \<Rightarrow> (error_resp 400 (undefined_read ''isAdmin''), d)
      | Some p \<Rightarrow>
          if \<not> isAdmin p then (error_resp 403 ''Access denied. Admins only.'', d)
          else (ok_resp 200 (RUsers (map (\<lambda>u. (user_id u, username u, email u)) (users d))), d))"

section \<open>The contract of the write gate\<close>

text \<open>
  The write permission of the access-control gate (spec, section 4.3): administrators and
  the creator may update or delete a task; the assignee may not.
\<close>

definition can_write :: "user \<Rightarrow> task \<Rightarrow> bool" where
  "can_write p t \<longleftrightarrow> isAdmin p \<or> createdBy t = user_id p"

text \<open>The principal of a request is a user of the store (what the auth middleware loads).\<close>

definition principal_in :: "db \<Rightarrow> request \<Rightarrow> bool" where
  "principal_in d r \<longleftrightarrow> (case req_user r of None \<Rightarrow> True | Some p \<Rightarrow> p \<in> set (users d))"

section \<open>Lemmas\<close>

lemma getTask_store: "snd (getTask d r) = d"
  by (auto simp: getTask_def Let_def split: option.splits if_splits)

lemma getTask_ok:
  assumes "fst (getTask d r) = res" "code res = 200" "req_user r = Some p"
  shows "\<exists>i t. parse_oid (req_id r) = Some i \<and> find_task d i = Some t \<and>
           resp res = RView (view_task d t) \<and> can_read p t"
  using assms
  by (auto simp: getTask_def Let_def can_read_def view_task_def ok_resp_def error_resp_def
      dest: populate_ref_id split: option.splits if_splits)

lemma wf_db_populate_creator:
  "wf_db d \<Longrightarrow> t \<in> set (tasks d) \<Longrightarrow> \<exists>c. populate d (Some (createdBy t)) = Some c \<and> ref_id c = createdBy t"
  by (cases "populate d (Some (createdBy t))")
     (auto simp: wf_db_def populate_Some_iff [symmetric] dest: populate_ref_id)

lemma getTask_unassigned_crash:
  assumes "wf_db d" "parse_oid (req_id r) = Some i" "find_task d i = Some t"
    "req_user r = Some p" "\<not> isAdmin p" "createdBy t \<noteq> user_id p" "assignedTo t = None"
  shows "fst (getTask d r) = error_resp 400 (undefined_read ''_id'')"
proof -
  from assms(3) have "t \<in> set (tasks d)" by (simp add: find_task_Some)
  with assms(1) obtain c where c: "populate d (Some (createdBy t)) = Some c" "ref_id c = createdBy t"
    using wf_db_populate_creator by blast
  have "populate d None = None" by (simp add: populate_def)
  with c assms show ?thesis
    by (simp add: getTask_def view_task_def Let_def)
qed

text \<open>A dangling assignee (a deleted user) is \<open>null\<close> after \<open>populate\<close> instead.\<close>

lemma getTask_dangling_assignee_crash:
  assumes "parse_oid (req_id r) = Some i" "find_task d i = Some t" "createdBy t \<in> user_ids d"
    "req_user r = Some p" "\<not> isAdmin p" "createdBy t \<noteq> user_id p"
    "assignedTo t = Some j" "j \<notin> user_ids d"
  shows "fst (getTask d r) = error_resp 400 (null_read ''_id'')"
proof -
  from assms(3) obtain c where c: "populate d (Some (createdBy t)) = Some c"
    using populate_Some_iff by blast
  then have "ref_id c = createdBy t" by (auto dest: populate_ref_id)
  moreover have "populate d (Some j) = None" using assms(8) populate_Some_iff by blast
  ultimately show ?thesis
    using c assms by (simp add: getTask_def view_task_def Let_def)
qed

lemma deleteTask_ok:
  assumes "deleteTask d r = (res, d')" "code res = 200"
  shows "\<exists>p i t. req_user r = Some p \<and> parse_oid (req_id r) = Some i \<and> find_task d i = Some t \<and>
           can_write p t \<and> d' = remove_task i d"
  using assms
  by (auto simp: deleteTask_def can_write_def ok_resp_def error_resp_def split: option.splits if_splits)

lemma updateTask_ok:
  assumes "updateTask d r = (res, d')" "code res = 200"
  shows "\<exists>p i t t'. req_user r = Some p \<and> parse_oid (req_id r) = Some i \<and> find_task d i = Some t \<and>
           can_write p t \<and> resp res = RTask t' \<and> d' = replace_task t' d \<and>
           task_id t' = task_id t \<and> createdBy t' = createdBy t \<and>
           (assignedTo t' = assignedTo t \<or> (\<exists>u \<in> set (users d). assignedTo t' = Some (user_id u)))"
  using assms
  by (auto simp: updateTask_def can_write_def ok_resp_def error_resp_def apply_input_def Let_def
      dest!: find_user_by_name_Some split: option.splits if_splits)

lemma createTask_ok:
  assumes "createTask d r = (res, d')" "code res = 201"
  shows "\<exists>p t. req_user r = Some p \<and> resp res = RTask t \<and>
           d' = insert_task t (snd (fresh_oid d)) \<and> task_id t = next_oid d \<and>
           createdBy t = user_id p \<and> set_option (assignedTo t) \<subseteq> user_ids d \<and>
           createdAt t = req_now r"
  using assms
  by (auto simp: createTask_def fresh_oid_def ok_resp_def error_resp_def Let_def new_task_def
      user_ids_def find_user_by_name_def dest!: find_Some_mem split: option.splits if_splits)

lemma wf_db_insert:
  assumes "wf_db d" "task_id t = next_oid d" "createdBy t \<in> user_ids d"
    "set_option (assignedTo t) \<subseteq> user_ids d"
  shows "wf_db (insert_task t (snd (fresh_oid d)))"
  using assms by (auto simp: wf_db_def insert_task_def fresh_oid_def user_ids_def)

lemma replace_task_ids:
  "task_id t' = task_id t \<Longrightarrow> map task_id (tasks (replace_task t' d)) = map task_id (tasks d)"
  by (induction "tasks d" arbitrary: d) (auto simp: replace_task_def)

lemma createTask_fail:
  "createTask d r = (res, d') \<Longrightarrow> code res \<noteq> 201 \<Longrightarrow> d' = d \<or> d' = snd (fresh_oid d)"
  by (auto simp: createTask_def ok_resp_def error_resp_def Let_def fresh_oid_def split: option.splits if_splits)

lemma updateTask_fail:
  "updateTask d r = (res, d') \<Longrightarrow> code res \<noteq> 200 \<Longrightarrow> d' = d"
  by (auto simp: updateTask_def ok_resp_def error_resp_def Let_def split: option.splits if_splits)

lemma deleteTask_fail:
  "deleteTask d r = (res, d') \<Longrightarrow> code res \<noteq> 200 \<Longrightarrow> d' = d"
  by (auto simp: deleteTask_def ok_resp_def error_resp_def split: option.splits if_splits)

text \<open>
  Under Mongoose 7 the delete route never deletes; it differs from the Mongoose 6 handler
  exactly where that one succeeds.
\<close>

lemma deleteTask_m7_never_deletes:
  "snd (deleteTask_m7 d r) = d \<and> code (fst (deleteTask_m7 d r)) \<in> {400, 403, 404}"
  by (simp add: deleteTask_m7_def error_resp_def split: option.split)

lemma deleteTask_m7_agrees:
  "code (fst (deleteTask d r)) \<noteq> 200 \<Longrightarrow> deleteTask_m7 d r = deleteTask d r"
  "code (fst (deleteTask d r)) = 200 \<Longrightarrow>
   deleteTask_m7 d r = (error_resp 400 ''task.remove is not a function'', d)"
  by (auto simp: deleteTask_def deleteTask_m7_def ok_resp_def error_resp_def split: option.splits)

lemma wf_db_fresh: "wf_db d \<Longrightarrow> wf_db (snd (fresh_oid d))"
  by (auto simp: wf_db_def fresh_oid_def user_ids_def)

lemma wf_db_replace:
  assumes "wf_db d" "t \<in> set (tasks d)" "task_id t' = task_id t" "createdBy t' \<in> user_ids d"
    "set_option (assignedTo t') \<subseteq> user_ids d"
  shows "wf_db (replace_task t' d)"
proof -
  let ?d = "replace_task t' d"
  have "map task_id (tasks ?d) = map task_id (tasks d)"
    using assms(3) by (rule replace_task_ids)
  with assms(1) have dist: "distinct (map task_id (tasks ?d))"
    by (simp add: wf_db_def)
  have same: "users ?d = users d" "next_oid ?d = next_oid d" "user_ids ?d = user_ids d"
    by (simp_all add: replace_task_def user_ids_def)
  have "task_id t' < next_oid d"
    using assms(1,2,3) by (auto simp: wf_db_def)
  then have "task_id x < next_oid ?d \<and> createdBy x \<in> user_ids ?d \<and> set_option (assignedTo x) \<subseteq> user_ids ?d"
    if "x \<in> set (tasks ?d)" for x
    using that assms(1,4,5) same by (auto simp: replace_task_def wf_db_def)
  with dist same assms(1) show ?thesis
    by (simp add: wf_db_def)
qed

lemma wf_db_remove: "wf_db d \<Longrightarrow> wf_db (remove_task i d)"
  by (auto simp: wf_db_def remove_task_def user_ids_def distinct_map_filter)

lemma createTask_keeps_wf:
  assumes "wf_db d" and "principal_in d r"
  shows "wf_db (snd (createTask d r))"
proof (cases "code (fst (createTask d r)) = 201")
  case True
  from createTask_ok [OF prod.collapse [symmetric] True] obtain p t where
    "req_user r = Some p" "snd (createTask d r) = insert_task t (snd (fresh_oid d))"
    "task_id t = next_oid d" "createdBy t = user_id p" "set_option (assignedTo t) \<subseteq> user_ids d"
    by blast
  with assms show ?thesis
    by (auto simp: principal_in_def user_ids_def intro!: wf_db_insert)
next
  case False
  from createTask_fail [OF prod.collapse [symmetric] False] assms(1) wf_db_fresh show ?thesis by auto
qed

lemma updateTask_keeps_wf:
  assumes "wf_db d" and "principal_in d r"
  shows "wf_db (snd (updateTask d r))"
proof (cases "code (fst (updateTask d r)) = 200")
  case True
  from updateTask_ok [OF prod.collapse [symmetric] True] obtain i t t' where
    t: "find_task d i = Some t" and d': "snd (updateTask d r) = replace_task t' d"
    and same: "task_id t' = task_id t" "createdBy t' = createdBy t"
    and a: "assignedTo t' = assignedTo t \<or> (\<exists>u \<in> set (users d). assignedTo t' = Some (user_id u))"
    by blast
  from t have tin: "t \<in> set (tasks d)" by (simp add: find_task_Some)
  with assms(1) have "createdBy t \<in> user_ids d" "set_option (assignedTo t) \<subseteq> user_ids d"
    by (auto simp: wf_db_def)
  with a same have "createdBy t' \<in> user_ids d" "set_option (assignedTo t') \<subseteq> user_ids d"
    by (auto simp: user_ids_def)
  with assms(1) tin same(1) d' show ?thesis
    by (simp add: wf_db_replace)
next
  case False
  from updateTask_fail [OF prod.collapse [symmetric] False] assms(1) show ?thesis by simp
qed

lemma deleteTask_keeps_wf:
  assumes "wf_db d" and "principal_in d r"
  shows "wf_db (snd (deleteTask d r))"
proof (cases "code (fst (deleteTask d r)) = 200")
  case True
  from deleteTask_ok [OF prod.collapse [symmetric] True] assms(1) wf_db_remove show ?thesis by auto
next
  case False
  from deleteTask_fail [OF prod.collapse [symmetric] False] assms(1) show ?thesis by simp
qed

lemma populate_member:
  assumes "distinct (map user_id (users d))" and "u \<in> set (users d)"
  shows "populate d (Some (user_id u)) = Some \<lparr>ref_id = user_id u, ref_username = username u\<rparr>"
  using find_distinct_key [OF assms] by (simp add: populate_def)

lemma createTask_assignee:
  assumes "createTask d r = (res, d')" and "code res = 201" and "resp res = RTask t"
    and "decode_body (req_body r) = Some inp" and "in_assignedTo inp = Some n" and "n \<noteq> []"
  shows "\<exists>u. find_user_by_name d n = Some u \<and> assignedTo t = Some (user_id u)"
  using assms
  by (auto simp: createTask_def fresh_oid_def ok_resp_def error_resp_def Let_def
      find_user_by_name_def split: option.splits if_splits)

section \<open>Properties of the handlers\<close>

text \<open>
  C14.  \<open>getTask\<close> discloses a task only to a principal allowed to read it: a 200 answer
  to a principal carries the populated task stored under the requested id, and the
  principal is an administrator, its creator or its assignee.
\<close>

theorem getTask_read_safety:
  assumes "fst (getTask d r) = res" and "code res = 200" and "req_user r = Some p"
  shows "\<exists>i t. parse_oid (req_id r) = Some i \<and> find_task d i = Some t \<and>
           resp res = RView (view_task d t) \<and> can_read p t"
  using assms by (rule getTask_ok)

text \<open>
  C15.  \<open>getTask\<close> on an unassigned task, asked by a principal that is neither an
  administrator nor the creator, does not answer 403: the task has no \<open>assignedTo\<close>,
  so \<open>populate\<close> leaves it \<open>undefined\<close>, reading \<open>task.assignedTo._id\<close> throws,
  and the \<open>catch\<close> answers 400 with the \<open>TypeError\<close>'s message
  "Cannot read properties of undefined (reading '_id')".
\<close>

theorem getTask_unassigned_not_403:
  assumes "wf_db d" "parse_oid (req_id r) = Some i" "find_task d i = Some t"
    "req_user r = Some p" "\<not> isAdmin p" "createdBy t \<noteq> user_id p" "assignedTo t = None"
  shows "getTask d r = (error_resp 400 (undefined_read ''_id''), d)"
  using getTask_unassigned_crash [OF assms] getTask_store [of d r]
  by (metis prod.collapse)

text \<open>
  C16.  A valid update of an existing task by a principal that is neither an administrator
  nor the task's creator, its assignee included, is refused with 403 and changes nothing.
\<close>

theorem updateTask_denied:
  assumes "validate_body (req_body r) = None" "parse_oid (req_id r) = Some i"
    "find_task d i = Some t" "req_user r = Some p" "\<not> can_write p t"
  shows "updateTask d r = (error_resp 403 ''Access denied'', d)"
  using assms by (simp add: updateTask_def can_write_def)

text \<open>The same for \<open>deleteTask\<close>.\<close>

theorem deleteTask_denied:
  assumes "parse_oid (req_id r) = Some i" "find_task d i = Some t" "req_user r = Some p"
    "\<not> can_write p t"
  shows "deleteTask d r = (error_resp 403 ''Access denied'', d)"
  using assms by (simp add: deleteTask_def can_write_def)

text \<open>
  C18.  Only a principal allowed to write a task changes it: a successful update replaces
  the stored task by one with the same id and creator, a successful delete removes it,
  and in both cases the principal is an administrator or the task's creator.
\<close>

theorem write_requires_permission:
  "(updateTask d r = (res, d') \<and> code res = 200 \<longrightarrow>
      (\<exists>p i t t'. req_user r = Some p \<and> parse_oid (req_id r) = Some i \<and> find_task d i = Some t \<and>
         can_write p t \<and> d' = replace_task t' d \<and> task_id t' = task_id t \<and> createdBy t' = createdBy t)) \<and>
   (deleteTask d r = (res, d') \<and> code res = 200 \<longrightarrow>
      (\<exists>p i t. req_user r = Some p \<and> parse_oid (req_id r) = Some i \<and> find_task d i = Some t \<and>
         can_write p t \<and> d' = remove_task i d))"
  using updateTask_ok [of d r res d'] deleteTask_ok [of d r res d'] by blast

text \<open>
  C19.  The creator of a task is never reassigned: every update, successful or not,
  leaves the id and the creator of every stored task as they were.
\<close>

theorem update_keeps_creators:
  assumes "wf_db d" and "updateTask d r = (res, d')"
  shows "map (\<lambda>t. (task_id t, createdBy t)) (tasks d') = map (\<lambda>t. (task_id t, createdBy t)) (tasks d)"
proof (cases "code res = 200")
  case True
  from updateTask_ok [OF assms(2) True] obtain i t t' where d': "d' = replace_task t' d"
    and same: "task_id t' = task_id t" "createdBy t' = createdBy t" and ti: "find_task d i = Some t"
    by blast
  from ti have tin: "t \<in> set (tasks d)" by (simp add: find_task_Some)
  from assms(1) have "inj_on task_id (set (tasks d))"
    by (simp add: wf_db_def distinct_map)
  with tin have "x = t" if "x \<in> set (tasks d)" "task_id x = task_id t" for x
    using that by (auto dest: inj_onD)
  with d' same show ?thesis by (auto simp: replace_task_def)
next
  case False
  with updateTask_fail [OF assms(2)] show ?thesis by simp
qed

text \<open>
  A created task is appended to the store with a fresh id, the requesting principal
  as its creator whatever the body says, an assignee that is an existing user (or none),
  and both timestamps set to the time of the request.
\<close>

theorem createTask_creator:
  assumes "createTask d r = (res, d')" and "code res = 201"
  shows "\<exists>p t. req_user r = Some p \<and> resp res = RTask t \<and> tasks d' = tasks d @ [t] \<and>
           task_id t = next_oid d \<and> createdBy t = user_id p \<and>
           set_option (assignedTo t) \<subseteq> user_ids d \<and> createdAt t = req_now r \<and> updatedAt t = req_now r"
  using createTask_ok [OF assms] assms
  by (auto simp: insert_task_def fresh_oid_def createTask_def Let_def new_task_def ok_resp_def
      error_resp_def split: option.splits if_splits)

text \<open>
  C21.  The store invariant (unique ids below the allocator, unique usernames, every
  creator and assignee an existing user) is kept by every handler that writes.
\<close>

theorem handlers_keep_wf_db:
  assumes "wf_db d" and "principal_in d r"
  shows "wf_db (snd (createTask d r)) \<and> wf_db (snd (updateTask d r)) \<and> wf_db (snd (deleteTask d r))"
  using createTask_keeps_wf [OF assms] updateTask_keeps_wf [OF assms] deleteTask_keeps_wf [OF assms]
  by blast

text \<open>
  C22.  A write that fails leaves the tasks as they were: an update or a delete not
  answered 200, and a creation not answered 201, change no task.
\<close>

theorem failed_writes_change_nothing:
  "(updateTask d r = (res, d') \<and> code res \<noteq> 200 \<longrightarrow> tasks d' = tasks d) \<and>
   (deleteTask d r = (res, d') \<and> code res \<noteq> 200 \<longrightarrow> tasks d' = tasks d) \<and>
   (createTask d r = (res, d') \<and> code res \<noteq> 201 \<longrightarrow> tasks d' = tasks d)"
  using updateTask_fail [of d r res d'] deleteTask_fail [of d r res d'] createTask_fail [of d r res d']
  by (auto simp: fresh_oid_def)

text \<open>
  C20.  Create, then read back (spec, section 8): in a well-formed store, after a task is
  created (201), \<open>GET /tasks/:id\<close> of its id by the same principal answers 200 with the
  stored task, its creator populated as the principal's \<open>{_id, username}\<close>, and, when
  the body named an assignee, its assignee populated as the stored user of that name, not
  the literal string.
\<close>

theorem create_then_read:
  assumes "wf_db d" and "principal_in d r" and "createTask d r = (res, d')" and "code res = 201"
    and "next_oid d < 2 ^ 96"
    and "req_user r' = req_user r" and "req_id r' = oid_hex (next_oid d)"
  shows "\<exists>p t. req_user r = Some p \<and> resp res = RTask t \<and>
           getTask d' r' = (ok_resp 200 (RView (view_task d' t)), d') \<and>
           tv_createdBy (view_task d' t) = Some \<lparr>ref_id = user_id p, ref_username = username p\<rparr> \<and>
           (\<forall>inp n. decode_body (req_body r) = Some inp \<longrightarrow> in_assignedTo inp = Some n \<longrightarrow> n \<noteq> [] \<longrightarrow>
              (\<exists>u. find_user_by_name d n = Some u \<and>
                   tv_assignedTo (view_task d' t) = Some \<lparr>ref_id = user_id u, ref_username = n\<rparr>))"
proof -
  from createTask_ok [OF assms(3,4)] obtain p t where
    p: "req_user r = Some p" and t: "resp res = RTask t" and d': "d' = insert_task t (snd (fresh_oid d))"
    and i: "task_id t = next_oid d" and c: "createdBy t = user_id p"
    by blast
  have wf': "wf_db d'"
    using createTask_keeps_wf [OF assms(1,2)] assms(3) by simp
  have users: "users d' = users d" by (simp add: d' insert_task_def fresh_oid_def)
  have "t \<in> set (tasks d')" by (simp add: d' insert_task_def)
  with wf' i have find: "find_task d' (next_oid d) = Some t" by (metis wf_db_find_task_unique)
  from assms(1) have dist: "distinct (map user_id (users d'))" by (simp add: users wf_db_def)
  from assms(2) p have "p \<in> set (users d')" by (simp add: principal_in_def users)
  from populate_member [OF dist this] c have cr:
    "tv_createdBy (view_task d' t) = Some \<lparr>ref_id = user_id p, ref_username = username p\<rparr>"
    by (simp add: view_task_def)
  have get: "getTask d' r' = (ok_resp 200 (RView (view_task d' t)), d')"
    using assms(5,6,7) p find cr parse_oid_hex_lemma [OF assms(5)]
    by (simp add: getTask_def Let_def)
  have asg: "\<exists>u. find_user_by_name d n = Some u \<and>
               tv_assignedTo (view_task d' t) = Some \<lparr>ref_id = user_id u, ref_username = n\<rparr>"
    if "decode_body (req_body r) = Some inp" "in_assignedTo inp = Some n" "n \<noteq> []" for inp n
  proof -
    from createTask_assignee [OF assms(3,4) t that] obtain u where
      u: "find_user_by_name d n = Some u" "assignedTo t = Some (user_id u)" by blast
    from u(1) have "u \<in> set (users d')" "username u = n" by (simp_all add: users find_user_by_name_Some)
    with populate_member [OF dist] u show ?thesis by (simp add: view_task_def)
  qed
  from p t get cr asg show ?thesis by blast
qed

text \<open>
  C35.  Refinement of the document store: seen as the finite map from id to task that
  \<open>findById\<close> reads, a successful creation adds the fresh id with the new task, a
  successful update overwrites the task at an existing id, and a successful deletion
  removes an existing id; nothing else of the map changes.
\<close>

theorem writes_refine_map:
  assumes "wf_db d"
  shows "(createTask d r = (res, d') \<and> code res = 201 \<longrightarrow>
            (\<exists>t. resp res = RTask t \<and> next_oid d \<notin> dom (abs_tasks d) \<and>
                 abs_tasks d' = (abs_tasks d)(next_oid d \<mapsto> t))) \<and>
         (updateTask d r = (res, d') \<and> code res = 200 \<longrightarrow>
            (\<exists>i t. parse_oid (req_id r) = Some i \<and> i \<in> dom (abs_tasks d) \<and> resp res = RTask t \<and>
                   abs_tasks d' = (abs_tasks d)(i \<mapsto> t))) \<and>
         (deleteTask d r = (res, d') \<and> code res = 200 \<longrightarrow>
            (\<exists>i. parse_oid (req_id r) = Some i \<and> i \<in> dom (abs_tasks d) \<and>
                 abs_tasks d' = (abs_tasks d)(i := None)))"
proof (intro conjI impI; elim conjE)
  assume "createTask d r = (res, d')" "code res = 201"
  from createTask_ok [OF this] obtain p t where
    "resp res = RTask t" "d' = insert_task t (snd (fresh_oid d))" "task_id t = next_oid d" by blast
  moreover have "abs_tasks (snd (fresh_oid d)) = abs_tasks d"
    by (simp add: abs_tasks_def fresh_oid_def)
  ultimately show "\<exists>t. resp res = RTask t \<and> next_oid d \<notin> dom (abs_tasks d) \<and>
                      abs_tasks d' = (abs_tasks d)(next_oid d \<mapsto> t)"
    using wf_db_fresh_id [OF assms] abs_tasks_insert [of t "snd (fresh_oid d)"] by auto
next
  assume "updateTask d r = (res, d')" "code res = 200"
  from updateTask_ok [OF this] obtain i t t' where
    "parse_oid (req_id r) = Some i" "find_task d i = Some t" "resp res = RTask t'"
    "d' = replace_task t' d" "task_id t' = task_id t" by blast
  with find_task_Some [of d i t] show "\<exists>i t. parse_oid (req_id r) = Some i \<and> i \<in> dom (abs_tasks d) \<and>
      resp res = RTask t \<and> abs_tasks d' = (abs_tasks d)(i \<mapsto> t)"
    by (auto simp: find_task_abs abs_tasks_replace)
next
  assume "deleteTask d r = (res, d')" "code res = 200"
  from deleteTask_ok [OF this] obtain i t where
    "parse_oid (req_id r) = Some i" "find_task d i = Some t" "d' = remove_task i d" by blast
  then show "\<exists>i. parse_oid (req_id r) = Some i \<and> i \<in> dom (abs_tasks d) \<and>
      abs_tasks d' = (abs_tasks d)(i := None)"
    by (auto simp: find_task_abs abs_tasks_remove)
qed

end
