(* ===== verification/Examples.thy ===== *)
theory Examples
  imports Handlers
begin

text \<open>
  A small concrete store used to instantiate the theorems: three users (an administrator
  and two regular users) and four tasks, three of them completed and split between two
  assignees, as in the summary scenario of the spec.  Ids and times are arbitrary.
\<close>

definition ex_admin :: user where
  "ex_admin = \<lparr>user_id = 0, username = ''admin'', email = ''admin@example.com'',
     password = ''admin-secret'', isAdmin = True\<rparr>"

definition ex_alice :: user where
  "ex_alice = \<lparr>user_id = 1, username = ''alice'', email = ''alice@example.com'',
     password = ''alice-secret'', isAdmin = False\<rparr>"

definition ex_bob :: user where
  "ex_bob = \<lparr>user_id = 2, username = ''bob'', email = ''bob@example.com'',
     password = ''bob-secret'', isAdmin = False\<rparr>"

definition ex_task :: "oid \<Rightarrow> status \<Rightarrow> oid option \<Rightarrow> oid \<Rightarrow> time \<Rightarrow> task" where
  "ex_task i s a c at = \<lparr>task_id = i, title = ''A'', description = ''d'', dueDate = 0, status = s,
     assignedTo = a, createdBy = c, priority = Low, createdAt = at, updatedAt = at\<rparr>"

definition ex_t1 :: task where "ex_t1 = ex_task 10 Completed (Some 2) 1 100"
definition ex_t2 :: task where "ex_t2 = ex_task 11 ToDo None 2 200"
definition ex_t3 :: task where "ex_t3 = ex_task 12 Completed (Some 1) 0 300"
definition ex_t4 :: task where "ex_t4 = ex_task 13 Completed (Some 2) 0 400"

definition ex_db :: db where
  "ex_db = \<lparr>tasks = [ex_t1, ex_t2, ex_t3, ex_t4], users = [ex_admin, ex_alice, ex_bob], next_oid = 14\<rparr>"

definition ex_request :: "user \<Rightarrow> string \<Rightarrow> query \<Rightarrow> body \<Rightarrow> request" where
  "ex_request p i q b = \<lparr>req_user = Some p, req_id = i, req_query = q, req_body = b, req_now = 1000\<rparr>"

definition ex_body :: body where
  "ex_body = [(''title'', JStr ''A''), (''description'', JStr ''d''), (''dueDate'', JNum 1704067200000)]"

definition ex_input :: task_input where
  "ex_input = \<lparr>in_title = ''A'', in_description = ''d'', in_dueDate = 0, in_status = Some Completed,
     in_assignedTo = Some ''bob'', in_priority = None\<rparr>"

lemmas example_defs = ex_admin_def ex_alice_def ex_bob_def ex_task_def ex_t1_def ex_t2_def
  ex_t3_def ex_t4_def ex_db_def ex_request_def ex_body_def

end
