(* ===== verification/Routes.thy ===== *)
theory Routes
  imports Handlers
begin

text \<open>
  The HTTP surface: \<open>src/backend/server.js\<close> mounts \<open>routes/taskRoutes.js\<close> under
  \<open>/api/tasks\<close> and \<open>routes/userRoutes.js\<close> under \<open>/api/users\<close>; each router lists
  its routes in order, most behind the \<open>auth\<close> middleware.  Express tries the mounted
  routers and their routes in declaration order and runs the first route whose method and
  path pattern match; a \<open>:id\<close> segment matches any one non-empty segment.  Neither
  \<open>server.js\<close> nor the routers enable \<open>case sensitive routing\<close>, so literal
  segments and mount prefixes are compared without ASCII case (\<open>lower_str\<close>), and
  \<open>/API/Tasks\<close> reaches the task router with its segments as sent.  A request no
  route matches gets Express's 404.
  The \<open>auth\<close> middleware is not part of the sources; following the spec it is modelled
  as: a request whose bearer token names an existing user proceeds with that user as
  \<open>req.user\<close>, any other request is answered 401 before the handler runs.  The token is
  represented by the user id it names.
  The router mounted at \<open>/api/auth\<close> (\<open>routes/authRoutes.js\<close>, registration, login
  and the current user) is not part of the sources either: it is a parameter of the
  dispatcher, an application of the same type as the dispatcher itself, that receives the
  requests under its prefix with the prefix removed.
\<close>

section \<open>Requests and routes\<close>

datatype http_method = GET | POST | PUT | DELETE

record http_request =
  h_method :: http_method
  h_path :: "string list"
  h_token :: "oid option"
  h_query :: query
  h_body :: body
  h_now :: time

datatype handler = HCreate | HList | HSummary | HSummaryJson | HGet | HUpdate | HDelete | HUsers

datatype seg = Lit string | Param

record route =
  r_method :: http_method
  r_pattern :: "seg list"
  r_auth :: bool
  r_handler :: handler

text \<open>\<open>taskRoutes.js\<close>, lines 7--13, in order.\<close>

definition task_routes :: "route list" where
  "task_routes =
     [\<lparr>r_method = POST, r_pattern = [], r_auth = True, r_handler = HCreate\<rparr>,
      \<lparr>r_method = GET, r_pattern = [], r_auth = True, r_handler = HList\<rparr>,
      \<lparr>r_method = GET, r_pattern = [Lit ''summary''], r_auth = True, r_handler = HSummary\<rparr>,
      \<lparr>r_method = GET, r_pattern = [Lit ''tasks'', Lit ''summary-json''], r_auth = False,
         r_handler = HSummaryJson\<rparr>,
      \<lparr>r_method = GET, r_pattern = [Param], r_auth = True, r_handler = HGet\<rparr>,
      \<lparr>r_method = PUT, r_pattern = [Param], r_auth = True, r_handler = HUpdate\<rparr>,
      \<lparr>r_method = DELETE, r_pattern = [Param], r_auth = True, r_handler = HDelete\<rparr>]"

text \<open>\<open>userRoutes.js\<close>, line 6.\<close>

definition user_routes :: "route list" where
  "user_routes = [\<lparr>r_method = GET, r_pattern = [], r_auth = True, r_handler = HUsers\<rparr>]"

text \<open>\<open>server.js\<close>, lines 26--27: the mount points of the modelled routers.\<close>

definition mounts :: "(string list \<times> route list) list" where
  "mounts = [([''api'', ''tasks''], task_routes), ([''api'', ''users''], user_routes)]"

section \<open>Server configuration\<close>

text \<open>
  \<open>server.js\<close>, lines 12--17: the options given to the \<open>cors\<close> middleware.
\<close>

record cors_options =
  co_origin :: string
  co_methods :: "http_method list"
  co_headers :: "string list"
  co_credentials :: bool

definition corsOptions :: cors_options where
  "corsOptions = \<lparr>co_origin = ''*'', co_methods = [GET, POST, PUT, DELETE],
                   co_headers = [''Content-Type'', ''Authorization''], co_credentials = False\<rparr>"

text \<open>
  Line 19, as the \<open>cors\<close> package answers a preflight: the browser sends a cross-origin
  request only when its method is listed and every header it sets is allowed, header
  names compared without case.
\<close>

definition cors_allows :: "cors_options \<Rightarrow> http_method \<Rightarrow> string list \<Rightarrow> bool" where
  "cors_allows c m hs \<longleftrightarrow>
     m \<in> set (co_methods c) \<and> list_all (\<lambda>h. map lower_char h \<in> set (map (map lower_char) (co_headers c))) hs"

text \<open>Line 31: \<open>process.env.PORT || 5000\<close>; an empty variable is falsy.\<close>

definition server_port :: "string option \<Rightarrow> string" where
  "server_port env = (case env of Some p \<Rightarrow> if p \<noteq> [] then p else ''5000'' | None \<Rightarrow> ''5000'')"

section \<open>Matching and dispatch\<close>

text \<open>A pattern against the remaining segments: \<open>Some\<close> of the \<open>:id\<close> capture.\<close>

fun match_segs :: "seg list \<Rightarrow> string list \<Rightarrow> string \<Rightarrow> string option" where
  "match_segs [] [] cap = Some cap"
| "match_segs (Lit l # ps) (x # xs) cap = (if lower_str l = lower_str x then match_segs ps xs cap else None)"
| "match_segs (Param # ps) (x # xs) cap = (if x \<noteq> [] then match_segs ps xs x else None)"
| "match_segs _ _ cap = None"

fun find_route :: "route list \<Rightarrow> http_method \<Rightarrow> string list \<Rightarrow> (route \<times> string) option" where
  "find_route [] m xs = None"
| "find_route (r # rs) m xs =
     (if r_method r = m then
        (case match_segs (r_pattern r) xs [] of
           Some cap \<Rightarrow> Some (r, cap)
         | None \<Rightarrow> find_route rs m xs)
      else find_route rs m xs)"

fun find_mount :: "(string list \<times> route list) list \<Rightarrow> http_method \<Rightarrow> string list \<Rightarrow> (route \<times> string) option" where
  "find_mount [] m xs = None"
| "find_mount ((pre, rs) # ms) m xs =
     (if map lower_str (take (length pre) xs) = map lower_str pre then
        (case find_route rs m (drop (length pre) xs) of
           Some rc \<Rightarrow> Some rc
         | None \<Rightarrow> find_mount ms m xs)
      else find_mount ms m xs)"

fun run_handler :: "handler \<Rightarrow> db \<Rightarrow> request \<Rightarrow> response \<times> db" where
  "run_handler HCreate = createTask"
| "run_handler HList = getTasks"
| "run_handler HSummary = getTaskSummary"
| "run_handler HSummaryJson = getTaskSummaryJson"
| "run_handler HGet = getTask"
| "run_handler HUpdate = updateTask"
| "run_handler HDelete = deleteTask"
| "run_handler HUsers = getUsers"

text \<open>The \<open>auth\<close> middleware: the user the token names, if any.\<close>

definition authenticate :: "db \<Rightarrow> oid option \<Rightarrow> user option" where
  "authenticate d tok = Option.bind tok (\<lambda>i. find (\<lambda>u. user_id u = i) (users d))"

definition to_request :: "http_request \<Rightarrow> user option \<Rightarrow> string \<Rightarrow> request" where
  "to_request h u cap = \<lparr>req_user = u, req_id = cap, req_query = h_query h, req_body = h_body h,
                         req_now = h_now h\<rparr>"

type_synonym app = "db \<Rightarrow> http_request \<Rightarrow> response \<times> db"

definition auth_prefix :: "string list" where
  "auth_prefix = [''api'', ''auth'']"

text \<open>\<open>server.js\<close>, lines 23--29: the routers in mount order, then Express's 404.\<close>

definition dispatch :: "app \<Rightarrow> db \<Rightarrow> http_request \<Rightarrow> response \<times> db" where
  "dispatch authApp d h =
     (if map lower_str (take 2 (h_path h)) = auth_prefix then authApp d (h\<lparr>h_path := drop 2 (h_path h)\<rparr>)
      else case find_mount mounts (h_method h) (h_path h) of
        None \<Rightarrow> (error_resp 404 ''Not Found'', d)
      | Some (rt, cap) \<Rightarrow>
          if r_auth rt then
            (case authenticate d (h_token h) of
               None \<Rightarrow> (error_resp 401 ''Unauthorized'', d)
             | Some u \<Rightarrow> run_handler (r_handler rt) d (to_request h (Some u) cap))
          else run_handler (r_handler rt) d (to_request h None cap))"

section \<open>Response types\<close>

text \<open>
  What each handler answers on success: the body its \<open>res.json\<close>, \<open>res.send\<close> or
  \<open>res.status(201).json\<close> sends and the status code, \<open>201\<close> for \<open>createTask\<close> and
  \<open>200\<close> otherwise.  \<open>getTaskSummary\<close> sends CSV text when the query asks for
  \<open>format=csv\<close>.  A response is well typed when its body has the handler's type and
  success code, or is an error body with a client-error code.
\<close>

datatype resp_ty = TTask | TView | TViews | TGroups | TCsv | TUsers | TMessage

fun body_ty :: "resp_body \<Rightarrow> resp_ty option" where
  "body_ty (RTask _) = Some TTask"
| "body_ty (RView _) = Some TView"
| "body_ty (RViews _) = Some TViews"
| "body_ty (RGroups _) = Some TGroups"
| "body_ty (RCsv _) = Some TCsv"
| "body_ty (RUsers _) = Some TUsers"
| "body_ty (RMessage _) = Some TMessage"
| "body_ty (RError _) = None"

fun handler_ty :: "handler \<Rightarrow> query \<Rightarrow> resp_ty" where
  "handler_ty HCreate q = TTask"
| "handler_ty HList q = TViews"
| "handler_ty HSummary q = (if qparam q ''format'' = Some ''csv'' then TCsv else TGroups)"
| "handler_ty HSummaryJson q = TGroups"
| "handler_ty HGet q = TView"
| "handler_ty HUpdate q = TTask"
| "handler_ty HDelete q = TMessage"
| "handler_ty HUsers q = TUsers"

fun handler_ok_code :: "handler \<Rightarrow> nat" where
  "handler_ok_code HCreate = 201"
| "handler_ok_code _ = 200"

definition well_typed :: "handler \<Rightarrow> query \<Rightarrow> response \<Rightarrow> bool" where
  "well_typed h q res \<longleftrightarrow>
     (case body_ty (resp res) of
        Some ty \<Rightarrow> ty = handler_ty h q \<and> code res = handler_ok_code h
      | None \<Rightarrow> code res \<in> {400, 403, 404})"

section \<open>Lemmas\<close>

lemma find_route_mem: "find_route rs m xs = Some (r, c) \<Longrightarrow> r \<in> set rs"
  by (induction rs m xs rule: find_route.induct) (auto split: if_splits option.splits)

lemma find_mount_mem:
  "find_mount ms m xs = Some (r, c) \<Longrightarrow> \<exists>pre rs. (pre, rs) \<in> set ms \<and> r \<in> set rs"
  by (induction ms m xs rule: find_mount.induct) (auto split: if_splits option.splits dest: find_route_mem)

lemma routes_without_auth:
  "find_mount mounts m xs = Some (r, c) \<Longrightarrow> \<not> r_auth r \<Longrightarrow> r_handler r = HSummaryJson"
  by (drule find_mount_mem) (auto simp: mounts_def task_routes_def user_routes_def)

lemma getTaskSummaryJson_no_user:
  "req_user r = None \<Longrightarrow> getTaskSummaryJson d r = (error_resp 400 (undefined_read ''isAdmin''), d)"
  by (simp add: getTaskSummaryJson_def)

lemma well_typed_ok [simp]:
  "body_ty b \<noteq> None \<Longrightarrow>
   well_typed h q (ok_resp c b) \<longleftrightarrow> body_ty b = Some (handler_ty h q) \<and> c = handler_ok_code h"
  by (cases "body_ty b") (auto simp: well_typed_def ok_resp_def)

lemma well_typed_error [simp]: "well_typed h q (error_resp c m) \<longleftrightarrow> c \<in> {400, 403, 404}"
  by (simp add: well_typed_def error_resp_def)

text \<open>The client's requests (\<open>Authorization\<close> and \<open>Content-Type\<close> set) pass the preflight.\<close>

lemma client_requests_pass_cors:
  "cors_allows corsOptions m [''Authorization'', ''Content-Type'']"
  by (cases m) (simp_all add: cors_allows_def corsOptions_def)

section \<open>Properties of the routing\<close>

text \<open>
  \<open>GET /api/tasks/summary\<close> reaches \<open>getTaskSummary\<close> (behind authentication),
  although the later route \<open>GET /:id\<close> matches the same path: declaration order makes
  the summary route win, so \<open>summary\<close> is never cast as a task id.
\<close>

theorem summary_route_precedence:
  assumes "h_method h = GET" and "h_path h = [''api'', ''tasks'', ''summary'']"
  shows "dispatch ar d h =
           (case authenticate d (h_token h) of
              None \<Rightarrow> (error_resp 401 ''Unauthorized'', d)
            | Some u \<Rightarrow> getTaskSummary d (to_request h (Some u) []))"
  using assms by (simp add: dispatch_def auth_prefix_def lower_eval mounts_def task_routes_def split: option.split)

text \<open>
  C24.  The route \<open>GET /api/tasks/tasks/summary-json\<close>, mounted without the \<open>auth\<close>
  middleware, never returns data: with no \<open>req.user\<close>, \<open>getTaskSummaryJson\<close> throws on
  \<open>req.user.isAdmin\<close>, so every request gets 400 and the store is unchanged, whatever the
  token, the query and the stored tasks.
\<close>

theorem summary_json_route_always_400:
  assumes "h_method h = GET" and "h_path h = [''api'', ''tasks'', ''tasks'', ''summary-json'']"
  shows "dispatch ar d h = (error_resp 400 (undefined_read ''isAdmin''), d)"
  using assms by (simp add: dispatch_def auth_prefix_def lower_eval mounts_def task_routes_def getTaskSummaryJson_def to_request_def)

text \<open>
  C25.  A request outside \<open>/api/auth\<close> (in any letter case) that does not authenticate never changes the
  store and is answered 400, 401 or 404: no task or user data reaches a client without a
  valid token.
\<close>

theorem unauthenticated_no_effect:
  assumes "authenticate d (h_token h) = None" and "map lower_str (take 2 (h_path h)) \<noteq> auth_prefix"
  shows "snd (dispatch ar d h) = d \<and> code (fst (dispatch ar d h)) \<in> {400, 401, 404}"
proof (cases "find_mount mounts (h_method h) (h_path h)")
  case None
  with assms(2) show ?thesis by (simp add: dispatch_def error_resp_def)
next
  case (Some rc)
  obtain rt cap where rc: "rc = (rt, cap)" by (cases rc)
  show ?thesis
  proof (cases "r_auth rt")
    case True
    with Some rc assms show ?thesis by (simp add: dispatch_def error_resp_def)
  next
    case False
    with Some rc have "r_handler rt = HSummaryJson" by (simp add: routes_without_auth)
    with Some rc False assms(2) show ?thesis
      by (simp add: dispatch_def to_request_def getTaskSummaryJson_no_user error_resp_def)
  qed
qed

text \<open>
  \<open>GET\<close>, \<open>PUT\<close> and \<open>DELETE\<close> on \<open>/api/tasks/x\<close>, for any non-empty
  segment \<open>x\<close> other than \<open>summary\<close> in any letter case, run \<open>getTask\<close>, \<open>updateTask\<close> and
  \<open>deleteTask\<close> with \<open>x\<close> as \<open>req.params.id\<close> and the authenticated user.
\<close>

theorem id_routes_dispatch:
  assumes "h_path h = [''api'', ''tasks'', x]" and "x \<noteq> []" and "lower_str x \<noteq> ''summary''"
    and "authenticate d (h_token h) = Some u"
  shows "(h_method h = GET \<longrightarrow> dispatch ar d h = getTask d (to_request h (Some u) x)) \<and>
         (h_method h = PUT \<longrightarrow> dispatch ar d h = updateTask d (to_request h (Some u) x)) \<and>
         (h_method h = DELETE \<longrightarrow> dispatch ar d h = deleteTask d (to_request h (Some u) x))"
  using assms by (simp add: dispatch_def auth_prefix_def lower_eval mounts_def task_routes_def split: option.split)


text \<open>
  C13.  Every handler answers with a body of its declared type and its success code
  (a task and \<open>201\<close> from \<open>createTask\<close>, CSV text from \<open>getTaskSummary\<close> exactly when
  \<open>format=csv\<close> is asked for, and so on), or with an error message and one of the codes
  \<open>400\<close>, \<open>403\<close>, \<open>404\<close>, on every input.
\<close>

theorem handler_response_typed:
  "well_typed h (req_query r) (fst (run_handler h d r))"
proof (cases h)
  case HCreate
  then show ?thesis by (auto simp: createTask_def Let_def split: option.split prod.split)
next
  case HList
  then show ?thesis by (simp add: getTasks_def split: option.split)
next
  case HSummary
  then show ?thesis by (simp add: getTaskSummary_def Let_def split: option.split)
next
  case HSummaryJson
  then show ?thesis by (simp add: getTaskSummaryJson_def split: option.split)
next
  case HGet
  then show ?thesis by (simp add: getTask_def Let_def split: option.split)
next
  case HUpdate
  then show ?thesis by (simp add: updateTask_def Let_def split: option.split)
next
  case HDelete
  then show ?thesis by (simp add: deleteTask_def split: option.split)
next
  case HUsers
  then show ?thesis by (simp add: getUsers_def split: option.split)
qed

end
