(* ===== verification/Pages.thy ===== *)
theory Pages
  imports Routes "HOL-Library.AList"
begin

text \<open>
  The task pages of the client, composed with the server they talk to.
  \<open>src/frontend/src/components/Tasks/TaskList.jsx\<close> keeps the fetched tasks, the two
  filter selects, the current page and the summary modal; each callback is a function of
  the page state and the store that sends its request through \<open>Routes.dispatch\<close> and
  returns the new page state and store.  The axios instance of \<open>services/api.js\<close> (not
  part of the sources) prefixes every path with \<open>/api\<close>, sends \<open>params\<close> as the query
  string (an empty string is sent, as \<open>status=\<close>) and rejects every answer outside 2xx;
  the bearer token it carries is represented, as in \<open>Routes\<close>, by the user id it names.
  A JavaScript object built with spread and computed keys is an association list updated
  with \<open>AList.update\<close>: an existing key keeps its place, a new one goes last.
  The rendered list is a value of \<open>list_view\<close>: the loading or error notice, or the table
  rows and page buttons.
\<close>

section \<open>The HTTP client\<close>

definition ok_code :: "nat \<Rightarrow> bool" where
  "ok_code c \<longleftrightarrow> 200 \<le> c \<and> c < 300"

definition api_request :: "http_method \<Rightarrow> string list \<Rightarrow> oid option \<Rightarrow> query \<Rightarrow> body \<Rightarrow> time \<Rightarrow> http_request" where
  "api_request m p tok q b now =
     \<lparr>h_method = m, h_path = ''api'' # p, h_token = tok, h_query = q, h_body = b, h_now = now\<rparr>"

section \<open>TaskList\<close>

record list_state =
  l_tasks :: "task_view list"
  l_loading :: bool
  l_error :: "string option"
  l_filter :: query
  l_summary :: "summary_group list"
  l_modal :: bool
  l_page :: nat

definition tasksPerPage :: nat where
  "tasksPerPage = 10"

text \<open>Lines 8--18.\<close>

definition list_init :: list_state where
  "list_init = \<lparr>l_tasks = [], l_loading = True, l_error = None,
                l_filter = [(''status'', []), (''priority'', [])], l_summary = [], l_modal = False,
                l_page = 1\<rparr>"

text \<open>Line 29: \<open>{ ...filter, page: currentPage, limit: tasksPerPage }\<close>.\<close>

definition list_params :: "list_state \<Rightarrow> query" where
  "list_params st =
     AList.update ''limit'' (nat_str tasksPerPage) (AList.update ''page'' (nat_str (l_page st)) (l_filter st))"

text \<open>Lines 25--37: \<open>fetchTasks\<close>.\<close>

definition fetchTasks :: "app \<Rightarrow> db \<Rightarrow> oid option \<Rightarrow> time \<Rightarrow> list_state \<Rightarrow> list_state \<times> db" where
  "fetchTasks ar d tok now st =
     (let (r, d') = dispatch ar d (api_request GET [''tasks''] tok (list_params st) [] now) in
      case (ok_code (code r), resp r) of
        (True, RViews vs) \<Rightarrow> (st\<lparr>l_tasks := vs, l_loading := False, l_error := None\<rparr>, d')
      | _ \<Rightarrow> (st\<lparr>l_loading := False, l_error := Some ''Failed to fetch tasks. Please try again.''\<rparr>, d'))"

text \<open>
  Lines 39--42 and the effect of lines 21--23: a new filter object and page 1, after which
  the effect fetches again.
\<close>

definition handleFilterChange :: "string \<Rightarrow> string \<Rightarrow> list_state \<Rightarrow> list_state" where
  "handleFilterChange name v st = st\<lparr>l_filter := AList.update name v (l_filter st), l_page := 1\<rparr>"

definition filter_event :: "app \<Rightarrow> db \<Rightarrow> oid option \<Rightarrow> time \<Rightarrow> string \<Rightarrow> string \<Rightarrow> list_state \<Rightarrow> list_state \<times> db" where
  "filter_event ar d tok now name v st = fetchTasks ar d tok now (handleFilterChange name v st)"

text \<open>
  Line 88 and the effect: \<open>setCurrentPage\<close> with the current page does not re-render, so
  only a different page fetches again.
\<close>

definition paginate :: "app \<Rightarrow> db \<Rightarrow> oid option \<Rightarrow> time \<Rightarrow> nat \<Rightarrow> list_state \<Rightarrow> list_state \<times> db" where
  "paginate ar d tok now n st = (if n = l_page st then (st, d) else fetchTasks ar d tok now (st\<lparr>l_page := n\<rparr>))"


text \<open>Line 87, and the page buttons of lines 174--184.\<close>

definition totalPages :: "list_state \<Rightarrow> nat" where
  "totalPages st = (length (l_tasks st) + tasksPerPage - 1) div tasksPerPage"

definition page_buttons :: "list_state \<Rightarrow> nat list" where
  "page_buttons st = [1..<totalPages st + 1]"

text \<open>Lines 44--52: \<open>handleDeleteTask\<close>, which fetches again after a deletion.\<close>

definition handleDeleteTask :: "app \<Rightarrow> db \<Rightarrow> oid option \<Rightarrow> time \<Rightarrow> string \<Rightarrow> list_state \<Rightarrow> list_state \<times> db" where
  "handleDeleteTask ar d tok now i st =
     (let (r, d') = dispatch ar d (api_request DELETE [''tasks'', i] tok [] [] now) in
      if ok_code (code r) then fetchTasks ar d' tok now st
      else (st\<lparr>l_error := Some ''Failed to delete task. Please try again.''\<rparr>, d'))"

text \<open>
  Lines 63--71: the CSV branch saves the body of the answer as
  \<open>task_summary_report.csv\<close>.
\<close>

definition summary_file :: "response \<Rightarrow> (string \<times> string) option" where
  "summary_file r = (case resp r of RCsv txt \<Rightarrow> Some (''task_summary_report.csv'', txt) | _ \<Rightarrow> None)"

text \<open>
  Lines 54--80: \<open>handleDownloadSummary\<close> with the filter and the format as parameters:
  the new page state, the store, and the file the browser saves, if any.  The CSV answer
  becomes a file download and leaves the page state as it is.
\<close>

definition handleDownloadSummary ::
  "app \<Rightarrow> db \<Rightarrow> oid option \<Rightarrow> time \<Rightarrow> string \<Rightarrow> list_state \<Rightarrow> list_state \<times> db \<times> (string \<times> string) option" where
  "handleDownloadSummary ar d tok now fmt st =
     (let (r, d') = dispatch ar d (api_request GET [''tasks'', ''summary''] tok
                                 (AList.update ''format'' fmt (l_filter st)) [] now) in
      if ok_code (code r) then
        (if fmt = ''csv'' then (st, d', summary_file r)
         else (case resp r of
                 RGroups gs \<Rightarrow> (st\<lparr>l_summary := gs, l_modal := True\<rparr>, d', None)
               | _ \<Rightarrow> (st, d', None)))
      else (st\<lparr>l_error := Some ''Failed to download summary report. Please try again.''\<rparr>, d', None))"

text \<open>Lines 82--85.\<close>

definition closeModal :: "list_state \<Rightarrow> list_state" where
  "closeModal st = st\<lparr>l_modal := False, l_summary := []\<rparr>"

text \<open>
  Lines 159--171: one table row per task, with its \<open>_id\<close> (the argument of the Delete
  button), its fields (the due date before locale formatting) and the path of its Edit link.
\<close>

record list_row =
  row_id :: string
  row_title :: string
  row_status :: string
  row_priority :: string
  row_dueDate :: time
  row_edit :: "string list"

definition list_row_of :: "task_view \<Rightarrow> list_row" where
  "list_row_of v =
     (let t = tv_task v in
      \<lparr>row_id = oid_hex (task_id t), row_title = title t, row_status = status_str (status t),
       row_priority = priority_str (priority t), row_dueDate = dueDate t,
       row_edit = [''tasks'', oid_hex (task_id t)]\<rparr>)"

text \<open>
  Lines 89--189: the loading notice, the error notice, or the table with every task of
  \<open>tasks\<close> and the page buttons, the current one highlighted.
\<close>

datatype list_view = ListLoading | ListError string | ListTable "list_row list" "(nat \<times> bool) list"

definition list_render :: "list_state \<Rightarrow> list_view" where
  "list_render st =
     (if l_loading st then ListLoading
      else case l_error st of
        Some e \<Rightarrow> ListError e
      | None \<Rightarrow> ListTable (map list_row_of (l_tasks st)) (map (\<lambda>n. (n, l_page st = n)) (page_buttons st)))"

section \<open>TaskForm\<close>

text \<open>
  \<open>TaskForm.jsx\<close> keeps the task being edited as one object, the body it submits.  On
  \<open>/tasks/new\<close> it starts from the literal of lines 11--18; on \<open>/tasks/:id\<close> it is
  replaced by the JSON of the fetched task.  Only an administrator sees the assignee select.
\<close>

definition form_init :: body where
  "form_init =
     [(''title'', JStr []), (''description'', JStr []), (''status'', JStr ''To Do''),
      (''priority'', JStr ''Medium''), (''dueDate'', JStr []), (''assignedTo'', JStr [])]"

text \<open>Lines 48--50: \<open>setTask({ ...task, [e.target.name]: e.target.value })\<close>.\<close>

definition handleChange :: "string \<Rightarrow> string \<Rightarrow> body \<Rightarrow> body" where
  "handleChange name v b = AList.update name (JStr v) b"

definition form_changes :: "body \<Rightarrow> (string \<times> string) list \<Rightarrow> body" where
  "form_changes b cs = foldl (\<lambda>b kv. handleChange (fst kv) (snd kv) b) b cs"

text \<open>
  The JSON \<open>res.json(task)\<close> sends for a populated task document (\<open>Task.js\<close>): the id,
  the schema's fields, the timestamps and the version key, dates as ISO strings, each
  populated reference as \<open>{_id, username}\<close> or \<open>null\<close>, and no \<open>assignedTo\<close> key
  when the document has none.
\<close>

definition ref_json :: "user_ref option \<Rightarrow> json" where
  "ref_json r =
     (case r of
        None \<Rightarrow> JNull
      | Some u \<Rightarrow> JObj [(''_id'', JStr (oid_hex (ref_id u))), (''username'', JStr (ref_username u))])"

definition task_json :: "task_view \<Rightarrow> body" where
  "task_json v =
     (let t = tv_task v in
      [(''_id'', JStr (oid_hex (task_id t))), (''title'', JStr (title t)),
       (''description'', JStr (description t)), (''dueDate'', JStr (iso_string (dueDate t))),
       (''status'', JStr (status_str (status t)))] @
      (case assignedTo t of None \<Rightarrow> [] | Some _ \<Rightarrow> [(''assignedTo'', ref_json (tv_assignedTo v))]) @
      [(''createdBy'', ref_json (tv_createdBy v)), (''priority'', JStr (priority_str (priority t))),
       (''createdAt'', JStr (iso_string (createdAt t))), (''updatedAt'', JStr (iso_string (updatedAt t))),
       (''__v'', JNum 0)])"

text \<open>Lines 30--37: \<open>fetchTask\<close>; a failed request leaves the form as it is.\<close>

definition fetchTask :: "app \<Rightarrow> db \<Rightarrow> oid option \<Rightarrow> time \<Rightarrow> string \<Rightarrow> body \<Rightarrow> body" where
  "fetchTask ar d tok now i b =
     (case dispatch ar d (api_request GET [''tasks'', i] tok [] [] now) of
        (r, _) \<Rightarrow> (case (ok_code (code r), resp r) of (True, RView v) \<Rightarrow> task_json v | _ \<Rightarrow> b))"

text \<open>Lines 39--46: \<open>fetchUsers\<close>, the options of the assignee select.\<close>

definition fetchUsers :: "app \<Rightarrow> db \<Rightarrow> oid option \<Rightarrow> time \<Rightarrow> (oid \<times> string \<times> string) list \<Rightarrow>
    (oid \<times> string \<times> string) list" where
  "fetchUsers ar d tok now us =
     (case dispatch ar d (api_request GET [''users''] tok [] [] now) of
        (r, _) \<Rightarrow> (case (ok_code (code r), resp r) of (True, RUsers xs) \<Rightarrow> xs | _ \<Rightarrow> us))"

text \<open>
  Lines 21--28: the mount effect loads the task being edited, when there is a route id,
  and the users, for an administrator.
\<close>

definition form_mount :: "app \<Rightarrow> db \<Rightarrow> oid option \<Rightarrow> time \<Rightarrow> string option \<Rightarrow> bool \<Rightarrow>
    body \<times> (oid \<times> string \<times> string) list \<Rightarrow> body \<times> (oid \<times> string \<times> string) list" where
  "form_mount ar d tok now i adm bu =
     ((case i of Some x \<Rightarrow> fetchTask ar d tok now x (fst bu) | None \<Rightarrow> fst bu),
      (if adm then fetchUsers ar d tok now (snd bu) else snd bu))"

text \<open>
  Lines 52--64: \<open>handleSubmit\<close>, \<open>PUT\<close> with a route id and \<open>POST\<close> without; the
  result says whether the form navigates back to \<open>/tasks\<close>, which it does only on success.
\<close>

definition handleSubmit :: "app \<Rightarrow> db \<Rightarrow> oid option \<Rightarrow> time \<Rightarrow> string option \<Rightarrow> body \<Rightarrow> bool \<times> db" where
  "handleSubmit ar d tok now i b =
     (let (r, d') = (case i of
                       Some x \<Rightarrow> dispatch ar d (api_request PUT [''tasks'', x] tok [] b now)
                     | None \<Rightarrow> dispatch ar d (api_request POST [''tasks''] tok [] b now))
      in (ok_code (code r), d'))"

text \<open>
  Lines 71, 86, 139 and 154: the browser submits the form only when the \<open>required\<close>
  inputs (title, due date, description) hold a value.  An input shows the string of its
  field; the due-date input shows \<open>task.dueDate.split('T')[0]\<close> (line 137), and a
  \<open>type="date"\<close> input holds its value only when it is a valid date string, else nothing.
\<close>

definition field_text :: "body \<Rightarrow> string \<Rightarrow> string" where
  "field_text b k = (case map_of b k of Some (JStr s) \<Rightarrow> s | _ \<Rightarrow> [])"

definition date_input_value :: "string \<Rightarrow> string" where
  "date_input_value s = (if valid_date_string s then s else [])"

definition form_valid :: "body \<Rightarrow> bool" where
  "form_valid b \<longleftrightarrow>
     field_text b ''title'' \<noteq> [] \<and>
     date_input_value (takeWhile (\<lambda>c. c \<noteq> CHR ''T'') (field_text b ''dueDate'')) \<noteq> [] \<and>
     field_text b ''description'' \<noteq> []"

definition form_submit :: "app \<Rightarrow> db \<Rightarrow> oid option \<Rightarrow> time \<Rightarrow> string option \<Rightarrow> body \<Rightarrow> bool \<times> db" where
  "form_submit ar d tok now i b = (if form_valid b then handleSubmit ar d tok now i b else (False, d))"

text \<open>Lines 66--70: the heading, after the route id.\<close>

definition form_heading :: "string option \<Rightarrow> string" where
  "form_heading i = (case i of Some _ \<Rightarrow> ''Edit Task'' | None \<Rightarrow> ''Create Task'')"

text \<open>Lines 181--191: the label of the submit button.\<close>

definition form_button_label :: "string option \<Rightarrow> string" where
  "form_button_label i = (case i of Some _ \<Rightarrow> ''Update Task'' | None \<Rightarrow> ''Create Task'')"

section \<open>Lemmas on the list page\<close>

lemma api_request_sel [simp]:
  "h_method (api_request m p tok q b now) = m" "h_path (api_request m p tok q b now) = ''api'' # p"
  "h_token (api_request m p tok q b now) = tok" "h_query (api_request m p tok q b now) = q"
  "h_body (api_request m p tok q b now) = b" "h_now (api_request m p tok q b now) = now"
  by (simp_all add: api_request_def)

lemma qparam_update: "qparam (AList.update k v q) k' = (if k' = k then Some v else qparam q k')"
  by (simp add: qparam_def update_conv')

lemma list_filter_cong:
  assumes "qparam q ''status'' = qparam q' ''status''" "qparam q ''priority'' = qparam q' ''priority''"
    "qparam q ''assignedTo'' = qparam q' ''assignedTo''"
  shows "list_filter d p q = list_filter d p q'"
  using assms by (simp add: list_filter_def add_status_def add_priority_def add_assignee_def)

lemma summary_filter_cong:
  assumes "qparam q ''status'' = qparam q' ''status''" "qparam q ''startDate'' = qparam q' ''startDate''"
    "qparam q ''endDate'' = qparam q' ''endDate''"
  shows "summary_filter p q = summary_filter p q'"
  using assms by (simp add: summary_filter_def add_status_def add_created_range_def)

lemma dispatch_list:
  "dispatch ar d (api_request GET [''tasks''] tok q b now) =
     (case authenticate d tok of
        None \<Rightarrow> (error_resp 401 ''Unauthorized'', d)
      | Some u \<Rightarrow> getTasks d (to_request (api_request GET [''tasks''] tok q b now) (Some u) []))"
  by (simp add: dispatch_def auth_prefix_def lower_eval mounts_def task_routes_def api_request_def split: option.split)

lemma dispatch_summary:
  "dispatch ar d (api_request GET [''tasks'', ''summary''] tok q b now) =
     (case authenticate d tok of
        None \<Rightarrow> (error_resp 401 ''Unauthorized'', d)
      | Some u \<Rightarrow> getTaskSummary d (to_request (api_request GET [''tasks'', ''summary''] tok q b now) (Some u) []))"
  by (simp add: dispatch_def auth_prefix_def lower_eval mounts_def task_routes_def api_request_def split: option.split)

lemma dispatch_delete:
  "i \<noteq> [] \<Longrightarrow>
   dispatch ar d (api_request DELETE [''tasks'', i] tok q b now) =
     (case authenticate d tok of
        None \<Rightarrow> (error_resp 401 ''Unauthorized'', d)
      | Some u \<Rightarrow> deleteTask d (to_request (api_request DELETE [''tasks'', i] tok q b now) (Some u) i))"
  by (simp add: dispatch_def auth_prefix_def lower_eval mounts_def task_routes_def api_request_def split: option.split)

lemma dispatch_put:
  "dispatch ar d (api_request PUT [''tasks'', i] tok q b now) =
     (if i = [] then (error_resp 404 ''Not Found'', d)
      else case authenticate d tok of
             None \<Rightarrow> (error_resp 401 ''Unauthorized'', d)
           | Some u \<Rightarrow> updateTask d (to_request (api_request PUT [''tasks'', i] tok q b now) (Some u) i))"
  by (simp add: dispatch_def auth_prefix_def lower_eval mounts_def task_routes_def user_routes_def split: option.split)

lemma dispatch_post:
  "dispatch ar d (api_request POST [''tasks''] tok q b now) =
     (case authenticate d tok of
        None \<Rightarrow> (error_resp 401 ''Unauthorized'', d)
      | Some u \<Rightarrow> createTask d (to_request (api_request POST [''tasks''] tok q b now) (Some u) []))"
  by (simp add: dispatch_def auth_prefix_def lower_eval mounts_def task_routes_def split: option.split)

lemma fetchTasks_ok:
  assumes "authenticate d tok = Some u"
  shows "fetchTasks ar d tok now st =
           (st\<lparr>l_tasks := map (view_task d) (find_tasks d (list_filter d u (list_params st))),
               l_loading := False, l_error := None\<rparr>, d)"
  using assms by (simp add: fetchTasks_def dispatch_list getTasks_def to_request_def ok_resp_def ok_code_def)

lemma authenticate_remove_task [simp]: "authenticate (remove_task i d) tok = authenticate d tok"
  by (simp add: authenticate_def remove_task_def)

lemma tv_task_view_task [simp]: "tv_task (view_task d t) = t"
  by (simp add: view_task_def)

lemma validate_body_unknown_key:
  assumes "map_of b k \<noteq> None" and "k \<notin> set (map kr_key task_schema)"
  shows "validate_body b \<noteq> None"
proof
  assume "validate_body b = None"
  then have "\<forall>kv \<in> set b. fst kv \<in> set (map kr_key task_schema)"
    by (simp add: validate_body_None_iff unknown_key_None_iff)
  moreover from assms(1) obtain v where "(k, v) \<in> set b" by (auto dest: map_of_SomeD)
  ultimately show False using assms(2) by force
qed

lemma validate_body_empty_assignee:
  "map_of b ''assignedTo'' = Some (JStr []) \<Longrightarrow> validate_body b \<noteq> None"
  using valid_body_fields by fastforce

lemma map_of_form_changes:
  "\<forall>kv \<in> set cs. fst kv \<noteq> k \<Longrightarrow> map_of (form_changes b cs) k = map_of b k"
  by (induction cs arbitrary: b) (auto simp: form_changes_def handleChange_def update_conv')

lemma updateTask_invalid:
  "validate_body (req_body r) = Some e \<Longrightarrow> updateTask d r = (error_resp 400 (joi_message e), d)"
  by (simp add: updateTask_def)

lemma createTask_invalid:
  "validate_body (req_body r) = Some e \<Longrightarrow> createTask d r = (error_resp 400 (joi_message e), d)"
  by (simp add: createTask_def)

lemma handleSubmit_invalid:
  assumes "validate_body b = Some e"
  shows "handleSubmit ar d tok now i b = (False, d)"
  using assms
  by (simp add: handleSubmit_def dispatch_put dispatch_post to_request_def updateTask_invalid
      createTask_invalid error_resp_def ok_code_def split: option.split)

lemma list_params_qparam:
  "k \<noteq> ''page'' \<Longrightarrow> k \<noteq> ''limit'' \<Longrightarrow> qparam (list_params st) k = qparam (l_filter st) k"
  by (simp add: list_params_def qparam_update)


section \<open>Properties of the list page\<close>

text \<open>
  C30.  Pagination is inert: the server ignores the \<open>page\<close> and \<open>limit\<close> parameters,
  so fetching any page gives exactly the state, tasks and error included, that fetching
  any other page gives.  Every page button therefore shows the same full list.
\<close>

theorem pagination_inert:
  "fetchTasks ar d tok now (st\<lparr>l_page := p\<rparr>) =
     (let (st', d') = fetchTasks ar d tok now (st\<lparr>l_page := p'\<rparr>) in (st'\<lparr>l_page := p\<rparr>, d'))"
proof -
  have "list_filter d u (list_params (st\<lparr>l_page := p\<rparr>)) = list_filter d u (list_params (st\<lparr>l_page := p'\<rparr>))"
    for u by (rule list_filter_cong) (simp_all add: list_params_qparam)
  then have "dispatch ar d (api_request GET [''tasks''] tok (list_params (st\<lparr>l_page := p\<rparr>)) [] now) =
             dispatch ar d (api_request GET [''tasks''] tok (list_params (st\<lparr>l_page := p'\<rparr>)) [] now)"
    by (simp add: dispatch_list getTasks_def to_request_def split: option.split)
  then show ?thesis
    by (simp add: fetchTasks_def split: prod.split bool.split resp_body.split)
qed

text \<open>
  C31.  The summary ignores the priority filter the list applies: with any value of the
  priority select, "View Summary" and "Download Summary" send a request whose answer, and
  the page state it leaves, are those of the same request without that value.
\<close>

theorem summary_ignores_priority_filter:
  "handleDownloadSummary ar d tok now fmt (st\<lparr>l_filter := AList.update ''priority'' v (l_filter st)\<rparr>) =
     (let (st', d', file) = handleDownloadSummary ar d tok now fmt st
      in (st'\<lparr>l_filter := AList.update ''priority'' v (l_filter st)\<rparr>, d', file))"
proof -
  let ?q = "\<lambda>st. AList.update ''format'' fmt (l_filter st)"
  let ?st = "st\<lparr>l_filter := AList.update ''priority'' v (l_filter st)\<rparr>"
  have f: "summary_filter u (?q ?st) = summary_filter u (?q st)" for u
    by (rule summary_filter_cong) (simp_all add: qparam_update)
  have "qparam (?q ?st) ''format'' = qparam (?q st) ''format''"
    by (simp add: qparam_update)
  with f have "dispatch ar d (api_request GET [''tasks'', ''summary''] tok (?q ?st) [] now) =
               dispatch ar d (api_request GET [''tasks'', ''summary''] tok (?q st) [] now)"
    by (simp add: dispatch_summary getTaskSummary_def to_request_def split: option.split)
  then show ?thesis
    by (simp add: handleDownloadSummary_def split: prod.split resp_body.split)
qed

text \<open>
  C32.  Deleting from the list: when the signed-in user may delete a stored task (an
  administrator, or its creator), "Delete" removes exactly that task from the store and the
  list fetched after it no longer shows it, with no error on the page.
\<close>

theorem delete_then_refresh:
  assumes "authenticate d tok = Some u" and "find_task d i = Some t" and "can_write u t"
    and "i < 2 ^ 96"
  shows "let (st', d') = handleDeleteTask ar d tok now (oid_hex i) st in
         d' = remove_task i d \<and> l_error st' = None \<and> \<not> l_loading st' \<and>
         i \<notin> task_id ` tv_task ` set (l_tasks st')"
proof -
  have "oid_hex i \<noteq> []" using length_oid_hex [of i] by (metis list.size(3) zero_neq_numeral)
  with assms have del: "dispatch ar d (api_request DELETE [''tasks'', oid_hex i] tok [] [] now) =
      (ok_resp 200 (RMessage ''Task deleted successfully''), remove_task i d)"
    by (auto simp: dispatch_delete deleteTask_def to_request_def parse_oid_hex_lemma can_write_def)
  have res: "handleDeleteTask ar d tok now (oid_hex i) st =
      (st\<lparr>l_tasks := map (view_task (remove_task i d))
                      (find_tasks (remove_task i d) (list_filter (remove_task i d) u (list_params st))),
          l_loading := False, l_error := None\<rparr>, remove_task i d)"
    using del assms(1) by (simp add: handleDeleteTask_def fetchTasks_ok ok_resp_def ok_code_def)
  have "i \<notin> task_id ` set (find_tasks (remove_task i d) f)" for f
    by (auto simp: find_tasks_def remove_task_def)
  then show ?thesis by (simp add: res image_image)
qed

text \<open>
  C36.  "Download Summary" as CSV, end to end: the request reaches \<open>getTaskSummary\<close>,
  which encodes the groups of \<open>Task.aggregate\<close>; the browser saves
  \<open>task_summary_report.csv\<close>, whose text a CSV reader reads back as the header and
  one record per group, and the page state is unchanged.  When no task matches, the
  encoder throws, the server answers 400, no file is saved and the page shows its failure
  message.
\<close>

theorem download_summary_csv:
  assumes "authenticate d tok = Some u"
    and "f = summary_filter u (AList.update ''format'' ''csv'' (l_filter st))"
  shows "handleDownloadSummary ar d tok now ''csv'' st =
           (if aggregate_summary d f = [] then
              (st\<lparr>l_error := Some ''Failed to download summary report. Please try again.''\<rparr>, d, None)
            else (st, d, map_option (Pair ''task_summary_report.csv'') (summary_csv (aggregate_summary d f)))) \<and>
         map_option (csv_records \<circ> snd) (snd (snd (handleDownloadSummary ar d tok now ''csv'' st))) =
           (if aggregate_summary d f = [] then None else Some (Some (summary_table (aggregate_summary d f))))"
proof -
  let ?q = "AList.update ''format'' ''csv'' (l_filter st)"
  have "qparam ?q ''format'' = Some ''csv''" by (simp add: qparam_update)
  with assms have disp:
    "dispatch ar d (api_request GET [''tasks'', ''summary''] tok ?q [] now) =
       (case summary_csv (aggregate_summary d f) of
          None \<Rightarrow> (error_resp 400 csv_empty_error, d)
        | Some txt \<Rightarrow> (ok_resp 200 (RCsv txt), d))"
    by (simp add: dispatch_summary) (simp add: getTaskSummary_def to_request_def api_request_def)
  show ?thesis
  proof (cases "summary_csv (aggregate_summary d f)")
    case None
    then show ?thesis
      by (simp add: handleDownloadSummary_def disp summary_csv_def error_resp_def ok_code_def split: if_splits)
  next
    case (Some t)
    then have "aggregate_summary d f \<noteq> []" by (auto simp: summary_csv_None_iff [symmetric])
    with Some summary_csv_records [OF Some] show ?thesis
      by (simp add: handleDownloadSummary_def disp ok_resp_def ok_code_def summary_file_def)
  qed
qed

section \<open>Properties of the task form\<close>

text \<open>
  C33.  Editing from the form never succeeds: the form submits the fetched task's JSON,
  whose \<open>_id\<close> (and populated references) the update schema does not allow, so whatever
  the user changes in the form fields, the \<open>PUT\<close> is rejected, the store is unchanged and
  the form stays open, whether or not the browser lets the form be submitted.
\<close>

theorem edit_form_always_rejected:
  assumes "\<forall>kv \<in> set cs. fst kv \<noteq> ''_id''"
  shows "handleSubmit ar d tok now (Some i) (form_changes (task_json v) cs) = (False, d) \<and>
         form_submit ar d tok now (Some i) (form_changes (task_json v) cs) = (False, d)"
proof -
  have "map_of (form_changes (task_json v) cs) ''_id'' \<noteq> None"
    using assms by (simp add: map_of_form_changes task_json_def Let_def)
  moreover have "''_id'' \<notin> set (map kr_key task_schema)" by (simp add: task_schema_def)
  ultimately obtain e where "validate_body (form_changes (task_json v) cs) = Some e"
    using validate_body_unknown_key by blast
  then have "handleSubmit ar d tok now (Some i) (form_changes (task_json v) cs) = (False, d)"
    by (rule handleSubmit_invalid)
  then show ?thesis by (simp add: form_submit_def)
qed

text \<open>
  C34.  Creating from the form needs an assignee: the form starts with
  \<open>assignedTo: ''\<close>, which the schema rejects as empty, so unless the user picks an
  assignee in the select (shown to administrators only) every \<open>POST\<close> is rejected, the
  store is unchanged and the form stays open.  A regular user cannot create a task from
  the form at all.
\<close>

theorem create_form_requires_assignee:
  assumes "\<forall>kv \<in> set cs. fst kv \<noteq> ''assignedTo''"
  shows "handleSubmit ar d tok now None (form_changes form_init cs) = (False, d)"
proof -
  have "map_of (form_changes form_init cs) ''assignedTo'' = Some (JStr [])"
    using assms by (simp add: map_of_form_changes form_init_def)
  then obtain e where "validate_body (form_changes form_init cs) = Some e"
    using validate_body_empty_assignee by blast
  then show ?thesis by (rule handleSubmit_invalid)
qed

section \<open>Termination of the list effect\<close>


end
