(* ===== verification/Session.thy ===== *)
theory Session
  imports TaskModel
begin

text \<open>
  The client session of \<open>src/frontend/src/context/AuthContext.jsx\<close>: the React state
  \<open>user\<close> and \<open>loading\<close>, the \<open>token\<close> entry of \<open>localStorage\<close>, and the default
  \<open>Authorization\<close> header of the axios instance.  Each callback of the provider is one
  event of a step function.  \<open>fetchUser\<close> is asynchronous: the mount effect starts it
  and its completion (\<open>FetchOk\<close> or \<open>FetchFail\<close>) is a separate event that may arrive
  after any other event; the flag \<open>s_pending\<close> records that a request is in flight and
  \<open>s_mounted\<close> that the mount effect has run.  The reachable sessions are an inductive
  relation over these events, and the invariants are proved by rule induction.
\<close>

section \<open>State and events\<close>

record session =
  s_user :: "user option"
  s_loading :: bool
  s_storage :: "string option"
  s_header :: "string option"
  s_pending :: bool
  s_mounted :: bool

datatype auth_event =
    Mount
  | FetchOk user
  | FetchFail
  | LoginOk user string
  | RegisterOk user string
  | Logout

definition bearer :: "string \<Rightarrow> string" where
  "bearer t = ''Bearer '' @ t"

text \<open>The provider's initial state (lines 10--11), with whatever token the browser kept.\<close>

definition session_init :: "string option \<Rightarrow> session" where
  "session_init tok = \<lparr>s_user = None, s_loading = True, s_storage = tok, s_header = None,
                       s_pending = False, s_mounted = False\<rparr>"

text \<open>
  Lines 13--21 (mount effect), 23--32 (\<open>fetchUser\<close>'s completion), 34--39 (\<open>login\<close>
  after its request succeeded), 41--46 (\<open>register\<close>) and 48--52 (\<open>logout\<close>).  A failed
  login or registration throws before any state is set and is no event.
\<close>

fun session_step :: "session \<Rightarrow> auth_event \<Rightarrow> session" where
  "session_step s Mount =
     (case s_storage s of
        Some t \<Rightarrow>
          if t \<noteq> [] then s\<lparr>s_header := Some (bearer t), s_pending := True, s_mounted := True\<rparr>
          else s\<lparr>s_loading := False, s_mounted := True\<rparr>
      | None \<Rightarrow> s\<lparr>s_loading := False, s_mounted := True\<rparr>)"
| "session_step s (FetchOk u) = s\<lparr>s_user := Some u, s_loading := False, s_pending := False\<rparr>"
| "session_step s FetchFail = s\<lparr>s_loading := False, s_pending := False\<rparr>"
| "session_step s (LoginOk u t) = s\<lparr>s_user := Some u, s_storage := Some t, s_header := Some (bearer t)\<rparr>"
| "session_step s (RegisterOk u t) = s\<lparr>s_user := Some u, s_storage := Some t, s_header := Some (bearer t)\<rparr>"
| "session_step s Logout = s\<lparr>s_user := None, s_storage := None, s_header := None\<rparr>"

text \<open>
  Which events can occur: the mount effect once, a completion only while the request is in
  flight, the user's actions after the mount; the navigation bar offers "Logout" only to a
  signed-in user.
\<close>

fun enabled :: "session \<Rightarrow> auth_event \<Rightarrow> bool" where
  "enabled s Mount = (\<not> s_mounted s)"
| "enabled s (FetchOk u) = s_pending s"
| "enabled s FetchFail = s_pending s"
| "enabled s (LoginOk u t) = s_mounted s"
| "enabled s (RegisterOk u t) = s_mounted s"
| "enabled s Logout = (s_mounted s \<and> s_user s \<noteq> None)"

inductive reachable_session :: "session \<Rightarrow> bool" where
  init: "reachable_session (session_init tok)"
| step: "reachable_session s \<Longrightarrow> enabled s e \<Longrightarrow> reachable_session (session_step s e)"

fun run_session :: "session \<Rightarrow> auth_event list \<Rightarrow> session" where
  "run_session s [] = s"
| "run_session s (e # es) = run_session (session_step s e) es"

fun run_enabled :: "session \<Rightarrow> auth_event list \<Rightarrow> bool" where
  "run_enabled s [] = True"
| "run_enabled s (e # es) = (enabled s e \<and> run_enabled (session_step s e) es)"

section \<open>Invariants\<close>

text \<open>
  After the mount effect, the header carries the stored token whenever one is stored (an
  empty stored token is falsy and leaves the header alone), and there is no header once
  the token is gone.  Before the mount nothing has set a header.
\<close>

definition header_matches :: "session \<Rightarrow> bool" where
  "header_matches s \<longleftrightarrow>
     (if s_mounted s then
        (case s_storage s of
           None \<Rightarrow> s_header s = None
         | Some t \<Rightarrow> t = [] \<or> s_header s = Some (bearer t))
      else s_header s = None)"

text \<open>
  Before the mount the provider is loading with no request in flight; after it, it is
  loading exactly while the request is in flight.
\<close>

definition loading_matches :: "session \<Rightarrow> bool" where
  "loading_matches s \<longleftrightarrow>
     (if s_mounted s then s_loading s = s_pending s else s_loading s \<and> \<not> s_pending s)"

lemma session_init_sel [simp]:
  "s_user (session_init tok) = None" "s_loading (session_init tok)"
  "s_storage (session_init tok) = tok" "s_header (session_init tok) = None"
  "\<not> s_pending (session_init tok)" "\<not> s_mounted (session_init tok)"
  by (simp_all add: session_init_def)

lemma header_matches_step:
  "header_matches s \<Longrightarrow> enabled s e \<Longrightarrow> header_matches (session_step s e)"
  by (cases e) (auto simp: header_matches_def bearer_def split: option.splits if_splits)

lemma loading_matches_step:
  "loading_matches s \<Longrightarrow> enabled s e \<Longrightarrow> loading_matches (session_step s e)"
  by (cases e) (auto simp: loading_matches_def split: option.splits if_splits)

lemma reachable_session_run:
  "reachable_session s \<Longrightarrow> run_enabled s es \<Longrightarrow> reachable_session (run_session s es)"
  by (induction s es rule: run_session.induct) (auto intro: reachable_session.step)

lemma reachable_header_matches: "reachable_session s \<Longrightarrow> header_matches s"
proof (induction rule: reachable_session.induct)
  case (init tok)
  then show ?case by (simp add: header_matches_def)
next
  case (step s e)
  from step.IH step.hyps(2) show ?case by (rule header_matches_step)
qed

lemma reachable_loading_matches: "reachable_session s \<Longrightarrow> loading_matches s"
proof (induction rule: reachable_session.induct)
  case (init tok)
  then show ?case by (simp add: loading_matches_def)
next
  case (step s e)
  from step.IH step.hyps(2) show ?case by (rule loading_matches_step)
qed

text \<open>From a mounted session with no request in flight, nothing is loading.\<close>

lemma settle_session:
  assumes "loading_matches s" and "s_mounted s"
  shows "\<exists>es. run_enabled s es \<and> \<not> s_loading (run_session s es)"
proof (cases "s_pending s")
  case True
  with assms have "run_enabled s [FetchFail] \<and> \<not> s_loading (run_session s [FetchFail])" by simp
  then show ?thesis by blast
next
  case False
  with assms have "run_enabled s [] \<and> \<not> s_loading (run_session s [])"
    by (simp add: loading_matches_def)
  then show ?thesis by blast
qed

section \<open>Properties of the session\<close>

text \<open>
  C27.  In every reachable session the default \<open>Authorization\<close> header agrees with
  \<open>localStorage\<close> once the provider has mounted: requests carry \<open>Bearer\<close> and the
  stored token, and no header survives the removal of the token.
\<close>

theorem session_header_invariant:
  assumes "reachable_session s"
  shows "header_matches s"
  using assms by (rule reachable_header_matches)

text \<open>
  In every reachable session the loading flag is the state of the initial
  \<open>fetchUser\<close>: set before the mount, and after the mount set exactly while the request
  is in flight, so the application leaves the loading screen once the request settles.
\<close>

theorem session_loading_invariant:
  assumes "reachable_session s"
  shows "loading_matches s"
  using assms by (rule reachable_loading_matches)

text \<open>
  C29.  \<open>logout\<close> does not cancel a \<open>fetchUser\<close> in flight: a user who signs in and
  logs out while the initial request is pending ends, once it answers, in a reachable
  session that shows a signed-in principal with no stored token and no header.
\<close>

theorem logout_race:
  "\<exists>s. reachable_session s \<and> s_user s = Some u \<and> s_storage s = None \<and> s_header s = None \<and>
       \<not> s_loading s \<and> \<not> s_pending s"
proof -
  let ?s = "run_session (session_init (Some ''t'')) [Mount, LoginOk u ''t2'', Logout, FetchOk u]"
  have "run_enabled (session_init (Some ''t'')) [Mount, LoginOk u ''t2'', Logout, FetchOk u]"
    by (simp add: session_init_def)
  then have "reachable_session ?s"
    by (rule reachable_session_run [OF reachable_session.init])
  moreover have "s_user ?s = Some u \<and> s_storage ?s = None \<and> s_header ?s = None \<and>
                 \<not> s_loading ?s \<and> \<not> s_pending ?s"
    by (simp add: session_init_def)
  ultimately show ?thesis by blast
qed

text \<open>
  C39.  Liveness of the loading screen: from every reachable session there is a run of
  enabled events (the mount effect, then the settling of \<open>fetchUser\<close>, whichever way it
  settles) after which the provider no longer reports \<open>loading\<close>.
\<close>

theorem session_loading_ends:
  assumes "reachable_session s"
  shows "\<exists>es. run_enabled s es \<and> \<not> s_loading (run_session s es)"
proof (cases "s_mounted s")
  case True
  with reachable_loading_matches [OF assms] show ?thesis by (rule settle_session)
next
  case False
  let ?s = "session_step s Mount"
  have m: "reachable_session ?s"
    using assms False by (intro reachable_session.step) simp_all
  have "s_mounted ?s" by (simp split: option.split)
  with reachable_loading_matches [OF m] obtain es where
    "run_enabled ?s es" "\<not> s_loading (run_session ?s es)" by (blast dest: settle_session)
  with False have "run_enabled s (Mount # es) \<and> \<not> s_loading (run_session s (Mount # es))" by simp
  then show ?thesis by blast
qed

end
