(* ===== verification/Shell.thy ===== *)
theory Shell
  imports Pages Session
begin

text \<open>
  The application shell around the pages: the client routes of \<open>src/frontend/src/App.jsx\<close>
  with their \<open>PrivateRoute\<close> guard, the links and the logout button of
  \<open>components/Navbar.jsx\<close>, the sign-in form of \<open>components/Auth/Login.jsx\<close>, and the
  summary dialog \<open>components/Tasks/SummaryModal.jsx\<close>.  They read the session of
  \<open>Session\<close> and change it through its events.  \<open>PrivateRoute\<close> is not part of the
  sources; it is modelled as the spec describes the guarded pages: the page for a signed-in
  user, a redirect to \<open>/login\<close> otherwise.  The sign-in request goes to the
  \<open>/api/auth\<close> router, also outside the sources, and is a parameter: the user and token it
  answers for an email and a password, or \<open>None\<close> when it fails.
\<close>

section \<open>Client routes\<close>

datatype screen = ScreenLogin | ScreenRegister | ScreenList | ScreenNewTask | ScreenEditTask string
  | ScreenBlank

definition private_route :: "session \<Rightarrow> screen \<Rightarrow> screen" where
  "private_route s sc = (case s_user s of Some _ \<Rightarrow> sc | None \<Rightarrow> ScreenLogin)"

text \<open>
  Lines 20--27.  React Router ranks a static segment above a parameter, so
  \<open>/tasks/new\<close> wins over \<open>/tasks/:id\<close>; \<open>/\<close> redirects to \<open>/tasks\<close>; any other
  path matches no route and renders nothing below the navigation bar.  No route sets
  \<open>caseSensitive\<close>, so paths are matched without ASCII case; the \<open>:id\<close> parameter
  keeps the letters as written.
\<close>

definition app_screen :: "session \<Rightarrow> string list \<Rightarrow> screen" where
  "app_screen s p =
     (let q = map lower_str p in
      if q = [''login''] then ScreenLogin
      else if q = [''register''] then ScreenRegister
      else if q = [] \<or> q = [''tasks''] then private_route s ScreenList
      else if q = [''tasks'', ''new''] then private_route s ScreenNewTask
      else (case p of
              [t, x] \<Rightarrow> if lower_str t = ''tasks'' \<and> x \<noteq> [] then private_route s (ScreenEditTask x) else ScreenBlank
            | _ \<Rightarrow> ScreenBlank))"

section \<open>Navigation bar\<close>

datatype nav_item = NavHome | NavTasks | NavNewTask | NavLogout | NavLogin | NavRegister

text \<open>Lines 56--107: the brand link, then the links for a signed-in user or a visitor.\<close>

definition nav_items :: "session \<Rightarrow> nav_item list" where
  "nav_items s =
     NavHome #
     (case s_user s of
        Some u \<Rightarrow> [NavTasks] @ (if isAdmin u then [NavNewTask] else []) @ [NavLogout]
      | None \<Rightarrow> [NavLogin, NavRegister])"

definition nav_target :: "nav_item \<Rightarrow> string list" where
  "nav_target i =
     (case i of
        NavHome \<Rightarrow> [] | NavTasks \<Rightarrow> [''tasks''] | NavNewTask \<Rightarrow> [''tasks'', ''new'']
      | NavLogout \<Rightarrow> [''login''] | NavLogin \<Rightarrow> [''login''] | NavRegister \<Rightarrow> [''register''])"

text \<open>
  Lines 15--93 as rendered: the links sit in a \<open>hidden md:flex\<close> block, shown only from
  Tailwind's \<open>md\<close> breakpoint (a viewport 768 pixels wide) on; below it only the brand
  link and the \<open>md:hidden\<close> menu button of lines 72--90 are shown, and that button has
  no \<open>onClick\<close>, so it is no event of the model.
\<close>

definition md_breakpoint :: nat where
  "md_breakpoint = 768"

record nav_view =
  nv_links :: "nav_item list"
  nv_menu_button :: bool

definition navbar_view :: "nat \<Rightarrow> session \<Rightarrow> nav_view" where
  "navbar_view w s =
     (if md_breakpoint \<le> w then \<lparr>nv_links = nav_items s, nv_menu_button = False\<rparr>
      else \<lparr>nv_links = [NavHome], nv_menu_button = True\<rparr>)"

text \<open>Lines 47--50: \<open>handleLogout\<close>, the new session and the path it navigates to.\<close>

definition handleLogout :: "session \<Rightarrow> session \<times> string list" where
  "handleLogout s = (session_step s Logout, [''login''])"

section \<open>Sign-in form\<close>

record login_state =
  lg_email :: string
  lg_password :: string
  lg_error :: string
  lg_show :: bool

text \<open>Lines 9--12.\<close>

definition login_init :: login_state where
  "login_init = \<lparr>lg_email = [], lg_password = [], lg_error = [], lg_show = False\<rparr>"

text \<open>Lines 44, 59 and 64: the two inputs and the visibility toggle.\<close>

definition setEmail :: "string \<Rightarrow> login_state \<Rightarrow> login_state" where
  "setEmail v st = st\<lparr>lg_email := v\<rparr>"

definition setPassword :: "string \<Rightarrow> login_state \<Rightarrow> login_state" where
  "setPassword v st = st\<lparr>lg_password := v\<rparr>"

definition toggleShowPassword :: "login_state \<Rightarrow> login_state" where
  "toggleShowPassword st = st\<lparr>lg_show := \<not> lg_show st\<rparr>"

type_synonym auth_login = "string \<Rightarrow> string \<Rightarrow> (user \<times> string) option"

text \<open>
  Lines 16--26: \<open>login\<close> of the session (a \<open>LoginOk\<close> event when the request
  succeeds), then the navigation to \<open>/tasks\<close>; a failed request sets the error and
  leaves the session alone.
\<close>

definition login_submit :: "auth_login \<Rightarrow> login_state \<Rightarrow> session \<Rightarrow> login_state \<times> session \<times> string list option" where
  "login_submit auth st s =
     (case auth (lg_email st) (lg_password st) of
        Some (u, t) \<Rightarrow> (st, session_step s (LoginOk u t), Some [''tasks''])
      | None \<Rightarrow> (st\<lparr>lg_error := ''Invalid email or password''\<rparr>, s, None))"

text \<open>
  The browser's constraint validation of the form (lines 38--61): both inputs are
  \<open>required\<close>, and the \<open>type="email"\<close> input must hold a valid e-mail address as
  the HTML standard defines it (its regular expression, written out): a local part of
  \<open>atext\<close> characters and dots, an \<open>@\<close>, and dot-separated labels of at most 63
  letters, digits and hyphens that begin and end with a letter or digit.  An invalid form
  is not submitted.
\<close>

definition is_alnum :: "char \<Rightarrow> bool" where
  "is_alnum c \<longleftrightarrow> (let n = (of_char c :: nat) in (48 \<le> n \<and> n \<le> 57) \<or> (65 \<le> n \<and> n \<le> 90) \<or> (97 \<le> n \<and> n \<le> 122))"

definition email_atext :: "char \<Rightarrow> bool" where
  "email_atext c \<longleftrightarrow> is_alnum c \<or> c \<in> set ''.!#$%&*+/=?^_`{|}~-'' \<or> c = CHR 0x27"

fun split_dots :: "string \<Rightarrow> string \<Rightarrow> string list" where
  "split_dots cur [] = [cur]"
| "split_dots cur (c # cs) = (if c = CHR ''.'' then cur # split_dots [] cs else split_dots (cur @ [c]) cs)"

definition email_label :: "string \<Rightarrow> bool" where
  "email_label l =
     (case l of
        [] \<Rightarrow> False
      | c # _ \<Rightarrow> length l \<le> 63 \<and> is_alnum c \<and> is_alnum (last l) \<and>
                 list_all (\<lambda>c. is_alnum c \<or> c = CHR ''-'') l)"

definition valid_email :: "string \<Rightarrow> bool" where
  "valid_email s =
     (case dropWhile (\<lambda>c. c \<noteq> CHR ''@'') s of
        [] \<Rightarrow> False
      | _ # host \<Rightarrow>
          let loc = takeWhile (\<lambda>c. c \<noteq> CHR ''@'') s in
          loc \<noteq> [] \<and> list_all email_atext loc \<and> list_all email_label (split_dots [] host))"

definition login_form_valid :: "login_state \<Rightarrow> bool" where
  "login_form_valid st \<longleftrightarrow> lg_email st \<noteq> [] \<and> valid_email (lg_email st) \<and> lg_password st \<noteq> []"

text \<open>Line 30: \<open>onSubmit\<close> runs \<open>handleSubmit\<close> only on a form the browser accepts.\<close>

definition login_form_submit :: "auth_login \<Rightarrow> login_state \<Rightarrow> session \<Rightarrow> login_state \<times> session \<times> string list option" where
  "login_form_submit auth st s = (if login_form_valid st then login_submit auth st s else (st, s, None))"

text \<open>
  Lines 28--91: the rendered form, the error paragraph only for a non-empty error, the
  password input as text or hidden, and the eye icon.
\<close>

record login_view =
  lv_error :: "string option"
  lv_email :: string
  lv_password :: string
  lv_password_type :: string
  lv_eye_invisible :: bool

definition login_render :: "login_state \<Rightarrow> login_view" where
  "login_render st =
     \<lparr>lv_error = (if lg_error st = [] then None else Some (lg_error st)),
      lv_email = lg_email st, lv_password = lg_password st,
      lv_password_type = (if lg_show st then ''text'' else ''password''),
      lv_eye_invisible = lg_show st\<rparr>"

section \<open>Summary dialog\<close>

record modal_row =
  mr_title :: string
  mr_description :: string
  mr_dueDate :: time
  mr_priority :: string
  mr_createdAt :: time

datatype modal_view = ModalClosed | ModalEmpty | ModalGroups "(string \<times> nat \<times> modal_row list) list"

text \<open>Lines 30--36: one table row per member task (dates before locale formatting).\<close>

definition modal_row_of :: "task \<Rightarrow> modal_row" where
  "modal_row_of t =
     \<lparr>mr_title = title t, mr_description = description t, mr_dueDate = dueDate t,
      mr_priority = priority_str (priority t), mr_createdAt = createdAt t\<rparr>"

text \<open>Lines 4--49: nothing when closed, a notice for an empty summary, else per group its
  status, its count and its rows.\<close>

definition summary_modal :: "bool \<Rightarrow> summary_group list \<Rightarrow> modal_view" where
  "summary_modal isOpen summary =
     (if \<not> isOpen then ModalClosed
      else if summary = [] then ModalEmpty
      else ModalGroups (map (\<lambda>g. (status_str (g_status g), g_count g, map modal_row_of (g_tasks g))) summary))"

text \<open>The dialog as \<open>TaskList\<close> mounts it (lines 140--144 of \<open>TaskList.jsx\<close>).\<close>

definition list_modal :: "list_state \<Rightarrow> modal_view" where
  "list_modal st = summary_modal (l_modal st) (l_summary st)"

definition modal_rows :: "modal_view \<Rightarrow> modal_row list" where
  "modal_rows v = (case v of ModalGroups gs \<Rightarrow> concat (map (\<lambda>g. snd (snd g)) gs) | _ \<Rightarrow> [])"

section \<open>Lemmas\<close>

lemma private_route_user: "s_user s = None \<Longrightarrow> private_route s sc = ScreenLogin"
  by (simp add: private_route_def)

lemma private_route_some [simp]: "s_user s = Some u \<Longrightarrow> private_route s sc = sc"
  by (simp add: private_route_def)

lemma group_spec_Nil_iff: "group_spec ts = [] \<longleftrightarrow> ts = []"
proof
  assume "group_spec ts = []"
  then have "mset ts = {#}" using group_spec_partition [of ts] by simp
  then show "ts = []" by simp
qed (simp add: group_spec_def first_keys_def)

lemma login_submit_cases:
  obtains u t where "auth (lg_email st) (lg_password st) = Some (u, t)"
      and "login_submit auth st s = (st, session_step s (LoginOk u t), Some [''tasks''])"
  | "auth (lg_email st) (lg_password st) = None"
      and "login_submit auth st s = (st\<lparr>lg_error := ''Invalid email or password''\<rparr>, s, None)"
  by (cases "auth (lg_email st) (lg_password st)") (auto simp: login_submit_def)

lemma map_concat_rows:
  "concat (map (\<lambda>g. map modal_row_of (g_tasks g)) gs) = map modal_row_of (concat (map g_tasks gs))"
  by (induction gs) simp_all

lemma oid_hex_path [simp]: "oid_hex n \<noteq> []" "oid_hex n \<noteq> ''new''"
proof -
  have "length (oid_hex n) = 24" by simp
  then show "oid_hex n \<noteq> []" "oid_hex n \<noteq> ''new''" by (auto simp del: length_oid_hex)
qed

text \<open>The shape of an address the browser accepts.\<close>

lemma split_dots_mem:
  "c \<in> set cur \<or> (c \<in> set s \<and> c \<noteq> CHR ''.'') \<Longrightarrow> \<exists>l \<in> set (split_dots cur s). c \<in> set l"
  by (induction cur s rule: split_dots.induct) auto

lemma split_dots_hd: "hd (split_dots cur s) = cur @ takeWhile (\<lambda>c. c \<noteq> CHR ''.'') s"
  by (induction cur s rule: split_dots.induct) auto

lemma split_dots_not_Nil [simp]: "split_dots cur s \<noteq> []"
  by (induction cur s rule: split_dots.induct) auto

lemma takeWhile_rev_no_dot: "CHR ''.'' \<notin> set cs \<Longrightarrow> takeWhile (\<lambda>c. c \<noteq> CHR ''.'') (rev cs) = rev cs"
  by (auto simp: takeWhile_eq_all_conv)

lemma split_dots_last:
  "last (split_dots cur s) =
     (if CHR ''.'' \<in> set s then rev (takeWhile (\<lambda>c. c \<noteq> CHR ''.'') (rev s)) else cur @ s)"
  by (induction cur s rule: split_dots.induct)
     (auto simp: takeWhile_append2 takeWhile_tail takeWhile_rev_no_dot)

lemma email_label_chars:
  "email_label l \<Longrightarrow>
   l \<noteq> [] \<and> is_alnum (hd l) \<and> is_alnum (last l) \<and> (\<forall>c \<in> set l. is_alnum c \<or> c = CHR ''-'')"
  by (cases l) (auto simp: email_label_def list_all_iff)

lemma email_labels_shape:
  assumes "list_all email_label (split_dots [] h)"
  shows "h \<noteq> [] \<and> list_all (\<lambda>c. is_alnum c \<or> c = CHR ''-'' \<or> c = CHR ''.'') h \<and>
         is_alnum (hd h) \<and> is_alnum (last h)"
proof -
  have lab: "l \<noteq> [] \<and> is_alnum (hd l) \<and> is_alnum (last l) \<and> (\<forall>c \<in> set l. is_alnum c \<or> c = CHR ''-'')"
    if "l \<in> set (split_dots [] h)" for l
    using email_label_chars [of l] assms that by (simp add: list_all_iff)
  have ne: "l \<noteq> []" if "l \<in> set (split_dots [] h)" for l
    using lab [OF that] by blast
  have hd_lab: "hd (split_dots [] h) \<in> set (split_dots [] h)"
    and last_lab: "last (split_dots [] h) \<in> set (split_dots [] h)" by simp_all
  have "h \<noteq> []"
    using ne [OF hd_lab] by (auto simp: split_dots_hd)
  moreover have "is_alnum c \<or> c = CHR ''-'' \<or> c = CHR ''.''" if "c \<in> set h" for c
  proof (cases "c = CHR ''.''")
    case False
    with that obtain l where "l \<in> set (split_dots [] h)" "c \<in> set l"
      using split_dots_mem [of c "[]" h] by auto
    with lab show ?thesis by blast
  qed simp
  moreover have "is_alnum (hd h)"
  proof -
    let ?l = "hd (split_dots [] h)"
    from \<open>h \<noteq> []\<close> obtain c cs where h: "h = c # cs" by (cases h) auto
    with ne [OF hd_lab] have "c \<noteq> CHR ''.''" by (auto simp: split_dots_hd)
    with h have "?l = c # takeWhile (\<lambda>c. c \<noteq> CHR ''.'') cs" by (simp add: split_dots_hd)
    with lab [OF hd_lab] h show ?thesis by simp
  qed
  moreover have "is_alnum (last h)"
  proof -
    let ?l = "last (split_dots [] h)"
    from \<open>h \<noteq> []\<close> obtain c cs where r: "rev h = c # cs" by (cases "rev h") auto
    then have lh: "last h = c" by (metis last_rev list.sel(1) rev_rev_ident)
    show ?thesis
    proof (cases "CHR ''.'' \<in> set h")
      case True
      with r have l: "?l = rev (takeWhile (\<lambda>c. c \<noteq> CHR ''.'') (c # cs))" by (simp add: split_dots_last)
      with ne [OF last_lab] have "c \<noteq> CHR ''.''" by auto
      with l have "?l = rev (takeWhile (\<lambda>c. c \<noteq> CHR ''.'') cs) @ [c]" by simp
      with lab [OF last_lab] lh show ?thesis by simp
    next
      case False
      then have "?l = h" by (simp add: split_dots_last)
      with lab [OF last_lab] show ?thesis by simp
    qed
  qed
  ultimately show ?thesis by (simp add: list_all_iff)
qed

lemma valid_email_shape:
  assumes "valid_email e"
  shows "\<exists>l h. e = l @ CHR ''@'' # h \<and> l \<noteq> [] \<and> list_all email_atext l \<and>
           h \<noteq> [] \<and> list_all (\<lambda>c. is_alnum c \<or> c = CHR ''-'' \<or> c = CHR ''.'') h \<and>
           is_alnum (hd h) \<and> is_alnum (last h)"
proof -
  obtain x h where d: "dropWhile (\<lambda>c. c \<noteq> CHR ''@'') e = x # h"
    using assms by (auto simp: valid_email_def split: list.splits)
  then have "x = CHR ''@''" by (metis (mono_tags) hd_dropWhile list.discI list.sel(1))
  with d have e: "e = takeWhile (\<lambda>c. c \<noteq> CHR ''@'') e @ CHR ''@'' # h"
    by (metis takeWhile_dropWhile_id)
  from assms d have "takeWhile (\<lambda>c. c \<noteq> CHR ''@'') e \<noteq> []"
    "list_all email_atext (takeWhile (\<lambda>c. c \<noteq> CHR ''@'') e)"
    "list_all email_label (split_dots [] h)"
    by (simp_all add: valid_email_def Let_def)
  with e email_labels_shape show ?thesis by blast
qed
text \<open>The eye icon toggles the password input between shown and hidden.\<close>

lemma toggle_password_type:
  "lv_password_type (login_render (toggleShowPassword st)) \<noteq> lv_password_type (login_render st)"
  by (simp add: login_render_def toggleShowPassword_def)

section \<open>Properties of the shell\<close>

text \<open>
  C37.  A visitor who is not signed in is never shown a task page: every path renders the
  sign-in page, the registration page or nothing, and the navigation bar offers neither the
  task list nor "New Task".
\<close>

theorem signed_out_no_private_screen:
  assumes "s_user s = None"
  shows "app_screen s p \<in> {ScreenLogin, ScreenRegister, ScreenBlank} \<and>
         NavTasks \<notin> set (nav_items s) \<and> NavNewTask \<notin> set (nav_items s)"
  using assms
  by (auto simp: app_screen_def private_route_user nav_items_def Let_def split: list.split)

text \<open>
  C38.  Signing in from a mounted session yields a reachable session and opens the task
  list; from then on the "New Task" page is shown to every signed-in user who opens its
  URL, although the navigation bar offers the link to administrators only.  On a viewport
  narrower than 768 pixels the bar shows neither the task links nor "Logout", only a menu
  button that does nothing.
\<close>

theorem login_then_new_task:
  assumes "reachable_session s" and "s_mounted s"
    and "auth (lg_email st) (lg_password st) = Some (u, t)"
    and "login_submit auth st s = (st', s', nav)"
  shows "reachable_session s' \<and> nav = Some [''tasks''] \<and> s_user s' = Some u \<and>
         app_screen s' (nav_target NavTasks) = ScreenList \<and>
         app_screen s' (nav_target NavNewTask) = ScreenNewTask \<and>
         (NavNewTask \<in> set (nav_items s') \<longleftrightarrow> isAdmin u) \<and>
         (\<forall>w. (NavLogout \<in> set (nv_links (navbar_view w s')) \<longleftrightarrow> 768 \<le> w) \<and>
              (nv_menu_button (navbar_view w s') \<longleftrightarrow> w < 768))"
proof -
  from assms(3,4) have s': "s' = session_step s (LoginOk u t)" and nav: "nav = Some [''tasks'']"
    by (simp_all add: login_submit_def)
  from assms(1,2) have "reachable_session s'"
    unfolding s' by (intro reachable_session.step) simp_all
  moreover have "s_user s' = Some u" by (simp add: s')
  ultimately show ?thesis
    using nav by (simp add: app_screen_def nav_target_def nav_items_def navbar_view_def md_breakpoint_def lower_eval)
qed

text \<open>
  C40.  The summary dialog shows what the summary endpoint matched: opened on the groups
  of \<open>Task.aggregate\<close>, it shows the empty-summary notice exactly when no task matches,
  and otherwise its rows are, up to order, one row per matching task.
\<close>

theorem summary_modal_shows_matches:
  "(summary_modal True (aggregate_summary d f) = ModalEmpty \<longleftrightarrow> find_tasks d f = []) \<and>
   mset (modal_rows (summary_modal True (aggregate_summary d f))) = mset (map modal_row_of (find_tasks d f))"
proof -
  have a: "aggregate_summary d f = group_spec (find_tasks d f)"
    by (simp add: aggregate_summary_def group_stage_eq_spec_lemma)
  have "mset (map modal_row_of (concat (map g_tasks (group_spec (find_tasks d f))))) =
        mset (map modal_row_of (find_tasks d f))"
    using group_spec_partition [of "find_tasks d f"] by (metis mset_map)
  then show ?thesis
    by (auto simp: a summary_modal_def modal_rows_def comp_def map_concat_rows group_spec_Nil_iff)
qed


text \<open>
  C7.  The task table ignores the pagination and links each row to its own task: once the
  list has loaded, whichever page is selected, the table shows every fetched task in order
  (a list of more than ten tasks is never split, although its page buttons are shown), and
  for a signed-in user the Edit link of each row opens the edit page of the task its Delete
  button deletes.
\<close>

theorem list_table_links:
  assumes "\<not> l_loading st" and "l_error st = None" and "s_user s = Some u"
  shows "list_render (st\<lparr>l_page := p\<rparr>) =
           ListTable (map list_row_of (l_tasks st)) (map (\<lambda>n. (n, p = n)) (page_buttons st)) \<and>
         (\<forall>v \<in> set (l_tasks st). app_screen s (row_edit (list_row_of v)) = ScreenEditTask (row_id (list_row_of v)))"
  using assms by (simp add: list_render_def page_buttons_def totalPages_def list_row_of_def Let_def app_screen_def lower_eval)


text \<open>
  C28.  The sign-in form sends a request only when the browser accepts it: whenever
  submitting changes anything (the session, the navigation or the form), the password is
  non-empty and the e-mail field is a local part of \<open>atext\<close> characters, an \<open>@\<close>, and
  a host of letters, digits, hyphens and dots that begins and ends with a letter or digit.
  A request the server rejects leaves the session as it was, navigates nowhere and shows
  "Invalid email or password".
\<close>

theorem login_form_outcomes:
  "(login_form_submit auth st s \<noteq> (st, s, None) \<longrightarrow>
      lg_password st \<noteq> [] \<and>
      (\<exists>l h. lg_email st = l @ CHR ''@'' # h \<and> l \<noteq> [] \<and> list_all email_atext l \<and>
             h \<noteq> [] \<and> list_all (\<lambda>c. is_alnum c \<or> c = CHR ''-'' \<or> c = CHR ''.'') h \<and>
             is_alnum (hd h) \<and> is_alnum (last h))) \<and>
   (login_form_valid st \<and> auth (lg_email st) (lg_password st) = None \<longrightarrow>
      fst (snd (login_form_submit auth st s)) = s \<and> snd (snd (login_form_submit auth st s)) = None \<and>
      lv_error (login_render (fst (login_form_submit auth st s))) = Some ''Invalid email or password'')"
proof -
  have "lg_password st \<noteq> [] \<and>
      (\<exists>l h. lg_email st = l @ CHR ''@'' # h \<and> l \<noteq> [] \<and> list_all email_atext l \<and>
             h \<noteq> [] \<and> list_all (\<lambda>c. is_alnum c \<or> c = CHR ''-'' \<or> c = CHR ''.'') h \<and>
             is_alnum (hd h) \<and> is_alnum (last h))"
    if "login_form_submit auth st s \<noteq> (st, s, None)"
  proof -
    from that have "lg_password st \<noteq> [] \<and> valid_email (lg_email st)"
      by (auto simp: login_form_submit_def login_form_valid_def split: if_splits)
    then show ?thesis using valid_email_shape by blast
  qed
  moreover have "login_form_valid st \<and> auth (lg_email st) (lg_password st) = None \<longrightarrow>
      fst (snd (login_form_submit auth st s)) = s \<and> snd (snd (login_form_submit auth st s)) = None \<and>
      lv_error (login_render (fst (login_form_submit auth st s))) = Some ''Invalid email or password''"
    by (simp add: login_form_submit_def login_submit_def login_render_def)
  ultimately show ?thesis by blast
qed

end
