(* ===== verification/Admin.thy ===== *)
theory Admin
  imports TaskModel
begin

text \<open>
  The bootstrap script \<open>src/backend/scripts/createAdmin.js\<close>: it saves one \<open>User\<close>
  document with the fixed username \<open>admin\<close>, email \<open>admin@example.com\<close> and the
  admin flag, and exits with status 0, or with status 1 when the save throws.  The
  \<open>User\<close> model is not part of the sources; following the spec its username and email
  are unique, so the save throws exactly when a user with either value exists.  The
  model's pre-save hook hashes the password; the hash function is not modelled, and the
  stored secret is the password the script passes.
\<close>

section \<open>The script\<close>

text \<open>Lines 11--16.\<close>

definition admin_user :: "oid \<Rightarrow> user" where
  "admin_user i = \<lparr>user_id = i, username = ''admin'', email = ''admin@example.com'',
     password = ''adminpassword123'', isAdmin = True\<rparr>"

text \<open>A unique index rejects a second document with the same username or email.\<close>

definition user_clash :: "user \<Rightarrow> db \<Rightarrow> bool" where
  "user_clash u d = list_ex (\<lambda>u'. username u' = username u \<or> email u' = email u) (users d)"

text \<open>Lines 7--25: the exit status and the store after the run.\<close>

definition createAdminUser :: "db \<Rightarrow> nat \<times> db" where
  "createAdminUser d =
     (let (i, d1) = fresh_oid d; u = admin_user i in
      if user_clash u d then (1, d) else (0, d1\<lparr>users := users d1 @ [u]\<rparr>))"

section \<open>Lemmas\<close>

lemma user_clash_admin:
  "user_clash (admin_user i) d \<longleftrightarrow>
   (\<exists>u' \<in> set (users d). username u' = ''admin'' \<or> email u' = ''admin@example.com'')"
  by (simp add: user_clash_def admin_user_def list_ex_iff)

lemma createAdminUser_cases:
  obtains "user_clash (admin_user (next_oid d)) d" and "createAdminUser d = (1, d)"
  | "\<not> user_clash (admin_user (next_oid d)) d" and
    "createAdminUser d = (0, d\<lparr>next_oid := Suc (next_oid d), users := users d @ [admin_user (next_oid d)]\<rparr>)"
  by (cases "user_clash (admin_user (next_oid d)) d") (auto simp: createAdminUser_def fresh_oid_def)

section \<open>Properties of the script\<close>

text \<open>
  The script keeps the store well formed: the new user gets a fresh id, and the
  unique index keeps usernames distinct, so tasks and users stay consistent whether the
  run succeeds or fails.
\<close>

theorem createAdminUser_keeps_wf:
  assumes "wf_db d"
  shows "wf_db (snd (createAdminUser d))"
proof (cases rule: createAdminUser_cases [of d])
  case 1
  with assms show ?thesis by simp
next
  case 2
  then have "\<forall>u' \<in> set (users d). username u' \<noteq> ''admin''" by (auto simp: user_clash_admin)
  with 2 assms show ?thesis
    by (auto simp: wf_db_def user_ids_def admin_user_def less_Suc_eq)
qed

text \<open>
  The script runs successfully at most once: after any first run, a second run exits
  with status 1 and leaves the store as it is, and after a successful run the store holds an
  administrator named \<open>admin\<close>.
\<close>

theorem createAdminUser_once:
  "createAdminUser (snd (createAdminUser d)) = (1, snd (createAdminUser d)) \<and>
   (fst (createAdminUser d) = 0 \<longrightarrow>
      (\<exists>u \<in> set (users (snd (createAdminUser d))). username u = ''admin'' \<and> isAdmin u))"
proof (cases rule: createAdminUser_cases [of d])
  case 1
  then show ?thesis by simp
next
  case 2
  let ?d = "d\<lparr>next_oid := Suc (next_oid d), users := users d @ [admin_user (next_oid d)]\<rparr>"
  have "user_clash (admin_user (next_oid ?d)) ?d"
    unfolding user_clash_admin by (simp add: admin_user_def)
  then have "createAdminUser ?d = (1, ?d)" by (simp add: createAdminUser_def fresh_oid_def)
  with 2 show ?thesis by (auto simp: admin_user_def)
qed

end
