(* ===== verification/Secrets.thy ===== *)
theory Secrets
  imports Routes
begin

text \<open>
  The credential secret of the \<open>User\<close> model (spec, section 3: never exposed in read
  paths).  Stripping the secrets from a store or a principal commutes with every store
  operation and every handler, so two stores that differ only in their users' passwords
  give the same responses, and stores that again differ only in passwords.  This is the
  noninterference of the secrets with everything outside the \<open>/api/auth\<close> router, the
  only code that reads them.
\<close>

section \<open>Stores and requests without secrets\<close>

definition strip_user :: "user \<Rightarrow> user" where
  "strip_user u = u\<lparr>password := []\<rparr>"

definition strip_db :: "db \<Rightarrow> db" where
  "strip_db d = d\<lparr>users := map strip_user (users d)\<rparr>"

definition strip_req :: "request \<Rightarrow> request" where
  "strip_req r = r\<lparr>req_user := map_option strip_user (req_user r)\<rparr>"

section \<open>Lemmas\<close>

named_theorems strip_simps "stripping the secrets commutes with the store and the handlers"

lemma strip_user_sel [simp]:
  "user_id (strip_user u) = user_id u" "username (strip_user u) = username u"
  "email (strip_user u) = email u" "isAdmin (strip_user u) = isAdmin u"
  by (simp_all add: strip_user_def)

lemma strip_db_sel [simp]:
  "tasks (strip_db d) = tasks d" "next_oid (strip_db d) = next_oid d"
  "users (strip_db d) = map strip_user (users d)"
  by (simp_all add: strip_db_def)

lemma strip_req_sel [simp]:
  "req_user (strip_req r) = map_option strip_user (req_user r)" "req_id (strip_req r) = req_id r"
  "req_query (strip_req r) = req_query r" "req_body (strip_req r) = req_body r"
  "req_now (strip_req r) = req_now r"
  by (simp_all add: strip_req_def)

lemma find_user_by_name_strip [strip_simps]:
  "find_user_by_name (strip_db d) n = map_option strip_user (find_user_by_name d n)"
  by (simp add: find_user_by_name_def find_map comp_def)

lemma assignee_missing_strip [strip_simps]: "assignee_missing (strip_db d) b = assignee_missing d b"
  by (simp add: assignee_missing_def find_user_by_name_strip split: option.split)

lemma authenticate_strip [strip_simps]:
  "authenticate (strip_db d) tok = map_option strip_user (authenticate d tok)"
  by (cases tok) (simp_all add: authenticate_def find_map comp_def)

lemma populate_strip [strip_simps]: "populate (strip_db d) r = populate d r"
  by (simp add: populate_def find_map comp_def option.map_comp split: option.split)

lemma view_task_strip [strip_simps]: "view_task (strip_db d) = view_task d"
  by (simp add: fun_eq_iff view_task_def populate_strip)

lemma find_task_strip [strip_simps]: "find_task (strip_db d) i = find_task d i"
  by (simp add: find_task_def)

lemma user_ids_strip [strip_simps]: "user_ids (strip_db d) = user_ids d"
  by (simp add: user_ids_def image_image)

lemma store_ops_strip [strip_simps]:
  "insert_task t (strip_db d) = strip_db (insert_task t d)"
  "replace_task t (strip_db d) = strip_db (replace_task t d)"
  "remove_task i (strip_db d) = strip_db (remove_task i d)"
  "fresh_oid (strip_db d) = (fst (fresh_oid d), strip_db (snd (fresh_oid d)))"
  by (simp_all add: insert_task_def replace_task_def remove_task_def fresh_oid_def strip_db_def)

lemma scope_filter_strip [strip_simps]: "scope_filter (strip_user p) = scope_filter p"
  by (simp add: scope_filter_def fun_eq_iff)

lemma add_assignee_strip [strip_simps]: "add_assignee (strip_db d) q = add_assignee d q"
proof -
  have "(\<lambda>n f. case find_user_by_name (strip_db d) n of
                  Some u \<Rightarrow> f\<lparr>fl_assignedTo := Some (user_id u)\<rparr> | None \<Rightarrow> f) =
        (\<lambda>n f. case find_user_by_name d n of
                  Some u \<Rightarrow> f\<lparr>fl_assignedTo := Some (user_id u)\<rparr> | None \<Rightarrow> f)"
    by (simp add: fun_eq_iff find_user_by_name_strip split: option.split)
  then show ?thesis unfolding add_assignee_def by (rule arg_cong)
qed

lemma filters_strip [strip_simps]:
  "list_filter (strip_db d) p q = list_filter d p q"
  "list_filter d (strip_user p) q = list_filter d p q"
  "summary_filter (strip_user p) q = summary_filter p q"
  by (simp_all add: list_filter_def summary_filter_def add_assignee_strip scope_filter_strip)

lemma find_tasks_strip [strip_simps]: "find_tasks (strip_db d) f = find_tasks d f"
  by (simp add: find_tasks_def)

lemma aggregate_summary_strip [strip_simps]: "aggregate_summary (strip_db d) f = aggregate_summary d f"
  by (simp add: aggregate_summary_def find_tasks_strip)

lemma to_request_strip: "to_request h (Some (strip_user u)) c = strip_req (to_request h (Some u) c)"
  by (simp add: to_request_def strip_req_def)

text \<open>The middleware and the routing commute with stripping once the handlers do.\<close>

lemma dispatch_strip:
  assumes handlers: "\<And>h d r. run_handler h (strip_db d) (strip_req r) =
                        (fst (run_handler h d r), strip_db (snd (run_handler h d r)))"
    and "map lower_str (take 2 (h_path h)) \<noteq> auth_prefix"
  shows "dispatch ar (strip_db d) h = (fst (dispatch ar d h), strip_db (snd (dispatch ar d h)))"
proof (cases "find_mount mounts (h_method h) (h_path h)")
  case None
  with assms(2) show ?thesis by (simp add: dispatch_def)
next
  case (Some rc)
  obtain rt cap where rc: "rc = (rt, cap)" by (cases rc)
  show ?thesis
  proof (cases "r_auth rt")
    case True
    with assms(2) Some rc show ?thesis
      by (cases "authenticate d (h_token h)")
         (simp_all add: dispatch_def authenticate_strip handlers to_request_strip)
  next
    case False
    have "to_request h None cap = strip_req (to_request h None cap)"
      by (simp add: to_request_def strip_req_def)
    with assms(2) Some rc False show ?thesis
      by (simp add: dispatch_def handlers [symmetric])
  qed
qed

section \<open>Properties of the secrets\<close>

text \<open>
  C23.  The users' credential secrets are never disclosed and never influence anything
  outside \<open>/api/auth\<close>: for two stores that differ only in their users' passwords, every
  request whose first two segments are not \<open>api/auth\<close> in any letter case (Express
  routes those to the authentication router) gets the same response, and the stores it
  leaves again differ only in passwords.
\<close>

theorem secrets_not_disclosed:
  assumes "strip_db d = strip_db d'" and "map lower_str (take 2 (h_path h)) \<noteq> auth_prefix"
  shows "fst (dispatch ar d h) = fst (dispatch ar d' h) \<and>
         strip_db (snd (dispatch ar d h)) = strip_db (snd (dispatch ar d' h))"
proof -
  have handlers: "run_handler k (strip_db e) (strip_req r) =
                    (fst (run_handler k e r), strip_db (snd (run_handler k e r)))" for k e r
    by (cases k)
       (simp_all add: createTask_def getTasks_def getTask_def updateTask_def deleteTask_def
         getTaskSummary_def getTaskSummaryJson_def getUsers_def Let_def comp_def strip_simps
         split: option.split prod.split)
  from dispatch_strip [OF handlers assms(2), of ar d] dispatch_strip [OF handlers assms(2), of ar d'] assms(1)
  show ?thesis by simp
qed

end
