(* ===== verification/Spec2Isabelle.thy ===== *)
theory Spec2Isabelle
  imports Examples Shell Admin Secrets
begin

text \<open>
  \<^bold>\<open>A verification development of the task-management application.\<close>

  The program is an Express/Mongoose backend (\<open>src/backend\<close>) and a React client
  (\<open>src/frontend/src\<close>).  A request reaches \<open>server.js\<close>, is routed by
  \<open>routes/taskRoutes.js\<close> or \<open>routes/userRoutes.js\<close> (most routes behind the
  \<open>auth\<close> middleware) to a handler of \<open>controllers/taskController.js\<close>; the handler
  validates the body with a Joi schema, builds a MongoDB filter scoped to the principal,
  reads and writes the \<open>Task\<close> and \<open>User\<close> collections and answers JSON.  The client
  keeps the session in \<open>context/AuthContext.jsx\<close> and talks to the API from the pages
  \<open>Tasks/TaskList.jsx\<close> and \<open>Tasks/TaskForm.jsx\<close>.

  \<^bold>\<open>Theories and what they model.\<close>
  \<^item> \<open>Prelude\<close>: ids (\<open>oid = nat\<close>), times (milliseconds, \<open>int\<close>), query strings
    as association lists, JavaScript truthiness of a query parameter, \<open>String(n)\<close> of a
    natural number, ASCII case folding (\<open>lower_str\<close>), shared list lemmas.
  \<^item> \<open>TaskModel\<close>: the \<open>Task\<close> schema of \<open>models/Task.js\<close> (record \<open>task\<close>,
    datatypes \<open>status\<close>, \<open>priority\<close>, defaults), the \<open>User\<close> document, the store
    \<open>db\<close> and the Mongoose calls (\<open>find_task\<close>, \<open>populate\<close>, whose \<open>None\<close>
    stands for both an absent reference and a dangling one, \<open>insert_task\<close>,
    \<open>replace_task\<close>, \<open>remove_task\<close>), the store invariant \<open>wf_db\<close>, and the
    collection seen as a finite map from id to task (\<open>abs_tasks\<close>).
  \<^item> \<open>Dates\<close>: \<open>new Date(s)\<close> on the ISO date-time forms (\<open>YYYY\<close>, \<open>YYYY-MM\<close>,
    \<open>YYYY-MM-DD\<close>, and the \<open>toISOString\<close> form), \<open>toISOString\<close>, and the valid
    date strings of HTML date inputs.
  \<^item> \<open>QueryFilter\<close>: the filter documents of \<open>getTasks\<close> and the summaries, one
    definition per statement of the builders, MongoDB matching, and the contracts
    \<open>list_spec\<close> and \<open>summary_spec\<close> (C1--C4).  The summary's date bounds go to
    \<open>Task.aggregate\<close> uncast, so an Invalid Date reaches MongoDB as the epoch
    (\<open>bson_date\<close>); the summary contract is stated for bounds that are dates, as the
    spec requires, and \<open>summary_invalid_end_date\<close> shows what happens otherwise.
  \<^item> \<open>Summary\<close>: the \<open>$group\<close> stage of \<open>Task.aggregate\<close> as a fold of its
    accumulators, and the reference grouping \<open>group_spec\<close> it refines (C5, C6, C8).
  \<^item> \<open>Csv\<close>: the \<open>format=csv\<close> export of \<open>getTaskSummary\<close>: the group documents as
    \<open>Task.aggregate\<close> returns them, \<open>JSON.stringify\<close>, \<open>json2csv\<close>'s default
    encoding (both libraries modelled from their documented behaviour) and an RFC 4180
    reader, a parser returning what it has not consumed (C17).
  \<^item> \<open>Validation\<close>: the Joi \<open>taskSchema\<close> (abort-early, unknown keys refused), with
    \<open>Joi.date()\<close>'s reading of a date (\<open>joi_date\<close>), and the decoding of a valid body
    with Mongoose's \<open>Date\<close> cast (\<open>cast_date\<close>), which reads short digit strings
    differently (C9, C10).
  \<^item> \<open>ObjectId\<close>: the cast of a path id and \<open>toString\<close> (C11, C12).
  \<^item> \<open>Handlers\<close>: the eight handlers as functions \<open>db \<Rightarrow> request \<Rightarrow> response \<times> db\<close>
    with a branch for every early return and every exception the \<open>catch\<close> turns into
    400, the CSV encoder's included, and their writes as updates of the finite map
    (C14--C16, C18--C22, C35).  \<open>updatedAt\<close> moves only when an update modifies the
    document.  A due date the cast rejects fails the save after the assignee lookup.
    \<open>deleteTask\<close> assumes Mongoose 6 or earlier, where \<open>Document.remove\<close> exists;
    \<open>deleteTask_m7\<close> is the handler under Mongoose 7, which never deletes.
  \<^item> \<open>Routes\<close>: routers, mount points and Express's first-match dispatch, matching
    paths without ASCII case as Express does by default, and the
    response type of each handler, a typing judgement \<open>well_typed\<close>; the CORS options
    and the port of \<open>server.js\<close> (C13, C24, C25).
  \<^item> \<open>Secrets\<close>: the \<open>password\<close> of the \<open>User\<close> model and its noninterference with
    everything outside \<open>/api/auth\<close>: removing the secrets commutes with every store
    operation, handler and the dispatch (C23).
  \<^item> \<open>Session\<close>: \<open>AuthProvider\<close> as a step function on a session record, the
    asynchronous \<open>fetchUser\<close> as its own event, reachability as an inductive relation
    (C27, C29, C39).
  \<^item> \<open>Pages\<close>: the state updates of \<open>TaskList\<close> and \<open>TaskForm\<close>, each request sent
    through \<open>Routes.dispatch\<close> against the store, and the list's fetch effect as React
    re-runs it, a \<open>partial_function\<close> in the option monad, the CSV file the download
    saves, the rendered task table, and the task form's required inputs, heading and
    button (C26, C30--C34, C36).
  \<^item> \<open>Shell\<close>: the client routes of \<open>App.jsx\<close> (case-insensitive, as React Router
    matches by default) behind \<open>PrivateRoute\<close>, the
    \<open>Navbar\<close> links, logout and its rendering by viewport width, the \<open>Login\<close>
    form with its rendering and the browser's validation, and the \<open>SummaryModal\<close>
    view (C7, C28, C37, C38, C40).
  \<^item> \<open>Admin\<close>: the bootstrap script \<open>scripts/createAdmin.js\<close>; its run keeps the
    store well formed and succeeds at most once (lemmas).
  \<^item> \<open>Examples\<close>: a concrete store (three users, four tasks) on which the witnesses below
    instantiate the theorems.

  \<^bold>\<open>What is proved.\<close>  The list query is exactly its contract, scoped to the principal,
  unscoped for administrators, and ignores an unknown assignee name (C1--C4).  The summary
  groups partition the matched tasks and are well formed (C5, C6, C8); their CSV export is
  lossless, read back by an RFC 4180 reader (C17).  Validation admits only schema keys,
  and a body built from fields round-trips (C9, C10).  Object ids round-trip and are
  96-bit (C11, C12).  Every handler's response has its declared type and success code,
  or is an error with a client-error code (C13).  Reads are safe: a 200 from
  \<open>getTask\<close> carries a task the principal may read (C14).  Writes need permission,
  never change a creator, keep the store well formed, and change nothing when they fail
  (C16, C18, C19, C21, C22).  A created task reads back with its creator and its assignee
  resolved to stored users (C20).  Every successful write is the matching update of the
  collection as a finite map from id to task (C35).  The users' passwords never reach a
  response nor change one (C23).  Routing: the unauthenticated route and the 401 boundary
  (C24, C25), the prefix \<open>/api/auth\<close> recognised in any letter case.  The list's fetch effect terminates after one fetch (C26).  The client
  session's header is an invariant of every reachable session (C27),
  and every reachable session can leave the loading state (C39, liveness).  A signed-out
  visitor sees no task page (C37); the sign-in form changes nothing unless the password is
  non-empty and the e-mail has the shape of an HTML e-mail address, and a rejected sign-in
  changes no session and shows its message (C28); the summary dialog shows one row per matched task
  (C40).  Deleting from the list removes the task from the store and
  the page (C32).  The task table links every row to its own task (C7).  Downloading the
  summary as CSV saves a file that reads back as the aggregate, end to end through the
  router, the handler and the encoder (C36).

  \<^bold>\<open>Defects the development exhibits.\<close>
  \<open>getTask\<close> answers 400 ("Cannot read properties of undefined"), not 403, on an
  unassigned task of another creator (C15); on a dangling assignee the message says
  \<open>null\<close>.  An unparseable summary date is not rejected: it becomes the epoch, and
  an invalid end date silently empties the summary (\<open>summary_invalid_end_date\<close>).
  \<open>Joi.date()\<close> and Mongoose disagree on digit strings: \<open>''2024''\<close> passes as a
  timestamp and is stored as 2024-01-01, \<open>''12''\<close> passes and then fails the save.
  The unauthenticated summary route always fails (C24).  A logout during the initial
  \<open>fetchUser\<close> (after a sign-in) leaves a signed-in user without a token (C29).  Pagination is inert,
  because the server ignores \<open>page\<close> and \<open>limit\<close> (C30).  The summary ignores the
  list's priority filter (C31).  The edit form can never save, because it sends \<open>_id\<close>
  (C33).  The create form needs an assignee, which only administrators can choose (C34),
  yet its page opens for every signed-in user (C38); on a viewport narrower than 768
  pixels the navigation bar offers no task link and no logout (C38).  The table never splits the list into
  pages, whatever page button is pressed (C7).  A CSV download with no matching task fails
  with 400, because \<open>json2csv\<close> throws on an empty summary (C36).

  \<^bold>\<open>Bounds.\<close>  No fuel is needed: every definition is structurally recursive or a fold,
  except the CSV reader, whose recursion is on the length of the text it has not read
  (a \<open>function\<close> with a measure), and the React effect loop \<open>Pages.settle_list\<close>, a partial function whose return
  after one fetch is proved (C26).  Ids are natural numbers; the properties that go
  through \<open>toString\<close> assume ids below \<open>2^96\<close>, which every cast id satisfies (C12).

  \<^bold>\<open>Not modelled.\<close>
  \<^item> \<open>json2csv\<close> and \<open>JSON.stringify\<close> beyond the values the summary holds: strings,
    integers, and objects and arrays of them.  Dates enter the export as their ISO strings.
  \<^item> The JSX markup, styling, icons and toasts: the views are modelled by what they show
    (screens, links, dialog and table rows), dates before locale formatting.
  \<^item> Code outside \<open>src\<close>: the \<open>auth\<close> middleware and \<open>PrivateRoute\<close> (modelled
    from their use: the guard \<open>user ? children : Navigate('/login')\<close>; a loading screen
    it may show while \<open>fetchUser\<close> is pending is not modelled), the \<open>/api/auth\<close> router (a parameter of \<open>dispatch\<close> and of the
    sign-in form), the \<open>User\<close> model (its unique username and email and its secret
    taken from the spec; the hash function its pre-save hook applies is not modelled, the
    stored secret is the given password, which the noninterference result does not need),
    \<open>Register.jsx\<close>, and \<open>services/api.js\<close> (modelled from its use).
  \<^item> Date strings of other forms than the ISO ones: the engine's implementation-defined
    fallback parser is modelled as returning an Invalid Date.
  \<^item> Query parameters other than strings: Express's \<open>qs\<close> parser turns
    \<open>status[]=a\<close> into an array and \<open>status[k]=a\<close> into an object, which the builders
    would copy into the filter; the model's query values are strings.
  \<^item> The Mongoose version: \<open>src\<close> pins none; both behaviours of
    \<open>Document.remove\<close> are modelled, the claims use the Mongoose 6 one.
  \<^item> Concurrency between requests: each handler runs as one atomic step on the store.
  \<^item> Module imports, \<open>export\<close> lines, \<open>connectDB\<close>, \<open>express.json()\<close> and the
    \<open>errorHandler\<close> of \<open>server.js\<close> (its module is not in \<open>src\<close>), and the SVG markup
    of the menu icon: plumbing with no behaviour of its own in the model's terms.
\<close>

section \<open>Witnesses\<close>

text \<open>An authentication router for the instances: it answers every request 404.\<close>

definition ex_auth :: app where
  "ex_auth d h = (error_resp 404 ''Not Found'', d)"

definition ex_empty_st :: list_state where
  "ex_empty_st = list_init\<lparr>l_filter := [(''status'', ''In Progress''), (''priority'', [])]\<rparr>"

theorem list_scoped_to_principal_witness:
  "\<not> isAdmin ex_alice \<and> ex_t1 \<in> set (find_tasks ex_db (list_filter ex_db ex_alice [])) \<and>
   (createdBy ex_t1 = user_id ex_alice \<or> assignedTo ex_t1 = Some (user_id ex_alice))"
proof -
  have h1: "\<not> isAdmin ex_alice" by (simp add: ex_alice_def)
  have h2: "ex_t1 \<in> set (find_tasks ex_db (list_filter ex_db ex_alice []))"
    by (simp add: find_tasks_def matches_list_filter list_spec_def can_read_def param_ok_def
        qparam_def example_defs)
  show ?thesis using list_scoped_to_principal [OF h1 h2] h1 h2 by simp
qed

theorem admin_list_unscoped_witness:
  "isAdmin ex_admin \<and>
   set (find_tasks ex_db (list_filter ex_db ex_alice [])) \<subseteq> set (find_tasks ex_db (list_filter ex_db ex_admin []))"
proof -
  have h: "isAdmin ex_admin" by (simp add: ex_admin_def)
  show ?thesis using admin_list_unscoped [OF h, of ex_db ex_alice "[]"] h by simp
qed

theorem unresolved_assignee_ignored_witness:
  "find_user_by_name ex_db ''carol'' = None \<and>
   find_tasks ex_db (list_filter ex_db ex_alice [(''assignedTo'', ''carol'')]) =
   find_tasks ex_db (list_filter ex_db ex_alice [])"
proof -
  have h: "find_user_by_name ex_db ''carol'' = None"
    by (simp add: find_user_by_name_def example_defs)
  show ?thesis using unresolved_assignee_ignored [OF h, of ex_alice "[]"] h by simp
qed

theorem summary_groups_wellformed_witness:
  "distinct (map key_of (aggregate_summary ex_db empty_filter)) \<and>
   g_count (hd (aggregate_summary ex_db empty_filter)) =
     length (g_tasks (hd (aggregate_summary ex_db empty_filter))) \<and>
   0 < g_count (hd (aggregate_summary ex_db empty_filter))"
proof -
  have ne: "aggregate_summary ex_db empty_filter \<noteq> []"
    by (simp add: aggregate_summary_def group_stage_def find_tasks_def example_defs)
  show ?thesis
    using summary_groups_wellformed [of ex_db empty_filter] hd_in_set [OF ne] by blast
qed

lemmas handler_eval = example_defs parse_oid_hex_lemma find_task_def view_task_def populate_def
  ok_resp_def error_resp_def Let_def validate_body_def task_schema_def unknown_key_def
  decode_body_def json_string_def find_user_by_name_def fresh_oid_def insert_task_def
  replace_task_def remove_task_def apply_input_def new_task_def

theorem getTask_read_safety_witness:
  "code (fst (getTask ex_db (ex_request ex_alice (oid_hex 10) [] []))) = 200 \<and>
   (\<exists>i t. parse_oid (oid_hex 10) = Some i \<and> find_task ex_db i = Some t \<and>
      resp (fst (getTask ex_db (ex_request ex_alice (oid_hex 10) [] []))) = RView (view_task ex_db t) \<and>
      can_read ex_alice t)"
proof -
  have h: "code (fst (getTask ex_db (ex_request ex_alice (oid_hex 10) [] []))) = 200"
    by (simp add: getTask_def handler_eval)
  show ?thesis
    using getTask_read_safety [OF refl h, of ex_alice] h by (simp add: ex_request_def)
qed

theorem getTask_unassigned_not_403_witness:
  "wf_db ex_db \<and> find_task ex_db 11 = Some ex_t2 \<and> \<not> isAdmin ex_alice \<and>
   createdBy ex_t2 \<noteq> user_id ex_alice \<and> assignedTo ex_t2 = None \<and>
   getTask ex_db (ex_request ex_alice (oid_hex 11) [] []) = (error_resp 400 (undefined_read ''_id''), ex_db)"
proof -
  have h: "wf_db ex_db" "parse_oid (req_id (ex_request ex_alice (oid_hex 11) [] [])) = Some 11"
    "find_task ex_db 11 = Some ex_t2" "req_user (ex_request ex_alice (oid_hex 11) [] []) = Some ex_alice"
    "\<not> isAdmin ex_alice" "createdBy ex_t2 \<noteq> user_id ex_alice" "assignedTo ex_t2 = None"
    by (simp_all add: wf_db_def user_ids_def handler_eval)
  show ?thesis using getTask_unassigned_not_403 [OF h] h by simp
qed

theorem updateTask_denied_witness:
  "\<not> can_write ex_alice ex_t3 \<and> assignedTo ex_t3 = Some (user_id ex_alice) \<and>
   updateTask ex_db (ex_request ex_alice (oid_hex 12) [] ex_body) = (error_resp 403 ''Access denied'', ex_db)"
proof -
  have h: "validate_body (req_body (ex_request ex_alice (oid_hex 12) [] ex_body)) = None"
    "parse_oid (req_id (ex_request ex_alice (oid_hex 12) [] ex_body)) = Some 12"
    "find_task ex_db 12 = Some ex_t3" "req_user (ex_request ex_alice (oid_hex 12) [] ex_body) = Some ex_alice"
    "\<not> can_write ex_alice ex_t3"
    by (simp_all add: can_write_def handler_eval)
  show ?thesis using updateTask_denied [OF h] h by (simp add: handler_eval)
qed

theorem deleteTask_denied_witness:
  "\<not> can_write ex_alice ex_t3 \<and>
   deleteTask ex_db (ex_request ex_alice (oid_hex 12) [] []) = (error_resp 403 ''Access denied'', ex_db)"
proof -
  have h: "parse_oid (req_id (ex_request ex_alice (oid_hex 12) [] [])) = Some 12"
    "find_task ex_db 12 = Some ex_t3" "req_user (ex_request ex_alice (oid_hex 12) [] []) = Some ex_alice"
    "\<not> can_write ex_alice ex_t3"
    by (simp_all add: can_write_def handler_eval)
  show ?thesis using deleteTask_denied [OF h] h by simp
qed

theorem write_requires_permission_witness:
  "code (fst (deleteTask ex_db (ex_request ex_admin (oid_hex 11) [] []))) = 200 \<and>
   can_write ex_admin ex_t2"
proof -
  have h: "code (fst (deleteTask ex_db (ex_request ex_admin (oid_hex 11) [] []))) = 200"
    by (simp add: deleteTask_def handler_eval)
  from write_requires_permission [of ex_db "ex_request ex_admin (oid_hex 11) [] []"
      "fst (deleteTask ex_db (ex_request ex_admin (oid_hex 11) [] []))"
      "snd (deleteTask ex_db (ex_request ex_admin (oid_hex 11) [] []))"] h
  have "\<exists>p i t. Some ex_admin = Some p \<and> parse_oid (oid_hex 11) = Some i \<and> find_task ex_db i = Some t \<and>
          can_write p t"
    by (auto simp: ex_request_def)
  then show ?thesis using h by (auto simp: handler_eval)
qed

theorem update_keeps_creators_witness:
  "wf_db ex_db \<and> code (fst (updateTask ex_db (ex_request ex_alice (oid_hex 10) [] ex_body))) = 200 \<and>
   map (\<lambda>t. (task_id t, createdBy t)) (tasks (snd (updateTask ex_db (ex_request ex_alice (oid_hex 10) [] ex_body)))) =
   map (\<lambda>t. (task_id t, createdBy t)) (tasks ex_db)"
proof -
  have h: "wf_db ex_db" by (simp add: wf_db_def user_ids_def handler_eval)
  have c: "code (fst (updateTask ex_db (ex_request ex_alice (oid_hex 10) [] ex_body))) = 200"
    by (simp add: updateTask_def handler_eval)
  show ?thesis using update_keeps_creators [OF h prod.collapse [symmetric]] h c by simp
qed

theorem createTask_creator_witness:
  "code (fst (createTask ex_db (ex_request ex_alice [] [] (ex_body @ [(''assignedTo'', JStr ''bob'')])))) = 201 \<and>
   (\<exists>t. tasks (snd (createTask ex_db (ex_request ex_alice [] [] (ex_body @ [(''assignedTo'', JStr ''bob'')])))) =
          tasks ex_db @ [t] \<and> createdBy t = user_id ex_alice \<and> task_id t = next_oid ex_db)"
proof -
  have h: "code (fst (createTask ex_db (ex_request ex_alice [] [] (ex_body @ [(''assignedTo'', JStr ''bob'')])))) = 201"
    by (simp add: createTask_def handler_eval)
  from createTask_creator [OF prod.collapse [symmetric] h] h show ?thesis
    by (auto simp: ex_request_def)
qed

theorem create_then_read_witness:
  "code (fst (createTask ex_db (ex_request ex_alice [] [] (ex_body @ [(''assignedTo'', JStr ''bob'')])))) = 201 \<and>
   (\<exists>t. resp (fst (createTask ex_db (ex_request ex_alice [] [] (ex_body @ [(''assignedTo'', JStr ''bob'')])))) = RTask t \<and>
        code (fst (getTask (snd (createTask ex_db (ex_request ex_alice [] [] (ex_body @ [(''assignedTo'', JStr ''bob'')]))))
                           (ex_request ex_alice (oid_hex 14) [] []))) = 200 \<and>
        tv_createdBy (view_task (snd (createTask ex_db (ex_request ex_alice [] [] (ex_body @ [(''assignedTo'', JStr ''bob'')])))) t) =
          Some \<lparr>ref_id = 1, ref_username = ''alice''\<rparr> \<and>
        tv_assignedTo (view_task (snd (createTask ex_db (ex_request ex_alice [] [] (ex_body @ [(''assignedTo'', JStr ''bob'')])))) t) =
          Some \<lparr>ref_id = 2, ref_username = ''bob''\<rparr>)"
proof -
  let ?r = "ex_request ex_alice [] [] (ex_body @ [(''assignedTo'', JStr ''bob'')])"
  let ?r' = "ex_request ex_alice (oid_hex 14) [] []"
  have h1: "wf_db ex_db" by (simp add: wf_db_def user_ids_def handler_eval)
  have h2: "principal_in ex_db ?r" by (simp add: principal_in_def handler_eval)
  have h4: "code (fst (createTask ex_db ?r)) = 201" by (simp add: createTask_def handler_eval)
  have h5: "next_oid ex_db < 2 ^ 96" by (simp add: ex_db_def)
  have h6: "req_user ?r' = req_user ?r" by (simp add: ex_request_def)
  have h7: "req_id ?r' = oid_hex (next_oid ex_db)" by (simp add: ex_request_def ex_db_def)
  have dec: "decode_body (req_body ?r) = Some (the (decode_body (req_body ?r)))"
    and asg: "in_assignedTo (the (decode_body (req_body ?r))) = Some ''bob''"
    by (simp_all add: decode_body_def json_string_def ex_request_def ex_body_def)
  have bob: "find_user_by_name ex_db ''bob'' = Some ex_bob" by (simp add: find_user_by_name_def example_defs)
  from create_then_read [OF h1 h2 prod.collapse [symmetric] h4 h5 h6 h7] obtain p t where
    p: "req_user ?r = Some p" and t: "resp (fst (createTask ex_db ?r)) = RTask t"
    and g: "getTask (snd (createTask ex_db ?r)) ?r' =
              (ok_resp 200 (RView (view_task (snd (createTask ex_db ?r)) t)), snd (createTask ex_db ?r))"
    and c: "tv_createdBy (view_task (snd (createTask ex_db ?r)) t) = Some \<lparr>ref_id = user_id p, ref_username = username p\<rparr>"
    and a: "\<forall>inp n. decode_body (req_body ?r) = Some inp \<longrightarrow> in_assignedTo inp = Some n \<longrightarrow> n \<noteq> [] \<longrightarrow>
              (\<exists>u. find_user_by_name ex_db n = Some u \<and>
                   tv_assignedTo (view_task (snd (createTask ex_db ?r)) t) = Some \<lparr>ref_id = user_id u, ref_username = n\<rparr>)"
    by blast
  from a dec asg bob have a': "tv_assignedTo (view_task (snd (createTask ex_db ?r)) t) = Some \<lparr>ref_id = 2, ref_username = ''bob''\<rparr>"
    by (auto simp: ex_bob_def)
  from p have "p = ex_alice" by (simp add: ex_request_def)
  with c have c': "tv_createdBy (view_task (snd (createTask ex_db ?r)) t) = Some \<lparr>ref_id = 1, ref_username = ''alice''\<rparr>"
    by (simp add: ex_alice_def)
  from g have "code (fst (getTask (snd (createTask ex_db ?r)) ?r')) = 200" by (simp add: ok_resp_def)
  with h4 t c' a' show ?thesis by blast
qed

theorem handlers_keep_wf_db_witness:
  "wf_db ex_db \<and> principal_in ex_db (ex_request ex_alice (oid_hex 10) [] ex_body) \<and>
   wf_db (snd (updateTask ex_db (ex_request ex_alice (oid_hex 10) [] ex_body)))"
proof -
  have h: "wf_db ex_db" "principal_in ex_db (ex_request ex_alice (oid_hex 10) [] ex_body)"
    by (simp_all add: wf_db_def user_ids_def principal_in_def handler_eval)
  show ?thesis using handlers_keep_wf_db [OF h] h by simp
qed

theorem failed_writes_change_nothing_witness:
  "code (fst (updateTask ex_db (ex_request ex_alice (oid_hex 12) [] ex_body))) = 403 \<and>
   tasks (snd (updateTask ex_db (ex_request ex_alice (oid_hex 12) [] ex_body))) = tasks ex_db"
proof -
  have h: "code (fst (updateTask ex_db (ex_request ex_alice (oid_hex 12) [] ex_body))) = 403"
    by (simp add: updateTask_def can_write_def handler_eval)
  show ?thesis
    using failed_writes_change_nothing [of ex_db "ex_request ex_alice (oid_hex 12) [] ex_body"
      "fst (updateTask ex_db (ex_request ex_alice (oid_hex 12) [] ex_body))"
      "snd (updateTask ex_db (ex_request ex_alice (oid_hex 12) [] ex_body))"] h by simp
qed

theorem valid_body_schema_keys_only_witness:
  "validate_body ex_body = None \<and> (''dueDate'', JNum 1704067200000) \<in> set ex_body \<and>
   ''dueDate'' \<in> {''title'', ''description'', ''dueDate'', ''status'', ''assignedTo'', ''priority''}"
proof -
  have h: "validate_body ex_body = None" "(''dueDate'', JNum 1704067200000) \<in> set ex_body"
    by (simp_all add: handler_eval)
  show ?thesis using valid_body_schema_keys_only [OF h] h by simp
qed

theorem body_roundtrip_witness:
  "in_title ex_input \<noteq> [] \<and> in_description ex_input \<noteq> [] \<and> in_assignedTo ex_input = Some ''bob'' \<and>
   validate_body (encode_input ex_input) = None \<and> decode_body (encode_input ex_input) = Some ex_input"
proof -
  have h: "in_title ex_input \<noteq> []" "in_description ex_input \<noteq> []"
    "\<forall>n. in_assignedTo ex_input = Some n \<longrightarrow> n \<noteq> []"
    by (simp_all add: ex_input_def)
  show ?thesis using body_roundtrip [OF h] h by (simp add: ex_input_def)
qed

theorem oid_roundtrip_witness:
  "(11::nat) < 2 ^ 96 \<and> parse_oid (oid_hex 11) = Some 11"
proof -
  have h: "(11::nat) < 2 ^ 96" by simp
  show ?thesis using oid_roundtrip [OF h] h by simp
qed

theorem parse_oid_bound_witness:
  "parse_oid ''abcdefghijkl'' = Some (bytes_val ''abcdefghijkl'') \<and> bytes_val ''abcdefghijkl'' < 2 ^ 96"
proof -
  have h: "parse_oid ''abcdefghijkl'' = Some (bytes_val ''abcdefghijkl'')"
    by (simp add: parse_oid_def)
  show ?thesis using parse_oid_bound [OF h] h by simp
qed

theorem oid_hex_eq_iff_witness:
  "(10::nat) < 2 ^ 96 \<and> (11::nat) < 2 ^ 96 \<and> oid_hex 10 \<noteq> oid_hex 11"
proof -
  have h: "(10::nat) < 2 ^ 96" "(11::nat) < 2 ^ 96" by simp_all
  show ?thesis using oid_hex_eq_iff [OF h] h by simp
qed

theorem summary_route_precedence_witness:
  "dispatch ex_auth ex_db \<lparr>h_method = GET, h_path = [''api'', ''tasks'', ''summary''], h_token = Some 0,
                   h_query = [], h_body = [], h_now = 1000\<rparr> =
     (case authenticate ex_db (Some 0) of
        None \<Rightarrow> (error_resp 401 ''Unauthorized'', ex_db)
      | Some u \<Rightarrow> getTaskSummary ex_db
          (to_request \<lparr>h_method = GET, h_path = [''api'', ''tasks'', ''summary''], h_token = Some 0,
                       h_query = [], h_body = [], h_now = 1000\<rparr> (Some u) []))"
  using summary_route_precedence [where h = "\<lparr>h_method = GET, h_path = [''api'', ''tasks'', ''summary''], h_token = Some 0, h_query = [], h_body = [], h_now = 1000\<rparr>" and d = ex_db and ar = ex_auth] by simp

theorem summary_json_route_always_400_witness:
  "dispatch ex_auth ex_db \<lparr>h_method = GET, h_path = [''api'', ''tasks'', ''tasks'', ''summary-json''],
                   h_token = Some 0, h_query = [(''status'', ''Completed'')], h_body = [], h_now = 1000\<rparr> =
     (error_resp 400 (undefined_read ''isAdmin''), ex_db)"
  using summary_json_route_always_400 [where h = "\<lparr>h_method = GET, h_path = [''api'', ''tasks'', ''tasks'', ''summary-json''], h_token = Some 0, h_query = [(''status'', ''Completed'')], h_body = [], h_now = 1000\<rparr>" and d = ex_db and ar = ex_auth] by simp

theorem unauthenticated_no_effect_witness:
  "authenticate ex_db (Some 99) = None \<and> map lower_str (take 2 [''API'', ''Tasks'', ''x'']) \<noteq> auth_prefix \<and>
   snd (dispatch ex_auth ex_db \<lparr>h_method = DELETE, h_path = [''API'', ''Tasks'', ''x''], h_token = Some 99,
                        h_query = [], h_body = [], h_now = 1000\<rparr>) = ex_db \<and>
   code (fst (dispatch ex_auth ex_db \<lparr>h_method = DELETE, h_path = [''API'', ''Tasks'', ''x''], h_token = Some 99,
                              h_query = [], h_body = [], h_now = 1000\<rparr>)) \<in> {400, 401, 404}"
proof -
  have h: "authenticate ex_db (Some 99) = None" by (simp add: authenticate_def example_defs)
  show ?thesis using unauthenticated_no_effect [where d = ex_db and ar = ex_auth and h = "\<lparr>h_method = DELETE, h_path = [''API'', ''Tasks'', ''x''], h_token = Some 99, h_query = [], h_body = [], h_now = 1000\<rparr>"] h by (simp add: auth_prefix_def lower_eval)
qed

theorem id_routes_dispatch_witness:
  "authenticate ex_db (Some 1) = Some ex_alice \<and>
   dispatch ex_auth ex_db \<lparr>h_method = GET, h_path = [''api'', ''tasks'', ''abc''], h_token = Some 1,
                   h_query = [], h_body = [], h_now = 1000\<rparr> =
     getTask ex_db (to_request \<lparr>h_method = GET, h_path = [''api'', ''tasks'', ''abc''], h_token = Some 1,
                                h_query = [], h_body = [], h_now = 1000\<rparr> (Some ex_alice) ''abc'')"
proof -
  have h: "authenticate ex_db (Some 1) = Some ex_alice" by (simp add: authenticate_def example_defs)
  show ?thesis using id_routes_dispatch [where h = "\<lparr>h_method = GET, h_path = [''api'', ''tasks'', ''abc''], h_token = Some 1, h_query = [], h_body = [], h_now = 1000\<rparr>" and x = "''abc''" and d = ex_db and u = ex_alice and ar = ex_auth] h by (simp add: lower_eval)
qed

theorem session_header_invariant_witness:
  "reachable_session (run_session (session_init (Some ''tok'')) [Mount]) \<and>
   header_matches (run_session (session_init (Some ''tok'')) [Mount]) \<and>
   s_header (run_session (session_init (Some ''tok'')) [Mount]) = Some (bearer ''tok'')"
proof -
  have r: "reachable_session (run_session (session_init (Some ''tok'')) [Mount])"
    by (rule reachable_session_run [OF reachable_session.init]) (simp add: session_init_def)
  show ?thesis using r session_header_invariant [OF r] by (simp add: session_init_def)
qed

theorem session_loading_invariant_witness:
  "reachable_session (run_session (session_init None) [Mount]) \<and>
   loading_matches (run_session (session_init None) [Mount]) \<and>
   \<not> s_loading (run_session (session_init None) [Mount])"
proof -
  have r: "reachable_session (run_session (session_init None) [Mount])"
    by (rule reachable_session_run [OF reachable_session.init]) (simp add: session_init_def)
  show ?thesis using r session_loading_invariant [OF r] by (simp add: session_init_def)
qed

theorem delete_then_refresh_witness:
  "authenticate ex_db (Some 0) = Some ex_admin \<and> find_task ex_db 10 = Some ex_t1 \<and>
   can_write ex_admin ex_t1 \<and> (10::nat) < 2 ^ 96 \<and>
   (let (st', d') = handleDeleteTask ex_auth ex_db (Some 0) 1000 (oid_hex 10) list_init in
    d' = remove_task 10 ex_db \<and> l_error st' = None \<and> \<not> l_loading st' \<and>
    10 \<notin> task_id ` tv_task ` set (l_tasks st'))"
proof -
  have h1: "authenticate ex_db (Some 0) = Some ex_admin" by (simp add: authenticate_def example_defs)
  have h2: "find_task ex_db 10 = Some ex_t1" by (simp add: find_task_def example_defs)
  have h3: "can_write ex_admin ex_t1" by (simp add: can_write_def example_defs)
  have h4: "(10::nat) < 2 ^ 96" by simp
  show ?thesis by (intro conjI h1 h2 h3 h4 delete_then_refresh [OF h1 h2 h3 h4])
qed

theorem edit_form_always_rejected_witness:
  "handleSubmit ex_auth ex_db (Some 0) 1000 (Some (oid_hex 10))
     (form_changes (task_json (view_task ex_db ex_t1)) [(''title'', ''B''), (''status'', ''Completed'')]) =
   (False, ex_db) \<and>
   form_submit ex_auth ex_db (Some 0) 1000 (Some (oid_hex 10))
     (form_changes (task_json (view_task ex_db ex_t1)) [(''title'', ''B''), (''status'', ''Completed'')]) =
   (False, ex_db)"
  using edit_form_always_rejected [of "[(''title'', ''B''), (''status'', ''Completed'')]" ex_auth ex_db
      "Some 0" 1000 "oid_hex 10" "view_task ex_db ex_t1"]
  by simp

theorem create_form_requires_assignee_witness:
  "handleSubmit ex_auth ex_db (Some 2) 1000 None
     (form_changes form_init [(''title'', ''T''), (''description'', ''d''), (''dueDate'', ''2024-01-01'')]) =
   (False, ex_db)"
  by (rule create_form_requires_assignee) simp

theorem createAdminUser_keeps_wf_witness:
  "wf_db \<lparr>tasks = [], users = [ex_alice], next_oid = 5\<rparr> \<and> fst (createAdminUser \<lparr>tasks = [], users = [ex_alice], next_oid = 5\<rparr>) = 0 \<and> wf_db (snd (createAdminUser \<lparr>tasks = [], users = [ex_alice], next_oid = 5\<rparr>))"
proof -
  have h: "wf_db \<lparr>tasks = [], users = [ex_alice], next_oid = 5\<rparr>" by (simp add: wf_db_def user_ids_def ex_alice_def)
  have c: "fst (createAdminUser \<lparr>tasks = [], users = [ex_alice], next_oid = 5\<rparr>) = 0"
    by (simp add: createAdminUser_def fresh_oid_def user_clash_def admin_user_def ex_alice_def)
  show ?thesis using createAdminUser_keeps_wf [OF h] h c by simp
qed

theorem createAdminUser_once_witness:
  "fst (createAdminUser \<lparr>tasks = [], users = [ex_alice], next_oid = 5\<rparr>) = 0 \<and>
   createAdminUser (snd (createAdminUser \<lparr>tasks = [], users = [ex_alice], next_oid = 5\<rparr>)) = (1, snd (createAdminUser \<lparr>tasks = [], users = [ex_alice], next_oid = 5\<rparr>)) \<and>
   (\<exists>u \<in> set (users (snd (createAdminUser \<lparr>tasks = [], users = [ex_alice], next_oid = 5\<rparr>))). username u = ''admin'' \<and> isAdmin u)"
proof -
  have c: "fst (createAdminUser \<lparr>tasks = [], users = [ex_alice], next_oid = 5\<rparr>) = 0"
    by (simp add: createAdminUser_def fresh_oid_def user_clash_def admin_user_def ex_alice_def)
  show ?thesis using createAdminUser_once [of "\<lparr>tasks = [], users = [ex_alice], next_oid = 5\<rparr>"] c by simp
qed

theorem signed_out_no_private_screen_witness:
  "s_user (fst (handleLogout (session_init (Some ''t'')))) = None \<and>
   app_screen (fst (handleLogout (session_init (Some ''t'')))) [''tasks'', ''new''] \<in>
     {ScreenLogin, ScreenRegister, ScreenBlank} \<and>
   NavTasks \<notin> set (nav_items (fst (handleLogout (session_init (Some ''t''))))) \<and>
   NavNewTask \<notin> set (nav_items (fst (handleLogout (session_init (Some ''t'')))))"
proof -
  have h: "s_user (fst (handleLogout (session_init (Some ''t'')))) = None"
    by (simp add: handleLogout_def)
  show ?thesis using signed_out_no_private_screen [OF h, of "[''tasks'', ''new'']"] h by simp
qed

theorem login_then_new_task_witness:
  "reachable_session (run_session (session_init None) [Mount]) \<and>
   s_mounted (run_session (session_init None) [Mount]) \<and>
   login_submit (\<lambda>e p. Some (ex_alice, ''tok'')) login_init (run_session (session_init None) [Mount]) =
     (login_init, session_step (run_session (session_init None) [Mount]) (LoginOk ex_alice ''tok''),
      Some [''tasks'']) \<and>
   app_screen (session_step (run_session (session_init None) [Mount]) (LoginOk ex_alice ''tok''))
     [''tasks'', ''new''] = ScreenNewTask \<and>
   NavNewTask \<notin> set (nav_items (session_step (run_session (session_init None) [Mount]) (LoginOk ex_alice ''tok'')))"
proof -
  have h1: "reachable_session (run_session (session_init None) [Mount])"
    by (rule reachable_session_run [OF reachable_session.init]) (simp add: session_init_def)
  have h2: "s_mounted (run_session (session_init None) [Mount])" by (simp add: session_init_def)
  have h3: "(\<lambda>e p. Some (ex_alice, ''tok'')) (lg_email login_init) (lg_password login_init) =
            Some (ex_alice, ''tok'')" by simp
  have h4: "login_submit (\<lambda>e p. Some (ex_alice, ''tok'')) login_init (run_session (session_init None) [Mount]) =
     (login_init, session_step (run_session (session_init None) [Mount]) (LoginOk ex_alice ''tok''),
      Some [''tasks''])" by (simp add: login_submit_def)
  show ?thesis using login_then_new_task [OF h1 h2 h3 h4] h1 h2 h4
    by (simp add: nav_target_def ex_alice_def)
qed

theorem session_loading_ends_witness:
  "reachable_session (session_init (Some ''t'')) \<and>
   (\<exists>es. run_enabled (session_init (Some ''t'')) es \<and> \<not> s_loading (run_session (session_init (Some ''t'')) es))"
proof -
  have h: "reachable_session (session_init (Some ''t''))" by (rule reachable_session.init)
  show ?thesis using session_loading_ends [OF h] h by blast
qed

theorem download_summary_csv_witness:
  "authenticate ex_db (Some 0) = Some ex_admin \<and>
   aggregate_summary ex_db (summary_filter ex_admin (AList.update ''format'' ''csv'' (l_filter ex_empty_st))) = [] \<and>
   handleDownloadSummary ex_auth ex_db (Some 0) 1000 ''csv'' ex_empty_st =
     (ex_empty_st\<lparr>l_error := Some ''Failed to download summary report. Please try again.''\<rparr>, ex_db, None)"
proof -
  let ?q = "AList.update ''format'' ''csv'' (l_filter ex_empty_st)"
  have h1: "authenticate ex_db (Some 0) = Some ex_admin" by (simp add: authenticate_def example_defs)
  have e: "aggregate_summary ex_db (summary_filter ex_admin ?q) = []"
    by (simp add: aggregate_summary_def group_stage_def find_tasks_def matches_def summary_filter_def
        add_status_def add_created_range_def scope_filter_def if_truthy_def qparam_def empty_filter_def
        ex_empty_st_def list_init_def example_defs)
  from download_summary_csv [OF h1 refl] e h1 show ?thesis by simp
qed

theorem list_table_links_witness:
  "\<not> l_loading (list_init\<lparr>l_loading := False, l_tasks := [view_task ex_db ex_t1]\<rparr>) \<and>
   l_error (list_init\<lparr>l_loading := False, l_tasks := [view_task ex_db ex_t1]\<rparr>) = None \<and>
   s_user (session_step (session_init None) (LoginOk ex_alice ''t'')) = Some ex_alice \<and>
   list_render (list_init\<lparr>l_loading := False, l_tasks := [view_task ex_db ex_t1], l_page := 2\<rparr>) =
     ListTable [list_row_of (view_task ex_db ex_t1)] [(1, False)] \<and>
   app_screen (session_step (session_init None) (LoginOk ex_alice ''t''))
     (row_edit (list_row_of (view_task ex_db ex_t1))) =
     ScreenEditTask (row_id (list_row_of (view_task ex_db ex_t1)))"
proof -
  let ?st = "list_init\<lparr>l_loading := False, l_tasks := [view_task ex_db ex_t1]\<rparr>"
  let ?s = "session_step (session_init None) (LoginOk ex_alice ''t'')"
  have h1: "\<not> l_loading ?st" and h2: "l_error ?st = None" by (simp_all add: list_init_def)
  have h3: "s_user ?s = Some ex_alice" by simp
  have b: "page_buttons ?st = [1]" by (simp add: page_buttons_def totalPages_def tasksPerPage_def)
  from list_table_links [OF h1 h2 h3, of 2] b h1 h2 h3 show ?thesis by simp
qed

theorem login_form_outcomes_witness:
  "login_form_submit (\<lambda>e p. Some (ex_alice, ''t'')) (login_init\<lparr>lg_email := ''alice@example.com'', lg_password := ''pw''\<rparr>)
     (session_init None) \<noteq>
     (login_init\<lparr>lg_email := ''alice@example.com'', lg_password := ''pw''\<rparr>, session_init None, None) \<and>
   (\<exists>l h. ''alice@example.com'' = l @ CHR ''@'' # h \<and> l \<noteq> [] \<and> list_all email_atext l \<and>
          h \<noteq> [] \<and> list_all (\<lambda>c. is_alnum c \<or> c = CHR ''-'' \<or> c = CHR ''.'') h \<and>
          is_alnum (hd h) \<and> is_alnum (last h)) \<and>
   login_form_valid (login_init\<lparr>lg_email := ''alice@example.com'', lg_password := ''pw''\<rparr>) \<and>
   fst (snd (login_form_submit (\<lambda>e p. None) (login_init\<lparr>lg_email := ''alice@example.com'', lg_password := ''pw''\<rparr>)
     (session_init None))) = session_init None \<and>
   lv_error (login_render (fst (login_form_submit (\<lambda>e p. None)
     (login_init\<lparr>lg_email := ''alice@example.com'', lg_password := ''pw''\<rparr>) (session_init None)))) =
     Some ''Invalid email or password''"
proof -
  let ?good = "login_init\<lparr>lg_email := ''alice@example.com'', lg_password := ''pw''\<rparr>"
  have h2: "login_form_valid ?good"
    by (simp add: login_form_valid_def valid_email_def email_label_def is_alnum_def email_atext_def
        login_init_def)
  have h1: "login_form_submit (\<lambda>e p. Some (ex_alice, ''t'')) ?good (session_init None) \<noteq>
            (?good, session_init None, None)"
    using h2 by (simp add: login_form_submit_def login_submit_def)
  have h3: "(\<lambda>e p. None :: (user \<times> string) option) (lg_email ?good) (lg_password ?good) = None" by simp
  from login_form_outcomes [of "\<lambda>e p. Some (ex_alice, ''t'')" ?good "session_init None"]
       login_form_outcomes [of "\<lambda>e p. None" ?good "session_init None"] h1 h2 h3
  show ?thesis by (simp add: login_init_def)
qed

theorem secrets_not_disclosed_witness:
  "strip_db ex_db = strip_db (ex_db\<lparr>users := [ex_admin, ex_alice\<lparr>password := ''changed''\<rparr>, ex_bob]\<rparr>) \<and>
   map lower_str (take 2 [''Api'', ''users'']) \<noteq> auth_prefix \<and>
   fst (dispatch ex_auth ex_db \<lparr>h_method = GET, h_path = [''Api'', ''users''], h_token = Some 0,
                                  h_query = [], h_body = [], h_now = 1000\<rparr>) =
   fst (dispatch ex_auth (ex_db\<lparr>users := [ex_admin, ex_alice\<lparr>password := ''changed''\<rparr>, ex_bob]\<rparr>)
          \<lparr>h_method = GET, h_path = [''Api'', ''users''], h_token = Some 0,
           h_query = [], h_body = [], h_now = 1000\<rparr>)"
proof -
  let ?d' = "ex_db\<lparr>users := [ex_admin, ex_alice\<lparr>password := ''changed''\<rparr>, ex_bob]\<rparr>"
  let ?h = "\<lparr>h_method = GET, h_path = [''Api'', ''users''], h_token = Some 0,
             h_query = [], h_body = [], h_now = 1000\<rparr>"
  have h1: "strip_db ex_db = strip_db ?d'" by (simp add: strip_db_def strip_user_def example_defs)
  have h2: "map lower_str (take 2 (h_path ?h)) \<noteq> auth_prefix" by (simp add: auth_prefix_def lower_eval)
  from secrets_not_disclosed [OF h1 h2, of ex_auth] h1 h2 show ?thesis by simp
qed

theorem writes_refine_map_witness:
  "wf_db ex_db \<and>
   code (fst (deleteTask ex_db (ex_request ex_admin (oid_hex 10) [] []))) = 200 \<and>
   abs_tasks (snd (deleteTask ex_db (ex_request ex_admin (oid_hex 10) [] []))) = (abs_tasks ex_db)(10 := None) \<and>
   code (fst (updateTask ex_db (ex_request ex_alice (oid_hex 10) [] ex_body))) = 200 \<and>
   (\<exists>t. resp (fst (updateTask ex_db (ex_request ex_alice (oid_hex 10) [] ex_body))) = RTask t \<and>
        abs_tasks (snd (updateTask ex_db (ex_request ex_alice (oid_hex 10) [] ex_body))) = (abs_tasks ex_db)(10 \<mapsto> t))"
proof -
  let ?rd = "ex_request ex_admin (oid_hex 10) [] []"
  let ?ru = "ex_request ex_alice (oid_hex 10) [] ex_body"
  have h: "wf_db ex_db" by (simp add: wf_db_def user_ids_def handler_eval)
  have cd: "code (fst (deleteTask ex_db ?rd)) = 200" by (simp add: deleteTask_def handler_eval)
  have cu: "code (fst (updateTask ex_db ?ru)) = 200" by (simp add: updateTask_def handler_eval)
  have p: "parse_oid (req_id ?rd) = Some 10" "parse_oid (req_id ?ru) = Some 10"
    by (simp_all add: ex_request_def parse_oid_hex_lemma)
  from writes_refine_map [OF h, where r = ?rd and res = "fst (deleteTask ex_db ?rd)"
         and d' = "snd (deleteTask ex_db ?rd)"] cd p
  have del: "abs_tasks (snd (deleteTask ex_db ?rd)) = (abs_tasks ex_db)(10 := None)" by auto
  from writes_refine_map [OF h, where r = ?ru and res = "fst (updateTask ex_db ?ru)"
         and d' = "snd (updateTask ex_db ?ru)"] cu p
  have "\<exists>t. resp (fst (updateTask ex_db ?ru)) = RTask t \<and>
            abs_tasks (snd (updateTask ex_db ?ru)) = (abs_tasks ex_db)(10 \<mapsto> t)" by auto
  with h cd cu del show ?thesis by blast
qed

end
